theory Spec2Isabelle
  imports Main "HOL-Library.Word"
begin

section \<open>Values shared by the commands of tidb-lightning-ctl\<close>

text \<open>
  A Go \<open>error\<close> value is represented by the text that \<open>err.Error()\<close> yields; a \<open>nil\<close>
  error is \<open>None\<close> of \<open>error option\<close>, and a \<open>(value, error)\<close> result is \<open>error + value\<close>.
\<close>

datatype error = Error (message: string)

type_synonym int32 = "32 word"
type_synonym int64 = "64 word"
type_synonym uuid = "128 word"

text \<open>\<open>errors.Trace\<close> only attaches a stack; the error (and \<open>nil\<close>) stays what it was.\<close>

definition Trace :: "error option \<Rightarrow> error option" where
  "Trace err = err"

text \<open>\<open>errors.Annotatef(err, format, args...)\<close> puts the formatted text before the cause.\<close>

definition Annotatef :: "error \<Rightarrow> string \<Rightarrow> error" where
  "Annotatef err msg = Error (msg @ '': '' @ message err)"

text \<open>The handle that \<open>os.Create(name)\<close> returns is a handle on the file \<open>name\<close>.\<close>

datatype os_File = os_File (Name: string)

text \<open>A closed engine is known to its backend by its UUID.\<close>

datatype ClosedEngine = ClosedEngine (uuid_of: uuid)

datatype SwitchMode = SwitchMode_Normal | SwitchMode_Import

text \<open>
  Modelled from the spec: the type of the states of a store is not among the sources.
  Section 3 of the specification: the state is one of \<open>Up\<close>, \<open>Disconnected\<close>, \<open>Tombstone\<close>
  and \<open>Offline\<close>.
\<close>

datatype StoreState = StoreStateUp | StoreStateDisconnected | StoreStateTombstone | StoreStateOffline

record Store =
  Address :: string
  State :: StoreState

text \<open>
  The engine identifiers are \<open>int32\<close>: \<open>checkpointErrorDestroy\<close> hands
  \<open>table.MinEngineID\<close> to \<open>UnsafeCloseEngine\<close> unconverted, where \<open>unsafeCloseEngine\<close>
  has to write \<open>int32(engineID)\<close>.
\<close>

record DestroyedTableCheckpoint =
  TableName :: string
  MinEngineID :: int32
  MaxEngineID :: int32

record TaskCheckpoint =
  TaskID :: int64

record TikvImporter =
  Backend :: string
  Addr :: string
  SortedKVDir :: string
  RegionSplitSize :: int64

record DBStore =
  PdAddr :: string

record Lightning =
  MetaSchemaName :: string

record Config =
  App :: Lightning
  TiDB :: DBStore
  TikvImporter :: TikvImporter

text \<open>
  The records keep the fields that \<open>main.go\<close> reads. The constants \<open>config.ImportMode\<close>,
  \<open>config.NormalMode\<close> and \<open>config.BackendLocal\<close> are not among the sources; their values
  are the ones \<open>main.go\<close> shows: the help text of the flag \<open>-switch-mode\<close> lists \<open>import\<close>
  and \<open>normal\<close>, and \<open>checkpointErrorDestroy\<close> tests the same field against \<open>"local"\<close>.
\<close>

definition ImportMode :: string where "ImportMode = ''import''"
definition NormalMode :: string where "NormalMode = ''normal''"
definition BackendLocal :: string where "BackendLocal = ''local''"


section \<open>External calls, their trace and the error stream\<close>

text \<open>
  External collaborators are reached through calls. Every call that a command makes is
  written to a trace together with the error the command got back from it (\<open>None\<close> for
  \<open>nil\<close>, and for calls whose result the code throws away, such as a deferred \<open>Close\<close>).
\<close>

datatype call =
    OpenCheckpointsDB
  | IsCheckpointsDBExists
  | CpdbClose
  | CpdbTaskCheckpoint
  | CpdbRemoveCheckpoint string
  | CpdbDestroyErrorCheckpoint string
  | CpdbGetLocalStoringTables
  | CpdbDumpTables string
  | CpdbDumpEngines string
  | CpdbDumpChunks string
  | NewTiDBManager
  | TargetClose
  | TargetDropTable string
  | NewImporter string string
  | ImporterClose
  | ImporterUnsafeCloseEngine string int32
  | ImporterUnsafeCloseEngineWithUUID string uuid
  | ClosedEngineCleanup ClosedEngine
  | ClosedEngineImport ClosedEngine int64
  | LocalFileCleanup uuid string
  | DBFromConfig
  | TableExists string string
  | RemoveTableMetaByTableName string string
  | MaybeCleanupAllMetas string bool
  | OsMkdirAll string
  | OsCreate string
  | FileClose string
  | PdGetStores string
  | TikvSwitchMode string SwitchMode
  | TikvFetchMode string

type_synonym event = "call \<times> error option"

record 'w state =
  world :: 'w
  trace :: "event list"
  stderr :: string

text \<open>
  The environment gives the outcome of every external call as a function of the
  arguments and of the state of the outside world, which the call may change. The
  last fields are pure: functions of the standard library and of packages that are not
  among the sources, and the two table names of the package \<open>restore\<close>.
\<close>

record 'w env =
  checkpoints_OpenCheckpointsDB :: "'w \<Rightarrow> error option \<times> 'w"
  checkpoints_IsCheckpointsDBExists :: "'w \<Rightarrow> (error + bool) \<times> 'w"
  cpdb_TaskCheckpoint :: "'w \<Rightarrow> (error + TaskCheckpoint option) \<times> 'w"
  cpdb_RemoveCheckpoint :: "string \<Rightarrow> 'w \<Rightarrow> error option \<times> 'w"
  cpdb_DestroyErrorCheckpoint :: "string \<Rightarrow> 'w \<Rightarrow> (error + DestroyedTableCheckpoint list) \<times> 'w"
  cpdb_GetLocalStoringTables :: "'w \<Rightarrow> (error + (string \<times> int32 list) list) \<times> 'w"
  cpdb_DumpTables :: "os_File \<Rightarrow> 'w \<Rightarrow> error option \<times> 'w"
  cpdb_DumpEngines :: "os_File \<Rightarrow> 'w \<Rightarrow> error option \<times> 'w"
  cpdb_DumpChunks :: "os_File \<Rightarrow> 'w \<Rightarrow> error option \<times> 'w"
  restore_NewTiDBManager :: "'w \<Rightarrow> error option \<times> 'w"
  target_DropTable :: "string \<Rightarrow> 'w \<Rightarrow> error option \<times> 'w"
  importer_NewImporter :: "string \<Rightarrow> string \<Rightarrow> 'w \<Rightarrow> error option \<times> 'w"
  importer_UnsafeCloseEngine :: "string \<Rightarrow> int32 \<Rightarrow> 'w \<Rightarrow> (error + ClosedEngine) \<times> 'w"
  importer_UnsafeCloseEngineWithUUID :: "string \<Rightarrow> uuid \<Rightarrow> 'w \<Rightarrow> (error + ClosedEngine) \<times> 'w"
  ClosedEngine_Cleanup :: "ClosedEngine \<Rightarrow> 'w \<Rightarrow> error option \<times> 'w"
  ClosedEngine_Import :: "ClosedEngine \<Rightarrow> int64 \<Rightarrow> 'w \<Rightarrow> error option \<times> 'w"
  File_Cleanup :: "uuid \<Rightarrow> string \<Rightarrow> 'w \<Rightarrow> error option \<times> 'w"
  restore_DBFromConfig :: "'w \<Rightarrow> error option \<times> 'w"
  common_TableExists :: "string \<Rightarrow> string \<Rightarrow> 'w \<Rightarrow> (error + bool) \<times> 'w"
  restore_RemoveTableMetaByTableName :: "string \<Rightarrow> string \<Rightarrow> 'w \<Rightarrow> error option \<times> 'w"
  restore_MaybeCleanupAllMetas :: "string \<Rightarrow> bool \<Rightarrow> 'w \<Rightarrow> error option \<times> 'w"
  os_MkdirAll :: "string \<Rightarrow> 'w \<Rightarrow> error option \<times> 'w"
  os_Create :: "string \<Rightarrow> 'w \<Rightarrow> error option \<times> 'w"
  pd_GetStores :: "string \<Rightarrow> 'w \<Rightarrow> (error + Store list) \<times> 'w"
  tikv_SwitchMode :: "string \<Rightarrow> SwitchMode \<Rightarrow> 'w \<Rightarrow> error option \<times> 'w"
  tikv_FetchMode :: "string \<Rightarrow> 'w \<Rightarrow> (error + SwitchMode) \<times> 'w"
  filepath_Join :: "string \<Rightarrow> string \<Rightarrow> string"
  strconv_Atoi :: "string \<Rightarrow> error + int64"
  uuid_Parse :: "string \<Rightarrow> error + uuid"
  backend_MakeUUID :: "string \<Rightarrow> int32 \<Rightarrow> string \<times> uuid"
  common_UniqueTable :: "string \<Rightarrow> string \<Rightarrow> string"
  TableMetaTableName :: string
  TaskMetaTableName :: string

definition errOf :: "error + 'a \<Rightarrow> error option" where
  "errOf r = (case r of Inl e \<Rightarrow> Some e | Inr _ \<Rightarrow> None)"

definition extcall :: "call \<Rightarrow> ('w \<Rightarrow> 'r \<times> 'w) \<Rightarrow> ('r \<Rightarrow> error option) \<Rightarrow> 'w state \<Rightarrow> 'r \<times> 'w state" where
  "extcall c f err s =
     (case f (world s) of (r, w') \<Rightarrow> (r, s\<lparr>world := w', trace := trace s @ [(c, err r)]\<rparr>))"

text \<open>A call whose result the code does not look at (\<open>defer x.Close()\<close>).\<close>

definition ignored :: "call \<Rightarrow> 'w state \<Rightarrow> 'w state" where
  "ignored c s = s\<lparr>trace := trace s @ [(c, None)]\<rparr>"

text \<open>\<open>defer f()\<close>: \<open>f\<close> runs when the rest of the function body has produced its result.\<close>

definition deferred :: "('w state \<Rightarrow> 'w state) \<Rightarrow> ('w state \<Rightarrow> 'r \<times> 'w state) \<Rightarrow> 'w state \<Rightarrow> 'r \<times> 'w state" where
  "deferred f body s = (case body s of (r, s') \<Rightarrow> (r, f s'))"

text \<open>The same for a body with a loop that may not come to an end (\<open>None\<close>).\<close>

definition deferredO :: "('w state \<Rightarrow> 'w state) \<Rightarrow> ('w state \<Rightarrow> ('r \<times> 'w state) option) \<Rightarrow> 'w state \<Rightarrow> ('r \<times> 'w state) option" where
  "deferredO f body s = (case body s of None \<Rightarrow> None | Some (r, s') \<Rightarrow> Some (r, f s'))"

subsection \<open>Formatting\<close>

definition digit :: "nat \<Rightarrow> char" where
  "digit d = char_of (of_char CHR ''0'' + d)"

fun showNat :: "nat \<Rightarrow> string" where
  "showNat n = (if n < 10 then [digit n] else showNat (n div 10) @ [digit (n mod 10)])"

declare showNat.simps [simp del]

definition showInt :: "int \<Rightarrow> string" where
  "showInt i = (if i < 0 then CHR ''-'' # showNat (nat (- i)) else showNat (nat i))"

text \<open>\<open>%v\<close> of a slice of strings: the elements between brackets, a space between two.\<close>

fun spaced :: "string list \<Rightarrow> string" where
  "spaced [] = []"
| "spaced [x] = x"
| "spaced (x # y # zs) = x @ '' '' @ spaced (y # zs)"

definition showStrings :: "string list \<Rightarrow> string" where
  "showStrings xs = ''['' @ spaced xs @ '']''"

text \<open>\<open>%-30s\<close>: the text, then blanks up to the width.\<close>

definition padRight :: "nat \<Rightarrow> string \<Rightarrow> string" where
  "padRight n x = x @ replicate (n - length x) CHR '' ''"

definition newline :: char where
  "newline = CHR 0x0A"

text \<open>\<open>fmt.Fprintln(os.Stderr, a, b, ...)\<close>: the operands, a blank between two, and a newline.\<close>

definition Fprintln :: "string list \<Rightarrow> 'w state \<Rightarrow> 'w state" where
  "Fprintln operands s = s\<lparr>stderr := stderr s @ spaced operands @ [newline]\<rparr>"

text \<open>\<open>fmt.Fprintf(os.Stderr, format, ...)\<close>, its format already applied.\<close>

definition Fprintf :: "string \<Rightarrow> 'w state \<Rightarrow> 'w state" where
  "Fprintf text s = s\<lparr>stderr := stderr s @ text\<rparr>"

definition SwitchMode_String :: "SwitchMode \<Rightarrow> string" where
  "SwitchMode_String m = (case m of SwitchMode_Normal \<Rightarrow> ''Normal'' | SwitchMode_Import \<Rightarrow> ''Import'')"

section \<open>checkpointDump\<close>

definition checkpointDump :: "'w env \<Rightarrow> string \<Rightarrow> 'w state \<Rightarrow> error option \<times> 'w state" where
  "checkpointDump env dumpFolder s0 =
    (case extcall OpenCheckpointsDB (checkpoints_OpenCheckpointsDB env) id s0 of
       (Some err, s1) \<Rightarrow> (Trace (Some err), s1)
     | (None, s1) \<Rightarrow>
      deferred (ignored CpdbClose) (\<lambda>s1.
        (case extcall (OsMkdirAll dumpFolder) (os_MkdirAll env dumpFolder) id s1 of
           (Some err, s2) \<Rightarrow> (Trace (Some err), s2)
         | (None, s2) \<Rightarrow>
          (let tablesFileName = filepath_Join env dumpFolder ''tables.csv'' in
           (case extcall (OsCreate tablesFileName) (os_Create env tablesFileName) id s2 of
              (Some err, s3) \<Rightarrow> (Some (Annotatef err (''failed to create '' @ tablesFileName)), s3)
            | (None, s3) \<Rightarrow>
             (let tablesFile = os_File tablesFileName in
              deferred (ignored (FileClose (Name tablesFile))) (\<lambda>s3.
               (let enginesFileName = filepath_Join env dumpFolder ''engines.csv'' in
                (case extcall (OsCreate tablesFileName) (os_Create env tablesFileName) id s3 of
                   (Some err, s4) \<Rightarrow> (Some (Annotatef err (''failed to create '' @ enginesFileName)), s4)
                 | (None, s4) \<Rightarrow>
                  (let enginesFile = os_File tablesFileName in
                   deferred (ignored (FileClose (Name enginesFile))) (\<lambda>s4.
                    (let chunksFileName = filepath_Join env dumpFolder ''chunks.csv'' in
                     (case extcall (OsCreate chunksFileName) (os_Create env chunksFileName) id s4 of
                        (Some err, s5) \<Rightarrow> (Some (Annotatef err (''failed to create '' @ chunksFileName)), s5)
                      | (None, s5) \<Rightarrow>
                       (let chunksFile = os_File chunksFileName in
                        deferred (ignored (FileClose (Name chunksFile))) (\<lambda>s5.
                         (case extcall (CpdbDumpTables (Name tablesFile)) (cpdb_DumpTables env tablesFile) id s5 of
                            (Some err, s6) \<Rightarrow> (Trace (Some err), s6)
                          | (None, s6) \<Rightarrow>
                           (case extcall (CpdbDumpEngines (Name enginesFile)) (cpdb_DumpEngines env enginesFile) id s6 of
                              (Some err, s7) \<Rightarrow> (Trace (Some err), s7)
                            | (None, s7) \<Rightarrow>
                             (case extcall (CpdbDumpChunks (Name chunksFile)) (cpdb_DumpChunks env chunksFile) id s7 of
                                (Some err, s8) \<Rightarrow> (Trace (Some err), s8)
                              | (None, s8) \<Rightarrow> (None, s8))))) s5)))) s4)))) s3))))) s1)"

section \<open>The fleet-wide commands\<close>

text \<open>
  Modelled from the spec: \<open>tikv.ForAllStores\<close> is not among the sources. Section 4.3 of
  the specification: it discovers all nodes of the fleet, excludes any in \<open>excludeState\<close>
  and invokes \<open>op\<close> for every remaining node; an error that \<open>op\<close> reports for a node is
  written to the operator's stream with the address of the node, and the call as a whole
  still succeeds unless the discovery itself failed.
\<close>

fun forEachStore :: "(Store \<Rightarrow> 'w state \<Rightarrow> error option \<times> 'w state) \<Rightarrow> Store list \<Rightarrow> 'w state \<Rightarrow> 'w state" where
  "forEachStore op [] s = s"
| "forEachStore op (store # stores) s =
     (case op store s of
        (None, s') \<Rightarrow> forEachStore op stores s'
      | (Some err, s') \<Rightarrow> forEachStore op stores (Fprintln [Address store, message err] s'))"

definition ForAllStores :: "'w env \<Rightarrow> string \<Rightarrow> StoreState \<Rightarrow> (Store \<Rightarrow> 'w state \<Rightarrow> error option \<times> 'w state) \<Rightarrow> 'w state \<Rightarrow> error option \<times> 'w state" where
  "ForAllStores env fleetAddress excludeState op s =
     (case extcall (PdGetStores fleetAddress) (pd_GetStores env fleetAddress) errOf s of
        (Inl err, s1) \<Rightarrow> (Some err, s1)
      | (Inr stores, s1) \<Rightarrow> (None, forEachStore op (filter (\<lambda>store. State store \<noteq> excludeState) stores) s1))"

text \<open>The function literal that \<open>switchMode\<close> hands to \<open>ForAllStores\<close>.\<close>

definition switchMode_func1 :: "'w env \<Rightarrow> SwitchMode \<Rightarrow> Store \<Rightarrow> 'w state \<Rightarrow> error option \<times> 'w state" where
  "switchMode_func1 env m store s =
     extcall (TikvSwitchMode (Address store) m) (tikv_SwitchMode env (Address store) m) id s"

definition switchMode :: "'w env \<Rightarrow> Config \<Rightarrow> string \<Rightarrow> 'w state \<Rightarrow> error option \<times> 'w state" where
  "switchMode env cfg mode s =
     (case (if mode = ImportMode then Inr SwitchMode_Import
            else if mode = NormalMode then Inr SwitchMode_Normal
            else Inl (Error (''invalid mode '' @ mode @ '', must use '' @ ImportMode @ '' or '' @ NormalMode))) of
        Inl err \<Rightarrow> (Some err, s)
      | Inr m \<Rightarrow> ForAllStores env (PdAddr (TiDB cfg)) StoreStateDisconnected (switchMode_func1 env m) s)"

text \<open>The function literal of \<open>fetchMode\<close>: it prints either outcome and returns \<open>nil\<close>.\<close>

definition fetchMode_func1 :: "'w env \<Rightarrow> Store \<Rightarrow> 'w state \<Rightarrow> error option \<times> 'w state" where
  "fetchMode_func1 env store s =
     (case extcall (TikvFetchMode (Address store)) (tikv_FetchMode env (Address store)) errOf s of
        (Inl err, s1) \<Rightarrow>
          (None, Fprintf (padRight 30 (Address store) @ '' | Error: '' @ message err @ [newline]) s1)
      | (Inr mode, s1) \<Rightarrow>
          (None, Fprintf (padRight 30 (Address store) @ '' | '' @ SwitchMode_String mode @ '' mode'' @ [newline]) s1))"

definition fetchMode :: "'w env \<Rightarrow> Config \<Rightarrow> 'w state \<Rightarrow> error option \<times> 'w state" where
  "fetchMode env cfg s =
     ForAllStores env (PdAddr (TiDB cfg)) StoreStateDisconnected (fetchMode_func1 env) s"

section \<open>Removing checkpoints\<close>

definition cleanupMetas :: "'w env \<Rightarrow> Config \<Rightarrow> string \<Rightarrow> 'w state \<Rightarrow> error option \<times> 'w state" where
  "cleanupMetas env cfg tableName0 s0 =
    (let tableName = (if tableName0 = ''all'' then [] else tableName0) in
     (case extcall DBFromConfig (restore_DBFromConfig env) id s0 of
        (Some err, s1) \<Rightarrow> (Trace (Some err), s1)
      | (None, s1) \<Rightarrow>
       (case extcall (TableExists (MetaSchemaName (App cfg)) (TableMetaTableName env))
                     (common_TableExists env (MetaSchemaName (App cfg)) (TableMetaTableName env)) errOf s1 of
          (Inl err, s2) \<Rightarrow> (Trace (Some err), s2)
        | (Inr tableMetaExist, s2) \<Rightarrow>
         (case (if tableMetaExist then
                  (let metaTableName = common_UniqueTable env (MetaSchemaName (App cfg)) (TableMetaTableName env) in
                   extcall (RemoveTableMetaByTableName metaTableName tableName)
                           (restore_RemoveTableMetaByTableName env metaTableName tableName) id s2)
                else (None, s2)) of
            (Some err, s3) \<Rightarrow> (Trace (Some err), s3)
          | (None, s3) \<Rightarrow>
           (case extcall (TableExists (MetaSchemaName (App cfg)) (TaskMetaTableName env))
                         (common_TableExists env (MetaSchemaName (App cfg)) (TaskMetaTableName env)) errOf s3 of
              (Inl err, s4) \<Rightarrow> (Trace (Some err), s4)
            | (Inr exist, s4) \<Rightarrow>
               (if \<not> exist then (Trace None, s4)
                else (case extcall (MaybeCleanupAllMetas (MetaSchemaName (App cfg)) tableMetaExist)
                                   (restore_MaybeCleanupAllMetas env (MetaSchemaName (App cfg)) tableMetaExist) id s4 of
                        (r, s5) \<Rightarrow> (Trace r, s5))))))))"

definition checkpointRemove :: "'w env \<Rightarrow> Config \<Rightarrow> string \<Rightarrow> 'w state \<Rightarrow> error option \<times> 'w state" where
  "checkpointRemove env cfg tableName s0 =
    (case extcall OpenCheckpointsDB (checkpoints_OpenCheckpointsDB env) id s0 of
       (Some err, s1) \<Rightarrow> (Trace (Some err), s1)
     | (None, s1) \<Rightarrow>
      deferred (ignored CpdbClose) (\<lambda>s1.
       (case extcall CpdbTaskCheckpoint (cpdb_TaskCheckpoint env) errOf s1 of
          (Inl err, s2) \<Rightarrow> (Trace (Some err), s2)
        | (Inr taskCp, s2) \<Rightarrow>
         (case (if (case taskCp of None \<Rightarrow> False | Some cp \<Rightarrow> TaskID cp \<noteq> 0)
                then cleanupMetas env cfg tableName s2 else (None, s2)) of
            (Some err, s3) \<Rightarrow> (Trace (Some err), s3)
          | (None, s3) \<Rightarrow>
           (case extcall (CpdbRemoveCheckpoint tableName) (cpdb_RemoveCheckpoint env tableName) id s3 of
              (r, s4) \<Rightarrow> (Trace r, s4))))) s1)"

section \<open>Destroying the checkpoints of failed tables\<close>

text \<open>The first loop of \<open>checkpointErrorDestroy\<close>; \<open>lastErr\<close> is threaded through.\<close>

fun dropTables :: "'w env \<Rightarrow> DestroyedTableCheckpoint list \<Rightarrow> error option \<Rightarrow> 'w state \<Rightarrow> error option \<times> 'w state" where
  "dropTables env [] lastErr s = (lastErr, s)"
| "dropTables env (table # rest) lastErr s =
     (let s1 = Fprintln [''Dropping table:'', TableName table] s in
      (case extcall (TargetDropTable (TableName table)) (target_DropTable env (TableName table)) id s1 of
         (Some err, s2) \<Rightarrow>
           dropTables env rest (Some err) (Fprintln [''* Encountered error while dropping table:'', message err] s2)
       | (None, s2) \<Rightarrow> dropTables env rest lastErr s2))"

text \<open>
  \<open>for engineID := table.MinEngineID; engineID <= table.MaxEngineID; engineID++\<close> on
  \<open>int32\<close>: the comparison is signed and the increment wraps around, so the loop need
  not come to an end; \<open>None\<close> stands for a loop that runs forever.
\<close>

partial_function (option) forEngineID :: "int32 \<Rightarrow> (int32 \<Rightarrow> 'a \<Rightarrow> 'a) \<Rightarrow> int32 \<Rightarrow> 'a \<Rightarrow> 'a option" where
  "forEngineID maxEngineID body engineID st =
     (if sint engineID \<le> sint maxEngineID
      then forEngineID maxEngineID body (engineID + 1) (body engineID st)
      else Some st)"

text \<open>\<open>for _, table := range targetTables\<close> around a body that may not come to an end.\<close>

fun forTables :: "(DestroyedTableCheckpoint \<Rightarrow> 'a \<Rightarrow> 'a option) \<Rightarrow> DestroyedTableCheckpoint list \<Rightarrow> 'a \<Rightarrow> 'a option" where
  "forTables body [] st = Some st"
| "forTables body (table # rest) st =
     (case body table st of None \<Rightarrow> None | Some st' \<Rightarrow> forTables body rest st')"

text \<open>The body of the engine loop of the importer backend, on \<open>lastErr\<close> and the state.\<close>

definition importerEngine :: "'w env \<Rightarrow> DestroyedTableCheckpoint \<Rightarrow> int32 \<Rightarrow> error option \<times> 'w state \<Rightarrow> error option \<times> 'w state" where
  "importerEngine env table engineID ls =
     (case ls of (lastErr, s) \<Rightarrow>
       (let s1 = Fprintln [''Closing and cleaning up engine:'', TableName table, showInt (sint engineID)] s in
        (case extcall (ImporterUnsafeCloseEngine (TableName table) engineID)
                      (importer_UnsafeCloseEngine env (TableName table) engineID) errOf s1 of
           (Inl err, s2) \<Rightarrow>
             (Some err, Fprintln [''* Encountered error while closing engine:'', message err] s2)
         | (Inr closedEngine, s2) \<Rightarrow>
            (case extcall (ClosedEngineCleanup closedEngine) (ClosedEngine_Cleanup env closedEngine) id s2 of
               (Some err, s3) \<Rightarrow> (Some err, s3)
             | (None, s3) \<Rightarrow> (lastErr, s3)))))"

text \<open>The body of the engine loop of the local backend.\<close>

definition localEngine :: "'w env \<Rightarrow> Config \<Rightarrow> DestroyedTableCheckpoint \<Rightarrow> int32 \<Rightarrow> error option \<times> 'w state \<Rightarrow> error option \<times> 'w state" where
  "localEngine env cfg table engineID ls =
     (case ls of (lastErr, s) \<Rightarrow>
       (let s1 = Fprintln [''Closing and cleaning up engine:'', TableName table, showInt (sint engineID)] s;
            eID = snd (backend_MakeUUID env (TableName table) engineID) in
        (case extcall (LocalFileCleanup eID (SortedKVDir (TikvImporter cfg)))
                      (File_Cleanup env eID (SortedKVDir (TikvImporter cfg))) id s1 of
           (Some err, s2) \<Rightarrow>
             (Some err, Fprintln [''* Encountered error while cleanup engine:'', message err] s2)
         | (None, s2) \<Rightarrow> (lastErr, s2))))"

text \<open>\<open>checkpointErrorDestroy\<close> from the test for the local backend to its end.\<close>

definition destroyLocalAndMetas :: "'w env \<Rightarrow> Config \<Rightarrow> string \<Rightarrow> DestroyedTableCheckpoint list \<Rightarrow> error option \<Rightarrow> 'w state \<Rightarrow> (error option \<times> 'w state) option" where
  "destroyLocalAndMetas env cfg tableName targetTables lastErr s =
     (case (if Backend (TikvImporter cfg) = ''local''
            then forTables (\<lambda>table. forEngineID (MaxEngineID table) (localEngine env cfg table) (MinEngineID table))
                   targetTables (lastErr, s)
            else Some (lastErr, s)) of
        None \<Rightarrow> None
      | Some (lastErr, s1) \<Rightarrow>
         (case (if lastErr = None then cleanupMetas env cfg tableName s1 else (lastErr, s1)) of
            (lastErr, s2) \<Rightarrow> Some (Trace lastErr, s2)))"

definition checkpointErrorDestroy :: "'w env \<Rightarrow> Config \<Rightarrow> string \<Rightarrow> 'w state \<Rightarrow> (error option \<times> 'w state) option" where
  "checkpointErrorDestroy env cfg tableName s0 =
    (case extcall OpenCheckpointsDB (checkpoints_OpenCheckpointsDB env) id s0 of
       (Some err, s1) \<Rightarrow> Some (Trace (Some err), s1)
     | (None, s1) \<Rightarrow>
      deferredO (ignored CpdbClose) (\<lambda>s1.
       (case extcall NewTiDBManager (restore_NewTiDBManager env) id s1 of
          (Some err, s2) \<Rightarrow> Some (Trace (Some err), s2)
        | (None, s2) \<Rightarrow>
         deferredO (ignored TargetClose) (\<lambda>s2.
          (case extcall (CpdbDestroyErrorCheckpoint tableName) (cpdb_DestroyErrorCheckpoint env tableName) errOf s2 of
             (Inl err, s3) \<Rightarrow> Some (Trace (Some err), s3)
           | (Inr targetTables, s3) \<Rightarrow>
            (case dropTables env targetTables None s3 of
               (lastErr, s4) \<Rightarrow>
                (if Backend (TikvImporter cfg) = ''importer'' then
                  (case extcall (NewImporter (Addr (TikvImporter cfg)) (PdAddr (TiDB cfg)))
                                (importer_NewImporter env (Addr (TikvImporter cfg)) (PdAddr (TiDB cfg))) id s4 of
                     (Some err, s5) \<Rightarrow> Some (Trace (Some err), s5)
                   | (None, s5) \<Rightarrow>
                    deferredO (ignored ImporterClose) (\<lambda>s5.
                     (case forTables (\<lambda>table. forEngineID (MaxEngineID table) (importerEngine env table) (MinEngineID table))
                             targetTables (lastErr, s5) of
                        None \<Rightarrow> None
                      | Some (lastErr, s6) \<Rightarrow> destroyLocalAndMetas env cfg tableName targetTables lastErr s6)) s5)
                 else destroyLocalAndMetas env cfg tableName targetTables lastErr s4)))) s2)) s1)"

section \<open>The tables that keep local intermediate files\<close>

text \<open>
  The body of \<open>getLocalStoringTables\<close> up to its \<open>return\<close>: the error and the value of
  the variable \<open>tables\<close> at that moment. The keys of the map come in the order in which
  the environment lists them.
\<close>

definition getLocalStoringTables_body :: "'w env \<Rightarrow> Config \<Rightarrow> 'w state \<Rightarrow> (error option \<times> string list) \<times> 'w state" where
  "getLocalStoringTables_body env cfg s0 =
    (if Backend (TikvImporter cfg) \<noteq> BackendLocal then ((None, []), s0)
     else
      (case extcall IsCheckpointsDBExists (checkpoints_IsCheckpointsDBExists env) errOf s0 of
         (Inl err, s1) \<Rightarrow> ((Trace (Some err), []), s1)
       | (Inr exist, s1) \<Rightarrow>
          (if \<not> exist then ((None, []), s1)
           else
            (case extcall OpenCheckpointsDB (checkpoints_OpenCheckpointsDB env) id s1 of
               (Some err, s2) \<Rightarrow> ((Trace (Some err), []), s2)
             | (None, s2) \<Rightarrow>
              deferred (ignored CpdbClose) (\<lambda>s2.
               (case extcall CpdbGetLocalStoringTables (cpdb_GetLocalStoringTables env) errOf s2 of
                  (Inl err, s3) \<Rightarrow> ((Trace (Some err), []), s3)
                | (Inr tableWithEngine, s3) \<Rightarrow> ((None, map fst tableWithEngine), s3))) s2))))"

text \<open>The deferred function literal runs last and prints only when \<open>err2\<close> is \<open>nil\<close>.\<close>

definition getLocalStoringTables :: "'w env \<Rightarrow> Config \<Rightarrow> 'w state \<Rightarrow> error option \<times> 'w state" where
  "getLocalStoringTables env cfg s0 =
    (case getLocalStoringTables_body env cfg s0 of
       ((err2, tables), s) \<Rightarrow>
         (err2,
          if err2 = None then
            (if length tables = 0
             then Fprintln [''No table has lost intermediate files according to given config''] s
             else Fprintln [''These tables are missing intermediate files:'', showStrings tables] s)
          else s))"

section \<open>Importing an engine by hand\<close>




section \<open>Notions used in the statements\<close>

text \<open>The identifiers from \<open>minEngineID\<close> to \<open>maxEngineID\<close>, both included, in rising order.\<close>

definition engineIDs :: "int32 \<Rightarrow> int32 \<Rightarrow> int32 list" where
  "engineIDs minEngineID maxEngineID = map word_of_int [sint minEngineID..sint maxEngineID]"

text \<open>The line that \<open>fetchMode\<close> prints for a node whose query failed.\<close>

definition fetchMode_errorLine :: "string \<Rightarrow> error \<Rightarrow> string" where
  "fetchMode_errorLine addr err = padRight 30 addr @ '' | Error: '' @ message err @ [newline]"

text \<open>The calls that \<open>cleanupMetas\<close> makes, and no other function of the program.\<close>

fun is_meta_call :: "call \<Rightarrow> bool" where
  "is_meta_call DBFromConfig = True"
| "is_meta_call (TableExists schema table) = True"
| "is_meta_call (RemoveTableMetaByTableName metaTable tableName) = True"
| "is_meta_call (MaybeCleanupAllMetas schema tableMetaExist) = True"
| "is_meta_call other = False"

text \<open>The calls of \<open>UnsafeCloseEngine\<close> on the importer.\<close>

fun is_UnsafeCloseEngine :: "call \<Rightarrow> bool" where
  "is_UnsafeCloseEngine (ImporterUnsafeCloseEngine tableName engineID) = True"
| "is_UnsafeCloseEngine other = False"

text \<open>\<open>lastErr\<close> after a call: the error of the call when it failed, the old value otherwise.\<close>

definition record_error :: "event \<Rightarrow> error option \<Rightarrow> error option" where
  "record_error ev lastErr = (case snd ev of None \<Rightarrow> lastErr | Some err \<Rightarrow> Some err)"

text \<open>The last error among the calls of a run, \<open>None\<close> when every call succeeded.\<close>

definition last_error :: "event list \<Rightarrow> error option" where
  "last_error evs = fold record_error evs None"

text \<open>
  \<open>best_effort a b\<close>: from \<open>a\<close> to \<open>b\<close> the run made no call of the metadata cleanup, and
  \<open>lastErr\<close> in \<open>b\<close> is the last error of the calls in between, or else what it was in \<open>a\<close>.
\<close>

definition best_effort :: "error option \<times> 'w state \<Rightarrow> error option \<times> 'w state \<Rightarrow> bool" where
  "best_effort a b \<longleftrightarrow>
     (\<exists>new. trace (snd b) = trace (snd a) @ new
        \<and> (\<forall>ev \<in> set new. \<not> is_meta_call (fst ev))
        \<and> fst b = fold record_error new (fst a))"

text \<open>
  \<open>completes a b\<close>: from \<open>a\<close> to the end \<open>b\<close> of the function, the metadata cleanup was
  attempted exactly when \<open>lastErr\<close> was \<open>nil\<close> in \<open>a\<close> and every other call in between
  succeeded, and the error returned is the last error of the calls in between, or else
  \<open>lastErr\<close> of \<open>a\<close>.
\<close>

definition completes :: "error option \<times> 'w state \<Rightarrow> error option \<times> 'w state \<Rightarrow> bool" where
  "completes a b \<longleftrightarrow>
     (\<exists>new. trace (snd b) = trace (snd a) @ new
        \<and> ((\<exists>e. (DBFromConfig, e) \<in> set new) \<longleftrightarrow>
             fst a = None \<and> (\<forall>ev \<in> set new. \<not> is_meta_call (fst ev) \<longrightarrow> snd ev = None))
        \<and> fst b = fold record_error new (fst a))"

text \<open>
  One call made from the world \<open>w\<close>: the event it leaves in the trace, with the answer of
  the environment, and the world after it.
\<close>

definition one_call :: "call \<Rightarrow> ('w \<Rightarrow> error option \<times> 'w) \<Rightarrow> 'w \<Rightarrow> event list \<times> 'w" where
  "one_call c f w = (case f w of (r, w') \<Rightarrow> ([(c, r)], w'))"

text \<open>
  Steps performed one after the other, each from the world that the step before has left,
  whatever the step before has answered: the events of all of them and the last world.
\<close>

fun performed :: "('w \<Rightarrow> event list \<times> 'w) list \<Rightarrow> 'w \<Rightarrow> event list \<times> 'w" where
  "performed [] w = ([], w)"
| "performed (step # steps) w =
     (case step w of (evs1, w1) \<Rightarrow> (case performed steps w1 of (evs2, w2) \<Rightarrow> (evs1 @ evs2, w2)))"

text \<open>\<open>SwitchMode\<close> sent to one store.\<close>

definition switch_store :: "'w env \<Rightarrow> SwitchMode \<Rightarrow> Store \<Rightarrow> 'w \<Rightarrow> event list \<times> 'w" where
  "switch_store env m store =
     one_call (TikvSwitchMode (Address store) m) (tikv_SwitchMode env (Address store) m)"

text \<open>The drop of the table of one checkpoint.\<close>

definition drop_table :: "'w env \<Rightarrow> DestroyedTableCheckpoint \<Rightarrow> 'w \<Rightarrow> event list \<times> 'w" where
  "drop_table env table =
     one_call (TargetDropTable (TableName table)) (target_DropTable env (TableName table))"

text \<open>What the drop of a table writes to the error stream, given the event of the drop.\<close>

definition drop_lines :: "DestroyedTableCheckpoint \<times> event \<Rightarrow> string" where
  "drop_lines te =
     ''Dropping table: '' @ TableName (fst te) @ [newline] @
     (case snd (snd te) of
        None \<Rightarrow> []
      | Some err \<Rightarrow> ''* Encountered error while dropping table: '' @ message err @ [newline])"

text \<open>
  An engine of the importer is force-closed, and \<open>Cleanup\<close> is called on the closed engine
  that the importer hands back; there is no \<open>Cleanup\<close> when the engine could not be closed.
\<close>

definition close_then_cleanup :: "'w env \<Rightarrow> string \<times> int32 \<Rightarrow> 'w \<Rightarrow> event list \<times> 'w" where
  "close_then_cleanup env engine w =
     (case importer_UnsafeCloseEngine env (fst engine) (snd engine) w of
        (Inl err, w1) \<Rightarrow> ([(ImporterUnsafeCloseEngine (fst engine) (snd engine), Some err)], w1)
      | (Inr closedEngine, w1) \<Rightarrow>
          (case ClosedEngine_Cleanup env closedEngine w1 of
             (r, w2) \<Rightarrow>
               ([(ImporterUnsafeCloseEngine (fst engine) (snd engine), None),
                 (ClosedEngineCleanup closedEngine, r)], w2)))"

text \<open>
  The local files of an engine are removed under the UUID that \<open>backend.MakeUUID\<close> makes
  from the name of the table and the identifier of the engine.
\<close>

definition remove_local_files :: "'w env \<Rightarrow> Config \<Rightarrow> string \<times> int32 \<Rightarrow> 'w \<Rightarrow> event list \<times> 'w" where
  "remove_local_files env cfg engine =
     one_call (LocalFileCleanup (snd (backend_MakeUUID env (fst engine) (snd engine)))
                 (SortedKVDir (TikvImporter cfg)))
              (File_Cleanup env (snd (backend_MakeUUID env (fst engine) (snd engine)))
                 (SortedKVDir (TikvImporter cfg)))"

text \<open>
  The engines of a list of checkpoints: for every table in turn, every identifier from
  \<open>MinEngineID\<close> to \<open>MaxEngineID\<close>, both included, with the name of the table.
\<close>

definition engines_of :: "DestroyedTableCheckpoint list \<Rightarrow> (string \<times> int32) list" where
  "engines_of targetTables =
     concat (map (\<lambda>table. map (\<lambda>engineID. (TableName table, engineID))
                            (engineIDs (MinEngineID table) (MaxEngineID table))) targetTables)"

text \<open>
  \<open>follows a step b\<close>: from \<open>a\<close> to \<open>b\<close> the run has made the calls of \<open>step\<close> and no other,
  from the world of \<open>a\<close>; \<open>lastErr\<close> in \<open>b\<close> is the last error among them, or else what it
  was in \<open>a\<close>; and the run has at most added text to the error stream.
\<close>

definition follows :: "error option \<times> 'w state \<Rightarrow> ('w \<Rightarrow> event list \<times> 'w) \<Rightarrow> error option \<times> 'w state \<Rightarrow> bool" where
  "follows a step b \<longleftrightarrow>
     fst b = fold record_error (fst (step (world (snd a)))) (fst a)
   \<and> world (snd b) = snd (step (world (snd a)))
   \<and> trace (snd b) = trace (snd a) @ fst (step (world (snd a)))
   \<and> (\<exists>out. stderr (snd b) = stderr (snd a) @ out)"

text \<open>The calls on an importer and on the engines that it has closed.\<close>

fun is_importer_call :: "call \<Rightarrow> bool" where
  "is_importer_call (NewImporter addr pdAddr) = True"
| "is_importer_call ImporterClose = True"
| "is_importer_call (ImporterUnsafeCloseEngine tableName engineID) = True"
| "is_importer_call (ImporterUnsafeCloseEngineWithUUID tag engineUUID) = True"
| "is_importer_call (ClosedEngineCleanup closedEngine) = True"
| "is_importer_call (ClosedEngineImport closedEngine regionSplitSize) = True"
| "is_importer_call other = False"

text \<open>The removal of the local files of an engine.\<close>

fun is_LocalFileCleanup :: "call \<Rightarrow> bool" where
  "is_LocalFileCleanup (LocalFileCleanup engineUUID dir) = True"
| "is_LocalFileCleanup other = False"

section \<open>Concrete runs\<close>

text \<open>
  An environment in which every call succeeds, over a world without state. The single
  runs below change one field or another of it.
\<close>

definition env_ok :: "unit env" where
  "env_ok = \<lparr>
     checkpoints_OpenCheckpointsDB = (\<lambda>w. (None, w)),
     checkpoints_IsCheckpointsDBExists = (\<lambda>w. (Inr True, w)),
     cpdb_TaskCheckpoint = (\<lambda>w. (Inr (Some \<lparr>TaskID = 1\<rparr>), w)),
     cpdb_RemoveCheckpoint = (\<lambda>tableName w. (None, w)),
     cpdb_DestroyErrorCheckpoint = (\<lambda>tableName w. (Inr [], w)),
     cpdb_GetLocalStoringTables = (\<lambda>w. (Inr [], w)),
     cpdb_DumpTables = (\<lambda>f w. (None, w)),
     cpdb_DumpEngines = (\<lambda>f w. (None, w)),
     cpdb_DumpChunks = (\<lambda>f w. (None, w)),
     restore_NewTiDBManager = (\<lambda>w. (None, w)),
     target_DropTable = (\<lambda>tableName w. (None, w)),
     importer_NewImporter = (\<lambda>addr pdAddr w. (None, w)),
     importer_UnsafeCloseEngine = (\<lambda>tableName engineID w. (Inr (ClosedEngine (ucast engineID)), w)),
     importer_UnsafeCloseEngineWithUUID = (\<lambda>tag u w. (Inr (ClosedEngine u), w)),
     ClosedEngine_Cleanup = (\<lambda>ce w. (None, w)),
     ClosedEngine_Import = (\<lambda>ce size w. (None, w)),
     File_Cleanup = (\<lambda>u dir w. (None, w)),
     restore_DBFromConfig = (\<lambda>w. (None, w)),
     common_TableExists = (\<lambda>schema table w. (Inr True, w)),
     restore_RemoveTableMetaByTableName = (\<lambda>metaTable tableName w. (None, w)),
     restore_MaybeCleanupAllMetas = (\<lambda>schema tableMetaExist w. (None, w)),
     os_MkdirAll = (\<lambda>path w. (None, w)),
     os_Create = (\<lambda>name w. (None, w)),
     pd_GetStores = (\<lambda>addr w. (Inr [], w)),
     tikv_SwitchMode = (\<lambda>addr m w. (None, w)),
     tikv_FetchMode = (\<lambda>addr w. (Inr SwitchMode_Normal, w)),
     filepath_Join = (\<lambda>dir name. dir @ ''/'' @ name),
     strconv_Atoi = (\<lambda>x. Inr 0),
     uuid_Parse = (\<lambda>x. Inr 0),
     backend_MakeUUID = (\<lambda>tableName engineID. (tableName, ucast engineID)),
     common_UniqueTable = (\<lambda>schema table. schema @ ''.'' @ table),
     TableMetaTableName = ''table_meta'',
     TaskMetaTableName = ''task_meta''
   \<rparr>"

definition start :: "unit state" where
  "start = \<lparr>world = (), trace = [], stderr = []\<rparr>"

text \<open>A fleet of four stores, one of them disconnected; the third does not answer the query.\<close>

definition fleet :: "Store list" where
  "fleet = [\<lparr>Address = ''tikv1:20160'', State = StoreStateUp\<rparr>,
            \<lparr>Address = ''tikv2:20160'', State = StoreStateDisconnected\<rparr>,
            \<lparr>Address = ''tikv3:20160'', State = StoreStateUp\<rparr>,
            \<lparr>Address = ''tikv4:20160'', State = StoreStateOffline\<rparr>]"

definition env_fleet :: "unit env" where
  "env_fleet = env_ok\<lparr>
     pd_GetStores := (\<lambda>addr w. (Inr fleet, w)),
     tikv_FetchMode := (\<lambda>addr w. (if addr = ''tikv3:20160'' then Inl (Error ''timeout'') else Inr SwitchMode_Import, w))\<rparr>"

definition cfg0 :: Config where
  "cfg0 = \<lparr>App = \<lparr>MetaSchemaName = ''lightning_metadata''\<rparr>,
           TiDB = \<lparr>PdAddr = ''pd:2379''\<rparr>,
           TikvImporter = \<lparr>Backend = ''tidb'', Addr = ''importer:8287'',
             SortedKVDir = ''/tmp/sorted-kv'', RegionSplitSize = 0\<rparr>\<rparr>"

text \<open>Variations of the environment and of the configuration for single runs.\<close>

definition env_task0 :: "unit env" where
  "env_task0 = env_ok\<lparr>cpdb_TaskCheckpoint := (\<lambda>w. (Inr (Some \<lparr>TaskID = 0\<rparr>), w))\<rparr>"

definition env_no_db :: "unit env" where
  "env_no_db = env_ok\<lparr>checkpoints_IsCheckpointsDBExists := (\<lambda>w. (Inr False, w))\<rparr>"

definition cfg_local :: Config where
  "cfg_local = cfg0\<lparr>TikvImporter := (TikvImporter cfg0)\<lparr>Backend := ''local''\<rparr>\<rparr>"



definition cfg_importer :: Config where
  "cfg_importer = cfg0\<lparr>TikvImporter := (TikvImporter cfg0)\<lparr>Backend := ''importer''\<rparr>\<rparr>"

definition env_one_table :: "unit env" where
  "env_one_table = env_ok\<lparr>cpdb_DestroyErrorCheckpoint :=
     (\<lambda>tableName w. (Inr [\<lparr>TableName = ''db.t1'', MinEngineID = 0, MaxEngineID = 0\<rparr>], w))\<rparr>"

definition env_cleanup_fails :: "unit env" where
  "env_cleanup_fails = env_one_table\<lparr>ClosedEngine_Cleanup :=
     (\<lambda>ce w. (Some (Error ''cleanup failed''), w))\<rparr>"

text \<open>A fleet whose third store refuses to change its mode.\<close>

definition env_fleet_busy :: "unit env" where
  "env_fleet_busy = env_fleet\<lparr>
     tikv_SwitchMode := (\<lambda>addr m w. (if addr = ''tikv3:20160'' then Some (Error ''server is busy'') else None, w))\<rparr>"

text \<open>
  Two checkpoints to destroy, with the engines 0 and 1 and the engine 5; a table that cannot
  be dropped; an engine that the importer does not know.
\<close>

definition two_tables :: "DestroyedTableCheckpoint list" where
  "two_tables = [\<lparr>TableName = ''db.t1'', MinEngineID = 0, MaxEngineID = 1\<rparr>,
                 \<lparr>TableName = ''db.t2'', MinEngineID = 5, MaxEngineID = 5\<rparr>]"

definition env_two_tables :: "unit env" where
  "env_two_tables = env_ok\<lparr>cpdb_DestroyErrorCheckpoint := (\<lambda>tableName w. (Inr two_tables, w))\<rparr>"

definition env_drop_fails :: "unit env" where
  "env_drop_fails = env_two_tables\<lparr>target_DropTable :=
     (\<lambda>tableName w. (if tableName = ''db.t1'' then Some (Error ''table is locked'') else None, w))\<rparr>"

definition env_close_fails :: "unit env" where
  "env_close_fails = env_two_tables\<lparr>importer_UnsafeCloseEngine :=
     (\<lambda>tableName engineID w.
        (if tableName = ''db.t1'' \<and> engineID = 0 then Inl (Error ''engine not found'')
         else Inr (ClosedEngine (ucast engineID)), w))\<rparr>"

section \<open>Properties\<close>

subsection \<open>checkpointDump\<close>

text \<open>
  C1. The claim: the tables dump, the engines dump and the chunks dump of
  \<open>checkpointDump\<close> go to three distinct files, and the engines dump never goes to the
  file that receives the tables dump. The code creates the second handle with
  \<open>os.Create(tablesFileName)\<close>, although it computes \<open>enginesFileName\<close> and names it in
  the error message. In a run with the folder \<open>dump\<close> in which every call succeeds,
  \<open>dump/tables.csv\<close> is created twice, \<open>dump/engines.csv\<close> never, and \<open>DumpEngines\<close>
  writes to a handle on \<open>dump/tables.csv\<close>, the file that \<open>DumpTables\<close> wrote to.
\<close>

theorem checkpointDump_engines_dump_goes_to_tables_file:
  "checkpointDump env_ok ''dump'' start =
     (None,
      \<lparr>world = (),
       trace =
         [(OpenCheckpointsDB, None), (OsMkdirAll ''dump'', None),
          (OsCreate ''dump/tables.csv'', None), (OsCreate ''dump/tables.csv'', None),
          (OsCreate ''dump/chunks.csv'', None),
          (CpdbDumpTables ''dump/tables.csv'', None),
          (CpdbDumpEngines ''dump/tables.csv'', None),
          (CpdbDumpChunks ''dump/chunks.csv'', None),
          (FileClose ''dump/chunks.csv'', None), (FileClose ''dump/tables.csv'', None),
          (FileClose ''dump/tables.csv'', None), (CpdbClose, None)],
       stderr = []\<rparr>)"
  by (simp add: checkpointDump_def env_ok_def start_def extcall_def deferred_def ignored_def
      Trace_def Let_def)

text \<open>
  In every environment: once the folder and the three handles are there and the tables
  are dumped, the next call is the engines dump, and it writes to the tables file.
\<close>

lemma checkpointDump_engines_destination:
  assumes "checkpoints_OpenCheckpointsDB env (world s) = (None, w1)"
    and "os_MkdirAll env dumpFolder w1 = (None, w2)"
    and "os_Create env (filepath_Join env dumpFolder ''tables.csv'') w2 = (None, w3)"
    and "os_Create env (filepath_Join env dumpFolder ''tables.csv'') w3 = (None, w4)"
    and "os_Create env (filepath_Join env dumpFolder ''chunks.csv'') w4 = (None, w5)"
    and "cpdb_DumpTables env (os_File (filepath_Join env dumpFolder ''tables.csv'')) w5 = (None, w6)"
  shows "\<exists>r rest. trace (snd (checkpointDump env dumpFolder s)) =
     trace s @
       [(OpenCheckpointsDB, None), (OsMkdirAll dumpFolder, None),
        (OsCreate (filepath_Join env dumpFolder ''tables.csv''), None),
        (OsCreate (filepath_Join env dumpFolder ''tables.csv''), None),
        (OsCreate (filepath_Join env dumpFolder ''chunks.csv''), None),
        (CpdbDumpTables (filepath_Join env dumpFolder ''tables.csv''), None),
        (CpdbDumpEngines (filepath_Join env dumpFolder ''tables.csv''), r)] @ rest"
  using assms
  by (simp add: checkpointDump_def extcall_def deferred_def ignored_def Trace_def Let_def
      split: prod.split option.split)

subsection \<open>Basic facts about calls and output\<close>

lemma trace_Fprintln [simp]: "trace (Fprintln xs s) = trace s"
  by (simp add: Fprintln_def)

lemma world_Fprintln [simp]: "world (Fprintln xs s) = world s"
  by (simp add: Fprintln_def)

lemma trace_Fprintf [simp]: "trace (Fprintf x s) = trace s"
  by (simp add: Fprintf_def)

lemma world_Fprintf [simp]: "world (Fprintf x s) = world s"
  by (simp add: Fprintf_def)

lemma stderr_Fprintf [simp]: "stderr (Fprintf x s) = stderr s @ x"
  by (simp add: Fprintf_def)

lemma stderr_Fprintln [simp]: "stderr (Fprintln xs s) = stderr s @ spaced xs @ [newline]"
  by (simp add: Fprintln_def)

lemma extcall_cases:
  assumes "extcall c f err s = (r, s')"
  obtains w' where "f (world s) = (r, w')"
    and "s' = s\<lparr>world := w', trace := trace s @ [(c, err r)]\<rparr>"
  using assms by (auto simp: extcall_def split: prod.splits)

lemma extcall_eq:
  "f (world s) = (r, w') \<Longrightarrow> extcall c f err s = (r, s\<lparr>world := w', trace := trace s @ [(c, err r)]\<rparr>)"
  by (simp add: extcall_def)

lemma trace_extcall: "trace (snd (extcall c f err s)) = trace s @ [(c, err (fst (f (world s))))]"
  by (simp add: extcall_def split: prod.splits)

lemma stderr_extcall [simp]: "stderr (snd (extcall c f err s)) = stderr s"
  by (simp add: extcall_def split: prod.splits)

lemma fst_extcall [simp]: "fst (extcall c f err s) = fst (f (world s))"
  by (simp add: extcall_def split: prod.splits)

subsection \<open>Steps performed in a row\<close>

lemma performed_Cons:
  "performed (step # steps) w =
     (fst (step w) @ fst (performed steps (snd (step w))), snd (performed steps (snd (step w))))"
  by (simp split: prod.split)

declare performed.simps(2) [simp del]

lemma performed_append:
  "performed (xs @ ys) w =
     (fst (performed xs w) @ fst (performed ys (snd (performed xs w))),
      snd (performed ys (snd (performed xs w))))"
  by (induction xs arbitrary: w) (simp_all add: performed_Cons)

lemma performed_concat:
  "performed (concat (map f xs)) w = performed (map (\<lambda>x. performed (f x)) xs) w"
  by (induction xs arbitrary: w) (simp_all add: performed_append performed_Cons)

lemma one_call_simps [simp]:
  "fst (one_call c f w) = [(c, fst (f w))]"
  "snd (one_call c f w) = snd (f w)"
  by (simp_all add: one_call_def split: prod.split)

lemma performed_events:
  assumes "\<And>x w. \<forall>ev \<in> set (fst (step x w)). P ev"
  shows "\<forall>ev \<in> set (fst (performed (map step xs) w)). P ev"
  using assms by (induction xs arbitrary: w) (auto simp: performed_Cons)

subsection \<open>switchMode\<close>

lemma forEachStore_switchMode_performed:
  "trace (forEachStore (switchMode_func1 env m) stores s) =
     trace s @ fst (performed (map (switch_store env m) stores) (world s))
   \<and> world (forEachStore (switchMode_func1 env m) stores s) =
     snd (performed (map (switch_store env m) stores) (world s))"
proof (induction stores arbitrary: s)
  case Nil
  show ?case by simp
next
  case (Cons store stores)
  obtain r w1 where call: "tikv_SwitchMode env (Address store) m (world s) = (r, w1)"
    by (cases "tikv_SwitchMode env (Address store) m (world s)")
  define s1 where "s1 = s\<lparr>world := w1, trace := trace s @ [(TikvSwitchMode (Address store) m, r)]\<rparr>"
  have step: "switchMode_func1 env m store s = (r, s1)"
    using call by (simp add: switchMode_func1_def extcall_def s1_def)
  have s1: "world s1 = w1" "trace s1 = trace s @ [(TikvSwitchMode (Address store) m, r)]"
    by (simp_all add: s1_def)
  show ?case
  proof (cases r)
    case None
    with step Cons.IH [of s1] show ?thesis
      by (simp add: performed_Cons switch_store_def call s1)
  next
    case (Some err)
    with step Cons.IH [of "Fprintln [Address store, message err] s1"] show ?thesis
      by (simp add: performed_Cons switch_store_def call s1)
  qed
qed

text \<open>
  C4. For every mode string other than \<open>import\<close> and \<open>normal\<close>, \<open>switchMode\<close> returns an
  error at once: the state is untouched, so no store was asked for and no store operation
  was dispatched. For the two recognised values, the function literal sends \<open>SwitchMode\<close>
  with the matching mode to the store it is given and returns what the store answered; and
  once the discovery has listed the stores, \<open>SwitchMode\<close> is sent to every store that is not
  in the excluded state \<open>Disconnected\<close>, in the order of the list, each from the world that
  the store before has left, whatever that store answered, and to no other store.
\<close>

theorem switchMode_dispatch:
  "(mode \<noteq> ''import'' \<and> mode \<noteq> ''normal'' \<longrightarrow>
      switchMode env cfg mode s =
        (Some (Error (''invalid mode '' @ mode @ '', must use import or normal'')), s))
   \<and> (mode = ''import'' \<or> mode = ''normal'' \<longrightarrow>
        (\<forall>store r w'.
           tikv_SwitchMode env (Address store)
             (if mode = ''import'' then SwitchMode_Import else SwitchMode_Normal) (world s) = (r, w') \<longrightarrow>
           switchMode_func1 env (if mode = ''import'' then SwitchMode_Import else SwitchMode_Normal) store s =
             (r, s\<lparr>world := w',
                   trace := trace s @
                     [(TikvSwitchMode (Address store)
                         (if mode = ''import'' then SwitchMode_Import else SwitchMode_Normal), r)]\<rparr>))
      \<and> (\<forall>stores w1 switched w2.
           pd_GetStores env (PdAddr (TiDB cfg)) (world s) = (Inr stores, w1)
         \<and> performed
             (map (switch_store env (if mode = ''import'' then SwitchMode_Import else SwitchMode_Normal))
                (filter (\<lambda>store. State store \<noteq> StoreStateDisconnected) stores)) w1 = (switched, w2) \<longrightarrow>
           fst (switchMode env cfg mode s) = None
         \<and> world (snd (switchMode env cfg mode s)) = w2
         \<and> trace (snd (switchMode env cfg mode s)) =
             trace s @ (PdGetStores (PdAddr (TiDB cfg)), None) # switched
         \<and> map fst switched =
             map (\<lambda>store. TikvSwitchMode (Address store)
                    (if mode = ''import'' then SwitchMode_Import else SwitchMode_Normal))
               (filter (\<lambda>store. State store \<noteq> StoreStateDisconnected) stores)))"
proof (intro conjI impI allI)
  assume "mode \<noteq> ''import'' \<and> mode \<noteq> ''normal''"
  then show "switchMode env cfg mode s =
        (Some (Error (''invalid mode '' @ mode @ '', must use import or normal'')), s)"
    by (simp add: switchMode_def ImportMode_def NormalMode_def)
next
  fix store :: Store and r w'
  assume "tikv_SwitchMode env (Address store)
             (if mode = ''import'' then SwitchMode_Import else SwitchMode_Normal) (world s) = (r, w')"
  then show "switchMode_func1 env (if mode = ''import'' then SwitchMode_Import else SwitchMode_Normal) store s =
             (r, s\<lparr>world := w',
                   trace := trace s @
                     [(TikvSwitchMode (Address store)
                         (if mode = ''import'' then SwitchMode_Import else SwitchMode_Normal), r)]\<rparr>)"
    by (simp add: switchMode_func1_def extcall_def)
next
  fix stores :: "Store list" and w1 switched w2
  assume valid: "mode = ''import'' \<or> mode = ''normal''"
  define m where "m = (if mode = ''import'' then SwitchMode_Import else SwitchMode_Normal)"
  define visited where "visited = filter (\<lambda>store. State store \<noteq> StoreStateDisconnected) stores"
  assume "pd_GetStores env (PdAddr (TiDB cfg)) (world s) = (Inr stores, w1)
         \<and> performed
             (map (switch_store env (if mode = ''import'' then SwitchMode_Import else SwitchMode_Normal))
                (filter (\<lambda>store. State store \<noteq> StoreStateDisconnected) stores)) w1 = (switched, w2)"
  then have disc: "pd_GetStores env (PdAddr (TiDB cfg)) (world s) = (Inr stores, w1)"
    and sw: "performed (map (switch_store env m) visited) w1 = (switched, w2)"
    by (simp_all add: m_def visited_def)
  define s1 where "s1 = s\<lparr>world := w1, trace := trace s @ [(PdGetStores (PdAddr (TiDB cfg)), None)]\<rparr>"
  have s1: "world s1 = w1" "trace s1 = trace s @ [(PdGetStores (PdAddr (TiDB cfg)), None)]"
    by (simp_all add: s1_def)
  have run: "switchMode env cfg mode s = (None, forEachStore (switchMode_func1 env m) visited s1)"
    using valid disc
    by (auto simp: switchMode_def ImportMode_def NormalMode_def ForAllStores_def m_def s1_def
        visited_def extcall_def errOf_def)
  note loop = forEachStore_switchMode_performed [of env m visited s1, unfolded s1 sw]
  show "fst (switchMode env cfg mode s) = None" by (simp add: run)
  show "world (snd (switchMode env cfg mode s)) = w2"
    using loop by (simp add: run)
  show "trace (snd (switchMode env cfg mode s)) =
             trace s @ (PdGetStores (PdAddr (TiDB cfg)), None) # switched"
    using loop by (simp add: run)
  have "map fst (fst (performed (map (switch_store env m) xs) w)) =
      map (\<lambda>store. TikvSwitchMode (Address store) m) xs" for xs w
    by (induction xs arbitrary: w) (simp_all add: performed_Cons switch_store_def)
  from this [of visited w1] sw
  show "map fst switched =
             map (\<lambda>store. TikvSwitchMode (Address store)
                    (if mode = ''import'' then SwitchMode_Import else SwitchMode_Normal))
               (filter (\<lambda>store. State store \<noteq> StoreStateDisconnected) stores)"
    by (simp add: m_def visited_def)
qed


theorem switchMode_dispatch_witness:
  "''bogus'' \<noteq> ''import'' \<and> ''bogus'' \<noteq> ''normal''
   \<and> switchMode env_fleet_busy cfg0 ''bogus'' start =
        (Some (Error ''invalid mode bogus, must use import or normal''), start)
   \<and> tikv_SwitchMode env_fleet_busy ''tikv3:20160'' SwitchMode_Normal (world start) =
        (Some (Error ''server is busy''), ())
   \<and> switchMode_func1 env_fleet_busy SwitchMode_Normal \<lparr>Address = ''tikv3:20160'', State = StoreStateUp\<rparr> start =
        (Some (Error ''server is busy''),
         \<lparr>world = (),
          trace = [(TikvSwitchMode ''tikv3:20160'' SwitchMode_Normal, Some (Error ''server is busy''))],
          stderr = []\<rparr>)
   \<and> pd_GetStores env_fleet_busy (PdAddr (TiDB cfg0)) (world start) = (Inr fleet, ())
   \<and> performed (map (switch_store env_fleet_busy SwitchMode_Normal)
        (filter (\<lambda>store. State store \<noteq> StoreStateDisconnected) fleet)) () =
        ([(TikvSwitchMode ''tikv1:20160'' SwitchMode_Normal, None),
          (TikvSwitchMode ''tikv3:20160'' SwitchMode_Normal, Some (Error ''server is busy'')),
          (TikvSwitchMode ''tikv4:20160'' SwitchMode_Normal, None)], ())
   \<and> fst (switchMode env_fleet_busy cfg0 ''normal'' start) = None
   \<and> world (snd (switchMode env_fleet_busy cfg0 ''normal'' start)) = ()
   \<and> trace (snd (switchMode env_fleet_busy cfg0 ''normal'' start)) =
        [(PdGetStores ''pd:2379'', None),
         (TikvSwitchMode ''tikv1:20160'' SwitchMode_Normal, None),
         (TikvSwitchMode ''tikv3:20160'' SwitchMode_Normal, Some (Error ''server is busy'')),
         (TikvSwitchMode ''tikv4:20160'' SwitchMode_Normal, None)]"
proof -
  have bogus: "''bogus'' \<noteq> ''import'' \<and> ''bogus'' \<noteq> ''normal''"
    by simp
  from switchMode_dispatch [of "''bogus''" env_fleet_busy cfg0 start, THEN conjunct1, THEN mp, OF bogus]
  have refused: "switchMode env_fleet_busy cfg0 ''bogus'' start =
        (Some (Error ''invalid mode bogus, must use import or normal''), start)"
    by simp
  have normal: "''normal'' = ''import'' \<or> ''normal'' = ''normal''"
    by simp
  note valid = switchMode_dispatch [of "''normal''" env_fleet_busy cfg0 start, THEN conjunct2, THEN mp, OF normal]
  have m: "(if ''normal'' = ''import'' then SwitchMode_Import else SwitchMode_Normal) = SwitchMode_Normal"
    by simp
  have busy: "tikv_SwitchMode env_fleet_busy ''tikv3:20160'' SwitchMode_Normal (world start) =
        (Some (Error ''server is busy''), ())"
    by (simp add: env_fleet_busy_def env_fleet_def env_ok_def)
  then have busy': "tikv_SwitchMode env_fleet_busy (Address \<lparr>Address = ''tikv3:20160'', State = StoreStateUp\<rparr>)
        (if ''normal'' = ''import'' then SwitchMode_Import else SwitchMode_Normal) (world start) =
        (Some (Error ''server is busy''), ())"
    by (simp only: m Store.simps)
  from valid [THEN conjunct1, rule_format, OF busy']
  have callback: "switchMode_func1 env_fleet_busy SwitchMode_Normal \<lparr>Address = ''tikv3:20160'', State = StoreStateUp\<rparr> start =
        (Some (Error ''server is busy''),
         \<lparr>world = (),
          trace = [(TikvSwitchMode ''tikv3:20160'' SwitchMode_Normal, Some (Error ''server is busy''))],
          stderr = []\<rparr>)"
    by (simp only: m) (simp add: start_def)
  have disc: "pd_GetStores env_fleet_busy (PdAddr (TiDB cfg0)) (world start) = (Inr fleet, ())"
    by (simp add: env_fleet_busy_def env_fleet_def)
  have switched: "performed (map (switch_store env_fleet_busy SwitchMode_Normal)
        (filter (\<lambda>store. State store \<noteq> StoreStateDisconnected) fleet)) () =
        ([(TikvSwitchMode ''tikv1:20160'' SwitchMode_Normal, None),
          (TikvSwitchMode ''tikv3:20160'' SwitchMode_Normal, Some (Error ''server is busy'')),
          (TikvSwitchMode ''tikv4:20160'' SwitchMode_Normal, None)], ())"
    by (simp add: fleet_def performed_Cons switch_store_def env_fleet_busy_def env_fleet_def env_ok_def)
  have both: "pd_GetStores env_fleet_busy (PdAddr (TiDB cfg0)) (world start) = (Inr fleet, ())
     \<and> performed (map (switch_store env_fleet_busy
                      (if ''normal'' = ''import'' then SwitchMode_Import else SwitchMode_Normal))
        (filter (\<lambda>store. State store \<noteq> StoreStateDisconnected) fleet)) () =
        ([(TikvSwitchMode ''tikv1:20160'' SwitchMode_Normal, None),
          (TikvSwitchMode ''tikv3:20160'' SwitchMode_Normal, Some (Error ''server is busy'')),
          (TikvSwitchMode ''tikv4:20160'' SwitchMode_Normal, None)], ())"
    using disc switched by (simp only: m)
  from valid [THEN conjunct2, rule_format, OF both]
  have run: "fst (switchMode env_fleet_busy cfg0 ''normal'' start) = None
   \<and> world (snd (switchMode env_fleet_busy cfg0 ''normal'' start)) = ()
   \<and> trace (snd (switchMode env_fleet_busy cfg0 ''normal'' start)) =
        [(PdGetStores ''pd:2379'', None),
         (TikvSwitchMode ''tikv1:20160'' SwitchMode_Normal, None),
         (TikvSwitchMode ''tikv3:20160'' SwitchMode_Normal, Some (Error ''server is busy'')),
         (TikvSwitchMode ''tikv4:20160'' SwitchMode_Normal, None)]"
    by (simp add: start_def cfg0_def)
  from bogus refused busy callback disc switched run show ?thesis
    by blast
qed

subsection \<open>fetchMode\<close>

lemma fetchMode_func1_step:
  obtains ev out where
    "fetchMode_func1 env store s =
       (None, s\<lparr>world := snd (tikv_FetchMode env (Address store) (world s)),
               trace := trace s @ [ev], stderr := stderr s @ out\<rparr>)"
    and "fst ev = TikvFetchMode (Address store)"
    and "snd ev = errOf (fst (tikv_FetchMode env (Address store) (world s)))"
    and "\<And>err. snd ev = Some err \<Longrightarrow> out = fetchMode_errorLine (Address store) err"
proof (cases "tikv_FetchMode env (Address store) (world s)")
  case (Pair r w')
  show ?thesis
  proof (cases r)
    case (Inl err)
    show ?thesis
      by (rule that [where ev = "(TikvFetchMode (Address store), Some err)"
            and out = "fetchMode_errorLine (Address store) err"])
         (simp_all add: fetchMode_func1_def extcall_def Pair Inl errOf_def Fprintf_def
            fetchMode_errorLine_def)
  next
    case (Inr mode)
    show ?thesis
      by (rule that [where ev = "(TikvFetchMode (Address store), None)"
            and out = "padRight 30 (Address store) @ '' | '' @ SwitchMode_String mode @ '' mode'' @ [newline]"])
         (simp_all add: fetchMode_func1_def extcall_def Pair Inr errOf_def Fprintf_def)
  qed
qed

lemma forEachStore_fetchMode:
  "\<exists>new out.
     trace (forEachStore (fetchMode_func1 env) stores s) = trace s @ new
   \<and> stderr (forEachStore (fetchMode_func1 env) stores s) = stderr s @ out
   \<and> map fst new = map (\<lambda>store. TikvFetchMode (Address store)) stores
   \<and> (\<forall>addr err. (TikvFetchMode addr, Some err) \<in> set new \<longrightarrow>
         (\<exists>pre post. out = pre @ fetchMode_errorLine addr err @ post))"
proof (induction stores arbitrary: s)
  case Nil
  show ?case by simp
next
  case (Cons store stores)
  obtain ev out1 where
    step: "fetchMode_func1 env store s =
       (None, s\<lparr>world := snd (tikv_FetchMode env (Address store) (world s)),
               trace := trace s @ [ev], stderr := stderr s @ out1\<rparr>)"
    and call: "fst ev = TikvFetchMode (Address store)"
    and outcome: "snd ev = errOf (fst (tikv_FetchMode env (Address store) (world s)))"
    and line: "\<And>err. snd ev = Some err \<Longrightarrow> out1 = fetchMode_errorLine (Address store) err"
    by (rule fetchMode_func1_step [of env store s]) blast
  define s1 where "s1 = s\<lparr>world := snd (tikv_FetchMode env (Address store) (world s)),
               trace := trace s @ [ev], stderr := stderr s @ out1\<rparr>"
  from Cons.IH [of s1] obtain new out where
    tr: "trace (forEachStore (fetchMode_func1 env) stores s1) = trace s1 @ new"
    and er: "stderr (forEachStore (fetchMode_func1 env) stores s1) = stderr s1 @ out"
    and calls: "map fst new = map (\<lambda>store. TikvFetchMode (Address store)) stores"
    and lines: "\<And>addr err. (TikvFetchMode addr, Some err) \<in> set new \<Longrightarrow>
         \<exists>pre post. out = pre @ fetchMode_errorLine addr err @ post"
    by blast
  have run: "forEachStore (fetchMode_func1 env) (store # stores) s
      = forEachStore (fetchMode_func1 env) stores s1"
    using step by (simp add: s1_def)
  have "\<exists>pre post. out1 @ out = pre @ fetchMode_errorLine addr err @ post"
    if mem: "(TikvFetchMode addr, Some err) \<in> set (ev # new)" for addr err
  proof (cases "(TikvFetchMode addr, Some err) = ev")
    case True
    then have "snd ev = Some err" and "Address store = addr" using call by auto
    with line [of err] have "out1 @ out = [] @ fetchMode_errorLine addr err @ out" by simp
    then show ?thesis by blast
  next
    case False
    with mem have "(TikvFetchMode addr, Some err) \<in> set new" by simp
    from lines [OF this] obtain pre post where "out = pre @ fetchMode_errorLine addr err @ post"
      by blast
    then have "out1 @ out = (out1 @ pre) @ fetchMode_errorLine addr err @ post" by simp
    then show ?thesis by blast
  qed
  moreover have "trace s1 = trace s @ [ev]" and "stderr s1 = stderr s @ out1"
    by (simp_all add: s1_def)
  ultimately show ?case
    unfolding run
    by (intro exI [of _ "ev # new"] exI [of _ "out1 @ out"])
       (simp add: tr er calls call)
qed

text \<open>
  C9. The function literal of \<open>fetchMode\<close> returns \<open>nil\<close> for every store; when the query of
  the mode fails for a store, it prints the line made of the address of the store and the
  error. So, once the discovery has listed the stores, \<open>fetchMode\<close> as a whole returns
  \<open>nil\<close>, the query is sent to every store that is not excluded, whatever the earlier
  stores answered, and for every query that failed the line with the address and the error
  is part of what the run wrote to the error stream.
\<close>

theorem fetchMode_node_errors_isolated:
  "fst (fetchMode_func1 env store s) = None
   \<and> (\<forall>err w'. tikv_FetchMode env (Address store) (world s) = (Inl err, w') \<longrightarrow>
         stderr (snd (fetchMode_func1 env store s)) =
           stderr s @ padRight 30 (Address store) @ '' | Error: '' @ message err @ [newline])
   \<and> (\<forall>stores w'. pd_GetStores env (PdAddr (TiDB cfg)) (world s) = (Inr stores, w') \<longrightarrow>
         fst (fetchMode env cfg s) = None
       \<and> map fst (trace (snd (fetchMode env cfg s))) =
           map fst (trace s) @ PdGetStores (PdAddr (TiDB cfg)) #
             map (\<lambda>store. TikvFetchMode (Address store))
               (filter (\<lambda>store. State store \<noteq> StoreStateDisconnected) stores)
       \<and> (\<forall>addr err.
             (TikvFetchMode addr, Some err) \<in> set (drop (length (trace s)) (trace (snd (fetchMode env cfg s)))) \<longrightarrow>
             (\<exists>pre post. stderr (snd (fetchMode env cfg s)) =
                stderr s @ pre @ padRight 30 addr @ '' | Error: '' @ message err @ [newline] @ post)))"
proof (intro conjI allI impI)
  show "fst (fetchMode_func1 env store s) = None"
    by (rule fetchMode_func1_step [of env store s]) simp
next
  fix err w'
  assume "tikv_FetchMode env (Address store) (world s) = (Inl err, w')"
  then show "stderr (snd (fetchMode_func1 env store s)) =
      stderr s @ padRight 30 (Address store) @ '' | Error: '' @ message err @ [newline]"
    by (simp add: fetchMode_func1_def extcall_def Fprintf_def)
next
  fix stores w'
  assume disc: "pd_GetStores env (PdAddr (TiDB cfg)) (world s) = (Inr stores, w')"
  define visited where "visited = filter (\<lambda>store. State store \<noteq> StoreStateDisconnected) stores"
  define s1 where "s1 = s\<lparr>world := w', trace := trace s @ [(PdGetStores (PdAddr (TiDB cfg)), None)]\<rparr>"
  have run: "fetchMode env cfg s = (None, forEachStore (fetchMode_func1 env) visited s1)"
    using disc by (simp add: fetchMode_def ForAllStores_def extcall_def errOf_def visited_def s1_def)
  obtain new out where
    tr: "trace (forEachStore (fetchMode_func1 env) visited s1) = trace s1 @ new"
    and er: "stderr (forEachStore (fetchMode_func1 env) visited s1) = stderr s1 @ out"
    and calls: "map fst new = map (\<lambda>store. TikvFetchMode (Address store)) visited"
    and lines: "\<And>addr err. (TikvFetchMode addr, Some err) \<in> set new \<Longrightarrow>
         \<exists>pre post. out = pre @ fetchMode_errorLine addr err @ post"
    using forEachStore_fetchMode [of env visited s1] by blast
  have tr1: "trace s1 = trace s @ [(PdGetStores (PdAddr (TiDB cfg)), None)]"
    and er1: "stderr s1 = stderr s"
    by (simp_all add: s1_def)
  show "fst (fetchMode env cfg s) = None" by (simp add: run)
  show "map fst (trace (snd (fetchMode env cfg s))) =
           map fst (trace s) @ PdGetStores (PdAddr (TiDB cfg)) #
             map (\<lambda>store. TikvFetchMode (Address store))
               (filter (\<lambda>store. State store \<noteq> StoreStateDisconnected) stores)"
    unfolding visited_def [symmetric] by (simp add: run tr tr1 calls)
  fix addr err
  assume "(TikvFetchMode addr, Some err) \<in> set (drop (length (trace s)) (trace (snd (fetchMode env cfg s))))"
  then have "(TikvFetchMode addr, Some err) \<in> set new"
    by (simp add: run tr tr1)
  from lines [OF this] obtain pre post where "out = pre @ fetchMode_errorLine addr err @ post"
    by blast
  then have "stderr (snd (fetchMode env cfg s)) =
      stderr s @ pre @ padRight 30 addr @ '' | Error: '' @ message err @ [newline] @ post"
    by (simp add: run er er1 fetchMode_errorLine_def)
  then show "\<exists>pre post. stderr (snd (fetchMode env cfg s)) =
      stderr s @ pre @ padRight 30 addr @ '' | Error: '' @ message err @ [newline] @ post"
    by blast
qed

theorem fetchMode_node_errors_isolated_witness:
  "tikv_FetchMode env_fleet (Address \<lparr>Address = ''tikv3:20160'', State = StoreStateUp\<rparr>) (world start)
      = (Inl (Error ''timeout''), ())
   \<and> fetchMode_func1 env_fleet \<lparr>Address = ''tikv3:20160'', State = StoreStateUp\<rparr> start =
       (None, \<lparr>world = (), trace = [(TikvFetchMode ''tikv3:20160'', Some (Error ''timeout''))],
               stderr = padRight 30 ''tikv3:20160'' @ '' | Error: timeout'' @ [newline]\<rparr>)
   \<and> pd_GetStores env_fleet (PdAddr (TiDB cfg0)) (world start) = (Inr fleet, ())
   \<and> fetchMode env_fleet cfg0 start =
       (None, \<lparr>world = (),
               trace = [(PdGetStores ''pd:2379'', None), (TikvFetchMode ''tikv1:20160'', None),
                        (TikvFetchMode ''tikv3:20160'', Some (Error ''timeout'')),
                        (TikvFetchMode ''tikv4:20160'', None)],
               stderr = padRight 30 ''tikv1:20160'' @ '' | Import mode'' @ [newline]
                      @ padRight 30 ''tikv3:20160'' @ '' | Error: timeout'' @ [newline]
                      @ padRight 30 ''tikv4:20160'' @ '' | Import mode'' @ [newline]\<rparr>)"
  using fetchMode_node_errors_isolated [of env_fleet "\<lparr>Address = ''tikv3:20160'', State = StoreStateUp\<rparr>" start cfg0]
  by (simp add: env_fleet_def env_ok_def cfg0_def start_def fleet_def fetchMode_def ForAllStores_def
      fetchMode_func1_def extcall_def errOf_def Fprintf_def SwitchMode_String_def)

subsection \<open>cleanupMetas and checkpointRemove\<close>

lemma cleanupMetas_trace:
  "\<exists>metas. trace (snd (cleanupMetas env cfg tableName s)) = trace s @ metas
     \<and> metas \<noteq> [] \<and> fst (hd metas) = DBFromConfig
     \<and> (\<forall>ev \<in> set metas. is_meta_call (fst ev))
     \<and> (\<forall>ev \<in> set (butlast metas). snd ev = None)
     \<and> fst (cleanupMetas env cfg tableName s) = snd (last metas)
     \<and> stderr (snd (cleanupMetas env cfg tableName s)) = stderr s"
  by (simp add: cleanupMetas_def extcall_def Trace_def Let_def errOf_def
      split: prod.split option.split sum.split)


lemma trace_ignored [simp]: "trace (ignored c s) = trace s @ [(c, None)]"
  by (simp add: ignored_def)

lemma stderr_ignored [simp]: "stderr (ignored c s) = stderr s"
  by (simp add: ignored_def)

lemma world_ignored [simp]: "world (ignored c s) = world s"
  by (simp add: ignored_def)

text \<open>
  C5. In \<open>checkpointRemove\<close>, once the checkpoint store is open and the task checkpoint has
  been read: when the task checkpoint is absent or its \<open>TaskID\<close> is 0, no call of the
  metadata cleanup is made and \<open>RemoveCheckpoint\<close> is called on the given target right after
  the query, and its answer is returned. When the \<open>TaskID\<close> is not 0, \<open>cleanupMetas\<close> runs
  first, from the state that the query has left (its first call is \<open>DBFromConfig\<close>); when it
  returns no error, \<open>RemoveCheckpoint\<close> is called on the given target from the world that the
  cleanup has left; when it fails, its error is returned and \<open>RemoveCheckpoint\<close> is not
  called. The last part is the run of \<open>cleanupMetas\<close> in which both metadata tables exist.
\<close>

theorem checkpointRemove_metas_before_remove:
  assumes opened: "checkpoints_OpenCheckpointsDB env (world s) = (None, w1)"
    and task: "cpdb_TaskCheckpoint env w1 = (Inr taskCp, w2)"
  shows "((taskCp = None \<or> (\<exists>cp. taskCp = Some cp \<and> TaskID cp = 0)) \<longrightarrow>
            (\<forall>r w3. cpdb_RemoveCheckpoint env tableName w2 = (r, w3) \<longrightarrow>
               checkpointRemove env cfg tableName s =
                 (r, s\<lparr>world := w3,
                       trace := trace s @ [(OpenCheckpointsDB, None), (CpdbTaskCheckpoint, None),
                                           (CpdbRemoveCheckpoint tableName, r), (CpdbClose, None)]\<rparr>)))
       \<and> ((\<exists>cp. taskCp = Some cp \<and> TaskID cp \<noteq> 0) \<longrightarrow>
            (\<forall>r3 s3.
               cleanupMetas env cfg tableName
                 (s\<lparr>world := w2,
                    trace := trace s @ [(OpenCheckpointsDB, None), (CpdbTaskCheckpoint, None)]\<rparr>) = (r3, s3) \<longrightarrow>
               (\<exists>metas. trace s3 =
                    trace s @ [(OpenCheckpointsDB, None), (CpdbTaskCheckpoint, None)] @
                      (DBFromConfig, fst (restore_DBFromConfig env w2)) # metas
                  \<and> (\<forall>ev \<in> set metas. is_meta_call (fst ev)))
             \<and> (\<forall>err. r3 = Some err \<longrightarrow>
                   checkpointRemove env cfg tableName s =
                     (Some err, s3\<lparr>trace := trace s3 @ [(CpdbClose, None)]\<rparr>))
             \<and> (r3 = None \<longrightarrow>
                   (\<forall>r w4. cpdb_RemoveCheckpoint env tableName (world s3) = (r, w4) \<longrightarrow>
                      checkpointRemove env cfg tableName s =
                        (r, s3\<lparr>world := w4,
                               trace := trace s3 @ [(CpdbRemoveCheckpoint tableName, r),
                                                    (CpdbClose, None)]\<rparr>)))))
       \<and> (\<forall>t v1 v2 v3 v4 r v5.
             restore_DBFromConfig env (world t) = (None, v1)
           \<and> common_TableExists env (MetaSchemaName (App cfg)) (TableMetaTableName env) v1 = (Inr True, v2)
           \<and> restore_RemoveTableMetaByTableName env
                (common_UniqueTable env (MetaSchemaName (App cfg)) (TableMetaTableName env))
                (if tableName = ''all'' then [] else tableName) v2 = (None, v3)
           \<and> common_TableExists env (MetaSchemaName (App cfg)) (TaskMetaTableName env) v3 = (Inr True, v4)
           \<and> restore_MaybeCleanupAllMetas env (MetaSchemaName (App cfg)) True v4 = (r, v5) \<longrightarrow>
             cleanupMetas env cfg tableName t =
               (r, t\<lparr>world := v5,
                     trace := trace t @
                       [(DBFromConfig, None),
                        (TableExists (MetaSchemaName (App cfg)) (TableMetaTableName env), None),
                        (RemoveTableMetaByTableName
                           (common_UniqueTable env (MetaSchemaName (App cfg)) (TableMetaTableName env))
                           (if tableName = ''all'' then [] else tableName), None),
                        (TableExists (MetaSchemaName (App cfg)) (TaskMetaTableName env), None),
                        (MaybeCleanupAllMetas (MetaSchemaName (App cfg)) True, r)]\<rparr>))"
proof -
  define s2 where "s2 = s\<lparr>world := w2,
     trace := trace s @ [(OpenCheckpointsDB, None), (CpdbTaskCheckpoint, None)]\<rparr>"
  have s2: "world s2 = w2" "trace s2 = trace s @ [(OpenCheckpointsDB, None), (CpdbTaskCheckpoint, None)]"
    by (simp_all add: s2_def)
  have prelude: "checkpointRemove env cfg tableName s =
     deferred (ignored CpdbClose) (\<lambda>s1.
       (case (if (case taskCp of None \<Rightarrow> False | Some cp \<Rightarrow> TaskID cp \<noteq> 0)
                then cleanupMetas env cfg tableName s2 else (None, s2)) of
            (Some err, s3) \<Rightarrow> (Trace (Some err), s3)
          | (None, s3) \<Rightarrow>
           (case extcall (CpdbRemoveCheckpoint tableName) (cpdb_RemoveCheckpoint env tableName) id s3 of
              (r, s4) \<Rightarrow> (Trace r, s4)))) s"
    using opened task
    by (simp add: checkpointRemove_def extcall_def errOf_def deferred_def s2_def)
  have skipped: "checkpointRemove env cfg tableName s =
                 (r, s\<lparr>world := w3,
                       trace := trace s @ [(OpenCheckpointsDB, None), (CpdbTaskCheckpoint, None),
                                           (CpdbRemoveCheckpoint tableName, r), (CpdbClose, None)]\<rparr>)"
    if "taskCp = None \<or> (\<exists>cp. taskCp = Some cp \<and> TaskID cp = 0)"
      and "cpdb_RemoveCheckpoint env tableName w2 = (r, w3)" for r w3
  proof -
    from that(1) have skip: "(case taskCp of None \<Rightarrow> False | Some cp \<Rightarrow> TaskID cp \<noteq> 0) = False"
      by auto
    show ?thesis
      unfolding prelude skip using that(2)
      by (simp add: deferred_def extcall_def Trace_def ignored_def s2_def)
  qed
  have cleaned: "(\<exists>metas. trace s3 =
                    trace s @ [(OpenCheckpointsDB, None), (CpdbTaskCheckpoint, None)] @
                      (DBFromConfig, fst (restore_DBFromConfig env w2)) # metas
                  \<and> (\<forall>ev \<in> set metas. is_meta_call (fst ev)))
             \<and> (\<forall>err. r3 = Some err \<longrightarrow>
                   checkpointRemove env cfg tableName s =
                     (Some err, s3\<lparr>trace := trace s3 @ [(CpdbClose, None)]\<rparr>))
             \<and> (r3 = None \<longrightarrow>
                   (\<forall>r w4. cpdb_RemoveCheckpoint env tableName (world s3) = (r, w4) \<longrightarrow>
                      checkpointRemove env cfg tableName s =
                        (r, s3\<lparr>world := w4,
                               trace := trace s3 @ [(CpdbRemoveCheckpoint tableName, r),
                                                    (CpdbClose, None)]\<rparr>)))"
    if nonzero: "\<exists>cp. taskCp = Some cp \<and> TaskID cp \<noteq> 0"
      and metas_run: "cleanupMetas env cfg tableName s2 = (r3, s3)" for r3 s3
  proof (intro conjI allI impI)
    from nonzero have run: "(case taskCp of None \<Rightarrow> False | Some cp \<Rightarrow> TaskID cp \<noteq> 0) = True"
      by auto
    have "\<exists>metas. trace (snd (cleanupMetas env cfg tableName s2)) =
          trace s2 @ (DBFromConfig, fst (restore_DBFromConfig env (world s2))) # metas
        \<and> (\<forall>ev \<in> set metas. is_meta_call (fst ev))"
      by (simp add: cleanupMetas_def extcall_def Trace_def Let_def errOf_def
          split: prod.split option.split sum.split)
    then show "\<exists>metas. trace s3 =
                    trace s @ [(OpenCheckpointsDB, None), (CpdbTaskCheckpoint, None)] @
                      (DBFromConfig, fst (restore_DBFromConfig env w2)) # metas
                  \<and> (\<forall>ev \<in> set metas. is_meta_call (fst ev))"
      by (simp add: metas_run s2)
    show "checkpointRemove env cfg tableName s =
                     (Some err, s3\<lparr>trace := trace s3 @ [(CpdbClose, None)]\<rparr>)"
      if "r3 = Some err" for err
      unfolding prelude run using that
      by (simp add: metas_run deferred_def Trace_def ignored_def)
    show "checkpointRemove env cfg tableName s =
                        (r, s3\<lparr>world := w4,
                               trace := trace s3 @ [(CpdbRemoveCheckpoint tableName, r),
                                                    (CpdbClose, None)]\<rparr>)"
      if "r3 = None" and "cpdb_RemoveCheckpoint env tableName (world s3) = (r, w4)" for r w4
      unfolding prelude run using that
      by (simp add: metas_run deferred_def extcall_def Trace_def ignored_def)
  qed
  have metas: "cleanupMetas env cfg tableName t =
               (r, t\<lparr>world := v5,
                     trace := trace t @
                       [(DBFromConfig, None),
                        (TableExists (MetaSchemaName (App cfg)) (TableMetaTableName env), None),
                        (RemoveTableMetaByTableName
                           (common_UniqueTable env (MetaSchemaName (App cfg)) (TableMetaTableName env))
                           (if tableName = ''all'' then [] else tableName), None),
                        (TableExists (MetaSchemaName (App cfg)) (TaskMetaTableName env), None),
                        (MaybeCleanupAllMetas (MetaSchemaName (App cfg)) True, r)]\<rparr>)"
    if "restore_DBFromConfig env (world t) = (None, v1)
           \<and> common_TableExists env (MetaSchemaName (App cfg)) (TableMetaTableName env) v1 = (Inr True, v2)
           \<and> restore_RemoveTableMetaByTableName env
                (common_UniqueTable env (MetaSchemaName (App cfg)) (TableMetaTableName env))
                (if tableName = ''all'' then [] else tableName) v2 = (None, v3)
           \<and> common_TableExists env (MetaSchemaName (App cfg)) (TaskMetaTableName env) v3 = (Inr True, v4)
           \<and> restore_MaybeCleanupAllMetas env (MetaSchemaName (App cfg)) True v4 = (r, v5)"
    for t v1 v2 v3 v4 r v5
    using that
    by (simp add: cleanupMetas_def extcall_def Trace_def Let_def errOf_def)
  from skipped cleaned metas show ?thesis
    unfolding s2_def by blast
qed


theorem checkpointRemove_metas_before_remove_witness:
  "checkpoints_OpenCheckpointsDB env_task0 (world start) = (None, ())
   \<and> cpdb_TaskCheckpoint env_task0 () = (Inr (Some \<lparr>TaskID = 0\<rparr>), ())
   \<and> cpdb_RemoveCheckpoint env_task0 ''all'' () = (None, ())
   \<and> checkpointRemove env_task0 cfg0 ''all'' start =
       (None, \<lparr>world = (),
               trace = [(OpenCheckpointsDB, None), (CpdbTaskCheckpoint, None),
                        (CpdbRemoveCheckpoint ''all'', None), (CpdbClose, None)],
               stderr = []\<rparr>)
   \<and> checkpoints_OpenCheckpointsDB env_ok (world start) = (None, ())
   \<and> cpdb_TaskCheckpoint env_ok () = (Inr (Some \<lparr>TaskID = 1\<rparr>), ())
   \<and> cleanupMetas env_ok cfg0 ''all''
        \<lparr>world = (), trace = [(OpenCheckpointsDB, None), (CpdbTaskCheckpoint, None)], stderr = []\<rparr> =
       (None, \<lparr>world = (),
               trace = [(OpenCheckpointsDB, None), (CpdbTaskCheckpoint, None),
                        (DBFromConfig, None),
                        (TableExists ''lightning_metadata'' ''table_meta'', None),
                        (RemoveTableMetaByTableName ''lightning_metadata.table_meta'' [], None),
                        (TableExists ''lightning_metadata'' ''task_meta'', None),
                        (MaybeCleanupAllMetas ''lightning_metadata'' True, None)],
               stderr = []\<rparr>)
   \<and> cpdb_RemoveCheckpoint env_ok ''all'' () = (None, ())
   \<and> checkpointRemove env_ok cfg0 ''all'' start =
       (None, \<lparr>world = (),
               trace = [(OpenCheckpointsDB, None), (CpdbTaskCheckpoint, None),
                        (DBFromConfig, None),
                        (TableExists ''lightning_metadata'' ''table_meta'', None),
                        (RemoveTableMetaByTableName ''lightning_metadata.table_meta'' [], None),
                        (TableExists ''lightning_metadata'' ''task_meta'', None),
                        (MaybeCleanupAllMetas ''lightning_metadata'' True, None),
                        (CpdbRemoveCheckpoint ''all'', None), (CpdbClose, None)],
               stderr = []\<rparr>)"
proof -
  define s2 :: "unit state" where
    "s2 = \<lparr>world = (), trace = [(OpenCheckpointsDB, None), (CpdbTaskCheckpoint, None)], stderr = []\<rparr>"
  define s3 :: "unit state" where
    "s3 = \<lparr>world = (),
               trace = [(OpenCheckpointsDB, None), (CpdbTaskCheckpoint, None),
                        (DBFromConfig, None),
                        (TableExists ''lightning_metadata'' ''table_meta'', None),
                        (RemoveTableMetaByTableName ''lightning_metadata.table_meta'' [], None),
                        (TableExists ''lightning_metadata'' ''task_meta'', None),
                        (MaybeCleanupAllMetas ''lightning_metadata'' True, None)],
               stderr = []\<rparr>"
  have open0: "checkpoints_OpenCheckpointsDB env_task0 (world start) = (None, ())"
    by (simp add: env_task0_def env_ok_def)
  have task0: "cpdb_TaskCheckpoint env_task0 () = (Inr (Some \<lparr>TaskID = 0\<rparr>), ())"
    by (simp add: env_task0_def)
  have remove0: "cpdb_RemoveCheckpoint env_task0 ''all'' () = (None, ())"
    by (simp add: env_task0_def env_ok_def)
  have zero: "Some \<lparr>TaskID = 0\<rparr> = None \<or> (\<exists>cp. Some \<lparr>TaskID = 0\<rparr> = Some cp \<and> TaskID cp = 0)"
    by simp
  from checkpointRemove_metas_before_remove [OF open0 task0, of "''all''" cfg0, THEN conjunct1, THEN mp,
      OF zero, rule_format, OF remove0]
  have run0: "checkpointRemove env_task0 cfg0 ''all'' start =
       (None, \<lparr>world = (),
               trace = [(OpenCheckpointsDB, None), (CpdbTaskCheckpoint, None),
                        (CpdbRemoveCheckpoint ''all'', None), (CpdbClose, None)],
               stderr = []\<rparr>)"
    by (simp add: start_def)
  have open1: "checkpoints_OpenCheckpointsDB env_ok (world start) = (None, ())"
    by (simp add: env_ok_def)
  have task1: "cpdb_TaskCheckpoint env_ok () = (Inr (Some \<lparr>TaskID = 1\<rparr>), ())"
    by (simp add: env_ok_def)
  have remove1: "cpdb_RemoveCheckpoint env_ok ''all'' () = (None, ())"
    by (simp add: env_ok_def)
  note main = checkpointRemove_metas_before_remove [OF open1 task1, of "''all''" cfg0]
  have calls: "restore_DBFromConfig env_ok (world s2) = (None, ())
           \<and> common_TableExists env_ok (MetaSchemaName (App cfg0)) (TableMetaTableName env_ok) () = (Inr True, ())
           \<and> restore_RemoveTableMetaByTableName env_ok
                (common_UniqueTable env_ok (MetaSchemaName (App cfg0)) (TableMetaTableName env_ok))
                (if ''all'' = ''all'' then [] else ''all'') () = (None, ())
           \<and> common_TableExists env_ok (MetaSchemaName (App cfg0)) (TaskMetaTableName env_ok) () = (Inr True, ())
           \<and> restore_MaybeCleanupAllMetas env_ok (MetaSchemaName (App cfg0)) True () = (None, ())"
    by (simp add: env_ok_def)
  from main [THEN conjunct2, THEN conjunct2, rule_format, OF calls]
  have metas: "cleanupMetas env_ok cfg0 ''all'' s2 = (None, s3)"
    by (simp add: s2_def s3_def env_ok_def cfg0_def)
  have s2_eq: "start\<lparr>world := (), trace := trace start @ [(OpenCheckpointsDB, None), (CpdbTaskCheckpoint, None)]\<rparr> = s2"
    by (simp add: start_def s2_def)
  have nonzero: "\<exists>cp. Some \<lparr>TaskID = 1\<rparr> = Some cp \<and> TaskID cp \<noteq> 0"
    by simp
  have remove3: "cpdb_RemoveCheckpoint env_ok ''all'' (world s3) = (None, ())"
    by (simp add: env_ok_def)
  from main [THEN conjunct2, THEN conjunct1, THEN mp, OF nonzero, rule_format, OF metas [folded s2_eq],
      THEN conjunct2, THEN conjunct2, THEN mp, OF refl, rule_format, OF remove3]
  have run1: "checkpointRemove env_ok cfg0 ''all'' start =
       (None, \<lparr>world = (),
               trace = [(OpenCheckpointsDB, None), (CpdbTaskCheckpoint, None),
                        (DBFromConfig, None),
                        (TableExists ''lightning_metadata'' ''table_meta'', None),
                        (RemoveTableMetaByTableName ''lightning_metadata.table_meta'' [], None),
                        (TableExists ''lightning_metadata'' ''task_meta'', None),
                        (MaybeCleanupAllMetas ''lightning_metadata'' True, None),
                        (CpdbRemoveCheckpoint ''all'', None), (CpdbClose, None)],
               stderr = []\<rparr>)"
    by (simp add: s3_def)
  from open0 task0 remove0 run0 open1 task1 metas remove1 run1 show ?thesis
    unfolding s2_def s3_def by blast
qed

subsection \<open>getLocalStoringTables\<close>

text \<open>
  C8. \<open>getLocalStoringTables\<close> returns \<open>nil\<close> and prints that no table has lost
  intermediate files when the configured backend is not the local one (it then makes no
  call at all), when the backend is local and the checkpoint store does not exist, and
  when the store exists, opens, and the query returns an empty mapping.
\<close>

theorem getLocalStoringTables_nothing_to_show:
  "(Backend (TikvImporter cfg) \<noteq> ''local'' \<longrightarrow>
      getLocalStoringTables env cfg s =
        (None, s\<lparr>stderr := stderr s @ ''No table has lost intermediate files according to given config'' @ [newline]\<rparr>))
   \<and> (Backend (TikvImporter cfg) = ''local'' \<longrightarrow>
      (\<forall>w1. checkpoints_IsCheckpointsDBExists env (world s) = (Inr False, w1) \<longrightarrow>
         getLocalStoringTables env cfg s =
           (None, s\<lparr>world := w1, trace := trace s @ [(IsCheckpointsDBExists, None)],
                    stderr := stderr s @ ''No table has lost intermediate files according to given config'' @ [newline]\<rparr>))
    \<and> (\<forall>w1 w2 w3. checkpoints_IsCheckpointsDBExists env (world s) = (Inr True, w1)
           \<and> checkpoints_OpenCheckpointsDB env w1 = (None, w2)
           \<and> cpdb_GetLocalStoringTables env w2 = (Inr [], w3) \<longrightarrow>
         getLocalStoringTables env cfg s =
           (None, s\<lparr>world := w3,
                    trace := trace s @ [(IsCheckpointsDBExists, None), (OpenCheckpointsDB, None),
                                        (CpdbGetLocalStoringTables, None), (CpdbClose, None)],
                    stderr := stderr s @ ''No table has lost intermediate files according to given config'' @ [newline]\<rparr>)))"
  by (simp add: getLocalStoringTables_def getLocalStoringTables_body_def BackendLocal_def
      extcall_def errOf_def deferred_def ignored_def Trace_def Fprintln_def)

theorem getLocalStoringTables_nothing_to_show_witness:
  "Backend (TikvImporter cfg0) \<noteq> ''local''
   \<and> getLocalStoringTables env_ok cfg0 start =
       (None, \<lparr>world = (), trace = [],
               stderr = ''No table has lost intermediate files according to given config'' @ [newline]\<rparr>)
   \<and> Backend (TikvImporter cfg_local) = ''local''
   \<and> checkpoints_IsCheckpointsDBExists env_no_db (world start) = (Inr False, ())
   \<and> getLocalStoringTables env_no_db cfg_local start =
       (None, \<lparr>world = (), trace = [(IsCheckpointsDBExists, None)],
               stderr = ''No table has lost intermediate files according to given config'' @ [newline]\<rparr>)
   \<and> checkpoints_IsCheckpointsDBExists env_ok (world start) = (Inr True, ())
   \<and> checkpoints_OpenCheckpointsDB env_ok () = (None, ())
   \<and> cpdb_GetLocalStoringTables env_ok () = (Inr [], ())
   \<and> getLocalStoringTables env_ok cfg_local start =
       (None, \<lparr>world = (),
               trace = [(IsCheckpointsDBExists, None), (OpenCheckpointsDB, None),
                        (CpdbGetLocalStoringTables, None), (CpdbClose, None)],
               stderr = ''No table has lost intermediate files according to given config'' @ [newline]\<rparr>)"
proof -
  have h1: "Backend (TikvImporter cfg0) \<noteq> ''local''"
    by (simp add: cfg0_def)
  have h2: "Backend (TikvImporter cfg_local) = ''local''"
    by (simp add: cfg_local_def)
  have h3: "checkpoints_IsCheckpointsDBExists env_no_db (world start) = (Inr False, ())"
    by (simp add: env_no_db_def)
  have h4: "checkpoints_IsCheckpointsDBExists env_ok (world start) = (Inr True, ())
      \<and> checkpoints_OpenCheckpointsDB env_ok () = (None, ())
      \<and> cpdb_GetLocalStoringTables env_ok () = (Inr [], ())"
    by (simp add: env_ok_def)
  note thm1 = getLocalStoringTables_nothing_to_show [of cfg0 env_ok start, THEN conjunct1, rule_format, OF h1]
  note thm2 = getLocalStoringTables_nothing_to_show [of cfg_local env_no_db start, THEN conjunct2,
      rule_format, OF h2, THEN conjunct1, rule_format, OF h3]
  note thm3 = getLocalStoringTables_nothing_to_show [of cfg_local env_ok start, THEN conjunct2,
      rule_format, OF h2, THEN conjunct2, rule_format, OF h4]
  from thm1 have r1: "getLocalStoringTables env_ok cfg0 start =
       (None, \<lparr>world = (), trace = [],
               stderr = ''No table has lost intermediate files according to given config'' @ [newline]\<rparr>)"
    by (simp add: start_def)
  from thm2 have r2: "getLocalStoringTables env_no_db cfg_local start =
       (None, \<lparr>world = (), trace = [(IsCheckpointsDBExists, None)],
               stderr = ''No table has lost intermediate files according to given config'' @ [newline]\<rparr>)"
    by (simp add: start_def)
  from thm3 have r3: "getLocalStoringTables env_ok cfg_local start =
       (None, \<lparr>world = (),
               trace = [(IsCheckpointsDBExists, None), (OpenCheckpointsDB, None),
                        (CpdbGetLocalStoringTables, None), (CpdbClose, None)],
               stderr = ''No table has lost intermediate files according to given config'' @ [newline]\<rparr>)"
    by (simp add: start_def)
  from h1 h2 h3 h4 r1 r2 r3 show ?thesis by blast
qed

subsection \<open>importEngine\<close>





subsection \<open>The loop over the engine identifiers\<close>

lemma sint_succ_int32:
  fixes e :: int32
  assumes "sint e < 2147483647"
  shows "sint (e + 1) = sint e + 1"
proof -
  have lo: "- (2 ^ 31) \<le> sint e + 1" using sint_ge [of e] by simp
  have hi: "sint e + 1 < 2 ^ 31" using assms by simp
  have "sint (e + 1) = signed_take_bit 31 (sint e + sint (1 :: int32))"
    by (simp add: sint_word_ariths)
  also have "\<dots> = signed_take_bit 31 (sint e + 1)" by simp
  also have "\<dots> = sint e + 1"
    using lo hi by (simp add: signed_take_bit_int_eq_self)
  finally show ?thesis .
qed

lemma forEngineID_Some_bound:
  fixes maxEngineID :: int32
  assumes "forEngineID maxEngineID body engineID st = Some st'"
  shows "sint maxEngineID \<noteq> 2147483647"
proof (rule forEngineID.raw_induct [where P = "\<lambda>m b e s y. sint m \<noteq> 2147483647", OF _ assms])
  fix loop :: "int32 \<Rightarrow> (int32 \<Rightarrow> 'a \<Rightarrow> 'a) \<Rightarrow> int32 \<Rightarrow> 'a \<Rightarrow> 'a option"
  fix m :: int32 and b :: "int32 \<Rightarrow> 'a \<Rightarrow> 'a" and e :: int32 and s y :: 'a
  assume ih: "\<And>m b e s y. loop m b e s = Some y \<Longrightarrow> sint m \<noteq> 2147483647"
  assume step: "(if sint e \<le> sint m then loop m b (e + 1) (b e s) else Some s) = Some y"
  show "sint m \<noteq> 2147483647"
  proof
    assume top: "sint m = 2147483647"
    have "sint e \<le> sint m" using sint_lt [of e] top by simp
    with step have "loop m b (e + 1) (b e s) = Some y" by simp
    from ih [OF this] top show False by simp
  qed
qed

lemma forEngineID_diverges:
  fixes maxEngineID :: int32
  assumes "sint maxEngineID = 2147483647"
  shows "forEngineID maxEngineID body engineID st = None"
proof (cases "forEngineID maxEngineID body engineID st")
  case None
  then show ?thesis .
next
  case (Some st')
  from forEngineID_Some_bound [OF this] assms show ?thesis by simp
qed

lemma forEngineID_terminates:
  fixes maxEngineID :: int32
  assumes "sint maxEngineID < 2147483647"
  shows "forEngineID maxEngineID body engineID st = Some (fold body (engineIDs engineID maxEngineID) st)"
proof (induction "nat (sint maxEngineID + 1 - sint engineID)" arbitrary: engineID st)
  case 0
  then have "\<not> sint engineID \<le> sint maxEngineID" by simp
  then show ?case
    by (subst forEngineID.simps) (simp add: engineIDs_def)
next
  case (Suc n)
  then have le: "sint engineID \<le> sint maxEngineID" by simp
  then have lt: "sint engineID < 2147483647" using assms by simp
  have next_id: "sint (engineID + 1) = sint engineID + 1"
    using lt by (rule sint_succ_int32)
  have "n = nat (sint maxEngineID + 1 - sint (engineID + 1))"
    using Suc.hyps(2) next_id by simp
  then have ih: "forEngineID maxEngineID body (engineID + 1) (body engineID st)
       = Some (fold body (engineIDs (engineID + 1) maxEngineID) (body engineID st))"
    by (rule Suc.hyps(1))
  have "engineIDs engineID maxEngineID = engineID # engineIDs (engineID + 1) maxEngineID"
    using le by (simp add: engineIDs_def next_id upto_rec1 [of "sint engineID"])
  with ih le show ?case
    by (subst forEngineID.simps) simp
qed

text \<open>The loop comes to an end exactly when the upper bound is not the greatest \<open>int32\<close>.\<close>

lemma forEngineID_eq:
  fixes maxEngineID :: int32
  shows "forEngineID maxEngineID body engineID st =
    (if sint maxEngineID = 2147483647 then None
     else Some (fold body (engineIDs engineID maxEngineID) st))"
proof (cases "sint maxEngineID = 2147483647")
  case True
  then show ?thesis by (simp add: forEngineID_diverges)
next
  case False
  moreover have "sint maxEngineID < 2147483648" using sint_lt [of maxEngineID] by simp
  ultimately have "sint maxEngineID < 2147483647" by simp
  with False show ?thesis by (simp add: forEngineID_terminates)
qed

text \<open>
  When no range ends at the greatest \<open>int32\<close>, the two nested loops run the body once
  for every table and every engine identifier of its range, in order, and come to an end.
\<close>

lemma forTables_bounded:
  assumes "\<forall>table \<in> set targetTables. sint (MaxEngineID table) < 2147483647"
  shows "forTables (\<lambda>table. forEngineID (MaxEngineID table) (body table) (MinEngineID table)) targetTables st =
    Some (fold (\<lambda>table. fold (body table) (engineIDs (MinEngineID table) (MaxEngineID table))) targetTables st)"
  using assms
  by (induction targetTables arbitrary: st) (simp_all add: forEngineID_terminates)

lemma forTables_diverges:
  assumes "\<exists>table \<in> set targetTables. sint (MaxEngineID table) = 2147483647"
  shows "forTables (\<lambda>table. forEngineID (MaxEngineID table) (body table) (MinEngineID table)) targetTables st = None"
  using assms
proof (induction targetTables arbitrary: st)
  case Nil
  then show ?case by simp
next
  case (Cons table rest)
  show ?case
  proof (cases "sint (MaxEngineID table) = 2147483647")
    case True
    then show ?thesis by (simp add: forEngineID_diverges)
  next
    case False
    with Cons.prems have "\<exists>table \<in> set rest. sint (MaxEngineID table) = 2147483647" by simp
    from Cons.IH [OF this] show ?thesis by (simp split: option.split)
  qed
qed

subsection \<open>What the best-effort phases of checkpointErrorDestroy record\<close>

lemma record_error_simps [simp]:
  "record_error (c, None) lastErr = lastErr"
  "record_error (c, Some err) lastErr = Some err"
  by (simp_all add: record_error_def)

lemma fold_record_error_None:
  "fold record_error evs lastErr = None \<longleftrightarrow> lastErr = None \<and> (\<forall>ev \<in> set evs. snd ev = None)"
  by (induction evs arbitrary: lastErr) (auto simp: record_error_def split: option.splits)

lemma fold_record_error_last:
  assumes "evs \<noteq> []" and "\<forall>ev \<in> set (butlast evs). snd ev = None"
  shows "fold record_error evs None = snd (last evs)"
proof -
  from assms(1) obtain xs x where evs: "evs = xs @ [x]"
    by (cases evs rule: rev_cases) auto
  with assms(2) have "\<forall>ev \<in> set xs. snd ev = None" by simp
  then have "fold record_error xs None = None"
    by (simp add: fold_record_error_None)
  then show ?thesis
    by (simp add: evs record_error_def split: option.split)
qed

lemma best_effort_refl: "best_effort a a"
  by (simp add: best_effort_def)

lemma best_effort_trans:
  assumes "best_effort a b" and "best_effort b c"
  shows "best_effort a c"
proof -
  from assms(1) obtain n1 where 1: "trace (snd b) = trace (snd a) @ n1"
    "\<forall>ev \<in> set n1. \<not> is_meta_call (fst ev)"
    "fst b = fold record_error n1 (fst a)"
    unfolding best_effort_def by (elim exE conjE) (rule that)
  from assms(2) obtain n2 where 2: "trace (snd c) = trace (snd b) @ n2"
    "\<forall>ev \<in> set n2. \<not> is_meta_call (fst ev)"
    "fst c = fold record_error n2 (fst b)"
    unfolding best_effort_def by (elim exE conjE) (rule that)
  show ?thesis
    unfolding best_effort_def
    by (rule exI [of _ "n1 @ n2"]) (use 1 2 in auto)
qed

lemma best_effort_completes:
  assumes "best_effort a b" and "completes b c"
  shows "completes a c"
proof -
  from assms(1) obtain n1 where 1: "trace (snd b) = trace (snd a) @ n1"
    "\<forall>ev \<in> set n1. \<not> is_meta_call (fst ev)"
    "fst b = fold record_error n1 (fst a)"
    unfolding best_effort_def by (elim exE conjE) (rule that)
  from assms(2) obtain n2 where 2: "trace (snd c) = trace (snd b) @ n2"
    "(\<exists>e. (DBFromConfig, e) \<in> set n2) \<longleftrightarrow>
       fst b = None \<and> (\<forall>ev \<in> set n2. \<not> is_meta_call (fst ev) \<longrightarrow> snd ev = None)"
    "fst c = fold record_error n2 (fst b)"
    unfolding completes_def by (elim exE conjE) (rule that)
  have no_db: "(DBFromConfig, e) \<notin> set n1" for e
    using 1(2) by force
  have b_None: "fst b = None \<longleftrightarrow> fst a = None \<and> (\<forall>ev \<in> set n1. snd ev = None)"
    by (simp add: 1(3) fold_record_error_None)
  show ?thesis
    unfolding completes_def
    by (rule exI [of _ "n1 @ n2"]) (use 1 2 no_db b_None in auto)
qed

lemma completes_ignored:
  assumes "completes a (r, s')" and "\<not> is_meta_call c"
  shows "completes a (r, ignored c s')"
proof -
  from assms(1) obtain n where n: "trace s' = trace (snd a) @ n"
    "(\<exists>e. (DBFromConfig, e) \<in> set n) \<longleftrightarrow>
       fst a = None \<and> (\<forall>ev \<in> set n. \<not> is_meta_call (fst ev) \<longrightarrow> snd ev = None)"
    "r = fold record_error n (fst a)"
    unfolding completes_def by (elim exE conjE) (rule that, simp_all)
  have "c \<noteq> DBFromConfig" using assms(2) by auto
  then show ?thesis
    unfolding completes_def
    by (intro exI [of _ "n @ [(c, None)]"]) (use n in \<open>auto simp: record_error_def\<close>)
qed

lemma completes_failed:
  assumes "trace s' = trace s @ [(c, Some err)]" and "\<not> is_meta_call c"
  shows "completes (lastErr, s) (Some err, s')"
proof -
  have "c \<noteq> DBFromConfig" using assms(2) by auto
  with assms show ?thesis
    unfolding completes_def
    by (intro exI [of _ "[(c, Some err)]"]) (auto simp: record_error_def)
qed

lemma best_effort_extcall:
  assumes "extcall c f err s = (r, s')" and "\<not> is_meta_call c" and "err r = None"
  shows "best_effort (lastErr, s) (lastErr, s')"
  using assms unfolding best_effort_def
  by (intro exI [of _ "[(c, None)]"]) (auto simp: record_error_def elim!: extcall_cases)

lemma dropTables_best_effort: "best_effort (lastErr, s) (dropTables env targetTables lastErr s)"
proof (induction targetTables arbitrary: lastErr s)
  case Nil
  show ?case by (simp add: best_effort_refl)
next
  case (Cons table rest)
  define s1 where "s1 = Fprintln [''Dropping table:'', TableName table] s"
  obtain r s2 where call: "extcall (TargetDropTable (TableName table)) (target_DropTable env (TableName table)) id s1 = (r, s2)"
    by (cases "extcall (TargetDropTable (TableName table)) (target_DropTable env (TableName table)) id s1")
  then have tr: "trace s2 = trace s @ [(TargetDropTable (TableName table), r)]"
    by (auto simp: s1_def elim!: extcall_cases)
  show ?case
  proof (cases r)
    case None
    have "best_effort (lastErr, s) (lastErr, s2)"
      unfolding best_effort_def using tr None
      by (intro exI [of _ "[(TargetDropTable (TableName table), None)]"]) simp
    from best_effort_trans [OF this Cons.IH [of lastErr s2]] call None show ?thesis
      by (simp add: s1_def)
  next
    case (Some err)
    define s3 where "s3 = Fprintln [''* Encountered error while dropping table:'', message err] s2"
    have "best_effort (lastErr, s) (Some err, s3)"
      unfolding best_effort_def using tr Some
      by (intro exI [of _ "[(TargetDropTable (TableName table), Some err)]"]) (simp add: s3_def)
    from best_effort_trans [OF this Cons.IH [of "Some err" s3]] call Some show ?thesis
      by (simp add: s1_def s3_def)
  qed
qed

lemma importerEngine_best_effort: "best_effort ls (importerEngine env table engineID ls)"
proof (cases ls)
  case (Pair lastErr s)
  define s1 where "s1 = Fprintln [''Closing and cleaning up engine:'', TableName table, showInt (sint engineID)] s"
  obtain r s2 where close: "extcall (ImporterUnsafeCloseEngine (TableName table) engineID)
                      (importer_UnsafeCloseEngine env (TableName table) engineID) errOf s1 = (r, s2)"
    by (cases "extcall (ImporterUnsafeCloseEngine (TableName table) engineID)
                      (importer_UnsafeCloseEngine env (TableName table) engineID) errOf s1")
  then have tr2: "trace s2 = trace s @ [(ImporterUnsafeCloseEngine (TableName table) engineID, errOf r)]"
    by (auto simp: s1_def elim!: extcall_cases)
  show ?thesis
  proof (cases r)
    case (Inl err)
    then have "importerEngine env table engineID ls =
        (Some err, Fprintln [''* Encountered error while closing engine:'', message err] s2)"
      using close by (simp add: importerEngine_def Pair s1_def)
    then show ?thesis
      unfolding best_effort_def Pair using tr2 Inl
      by (intro exI [of _ "[(ImporterUnsafeCloseEngine (TableName table) engineID, Some err)]"])
         (simp add: errOf_def)
  next
    case (Inr closedEngine)
    obtain r3 s3 where cleanup: "extcall (ClosedEngineCleanup closedEngine) (ClosedEngine_Cleanup env closedEngine) id s2 = (r3, s3)"
      by (cases "extcall (ClosedEngineCleanup closedEngine) (ClosedEngine_Cleanup env closedEngine) id s2")
    then have tr3: "trace s3 = trace s @ [(ImporterUnsafeCloseEngine (TableName table) engineID, None),
          (ClosedEngineCleanup closedEngine, r3)]"
      using tr2 Inr by (auto simp: errOf_def elim!: extcall_cases)
    have "importerEngine env table engineID ls = (case r3 of Some err \<Rightarrow> (Some err, s3) | None \<Rightarrow> (lastErr, s3))"
      using close cleanup Inr by (simp add: importerEngine_def Pair s1_def split: option.split)
    then show ?thesis
      unfolding best_effort_def Pair using tr3
      by (intro exI [of _ "[(ImporterUnsafeCloseEngine (TableName table) engineID, None),
          (ClosedEngineCleanup closedEngine, r3)]"])
         (auto split: option.split)
  qed
qed

lemma localEngine_best_effort: "best_effort ls (localEngine env cfg table engineID ls)"
proof (cases ls)
  case (Pair lastErr s)
  define s1 where "s1 = Fprintln [''Closing and cleaning up engine:'', TableName table, showInt (sint engineID)] s"
  define eID where "eID = snd (backend_MakeUUID env (TableName table) engineID)"
  obtain r s2 where cleanup: "extcall (LocalFileCleanup eID (SortedKVDir (TikvImporter cfg)))
                      (File_Cleanup env eID (SortedKVDir (TikvImporter cfg))) id s1 = (r, s2)"
    by (cases "extcall (LocalFileCleanup eID (SortedKVDir (TikvImporter cfg)))
                      (File_Cleanup env eID (SortedKVDir (TikvImporter cfg))) id s1")
  then have tr2: "trace s2 = trace s @ [(LocalFileCleanup eID (SortedKVDir (TikvImporter cfg)), r)]"
    by (auto simp: s1_def elim!: extcall_cases)
  have "localEngine env cfg table engineID ls =
      (case r of Some err \<Rightarrow> (Some err, Fprintln [''* Encountered error while cleanup engine:'', message err] s2)
       | None \<Rightarrow> (lastErr, s2))"
    using cleanup by (simp add: localEngine_def Pair s1_def eID_def Let_def split: option.split)
  then show ?thesis
    unfolding best_effort_def Pair using tr2
    by (intro exI [of _ "[(LocalFileCleanup eID (SortedKVDir (TikvImporter cfg)), r)]"])
       (auto split: option.split)
qed

lemma fold_best_effort:
  assumes "\<And>x st. best_effort st (body x st)"
  shows "best_effort st (fold body xs st)"
proof (induction xs arbitrary: st)
  case Nil
  show ?case by (simp add: best_effort_refl)
next
  case (Cons x xs)
  from best_effort_trans [OF assms [of st x] Cons.IH [of "body x st"]] show ?case by simp
qed

lemma forEngineID_best_effort:
  assumes "forEngineID maxEngineID body engineID st = Some st'"
    and "\<And>e st. best_effort st (body e st)"
  shows "best_effort st st'"
proof -
  from assms(1) have "st' = fold body (engineIDs engineID maxEngineID) st"
    by (simp add: forEngineID_eq split: if_splits)
  with fold_best_effort [of body st "engineIDs engineID maxEngineID"] assms(2) show ?thesis
    by simp
qed

lemma forTables_best_effort:
  assumes "forTables body targetTables st = Some st'"
    and "\<And>table st st'. body table st = Some st' \<Longrightarrow> best_effort st st'"
  shows "best_effort st st'"
  using assms(1)
proof (induction targetTables arbitrary: st)
  case Nil
  then show ?case by (simp add: best_effort_refl)
next
  case (Cons table rest)
  then obtain st1 where 1: "body table st = Some st1" and 2: "forTables body rest st1 = Some st'"
    by (auto split: option.splits)
  from best_effort_trans [OF assms(2) [OF 1] Cons.IH [OF 2]] show ?case .
qed


lemma deferredO_Some:
  assumes "deferredO f body s = Some (r, s')"
  obtains s1 where "body s = Some (r, s1)" and "s' = f s1"
  using assms by (auto simp: deferredO_def split: option.splits)

lemma cleanupMetas_completes: "completes (None, s) (cleanupMetas env cfg tableName s)"
proof -
  from cleanupMetas_trace [of env cfg tableName s]
  obtain metas where tr: "trace (snd (cleanupMetas env cfg tableName s)) = trace s @ metas"
    and ne: "metas \<noteq> []" and hd: "fst (hd metas) = DBFromConfig"
    and all: "\<forall>ev \<in> set metas. is_meta_call (fst ev)"
    and ok: "\<forall>ev \<in> set (butlast metas). snd ev = None"
    and res: "fst (cleanupMetas env cfg tableName s) = snd (last metas)"
    by blast
  from ne hd have "(DBFromConfig, snd (hd metas)) \<in> set metas"
    by (cases metas) (auto simp: prod_eq_iff)
  moreover have "fst (cleanupMetas env cfg tableName s) = fold record_error metas None"
    using res fold_record_error_last [OF ne ok] by simp
  ultimately show ?thesis
    unfolding completes_def using tr all
    by (intro exI [of _ metas]) auto
qed

lemma destroyLocalAndMetas_completes:
  assumes "destroyLocalAndMetas env cfg tableName targetTables lastErr s = Some (r, s')"
  shows "completes (lastErr, s) (r, s')"
proof -
  define local_phase where "local_phase =
     (if Backend (TikvImporter cfg) = ''local''
      then forTables (\<lambda>table. forEngineID (MaxEngineID table) (localEngine env cfg table) (MinEngineID table))
             targetTables (lastErr, s)
      else Some (lastErr, s))"
  from assms obtain lastErr1 s1 where phase: "local_phase = Some (lastErr1, s1)"
    and rest: "(if lastErr1 = None then cleanupMetas env cfg tableName s1 else (lastErr1, s1)) = (r, s')"
    by (auto simp: destroyLocalAndMetas_def local_phase_def [symmetric] Trace_def
        split: option.splits prod.splits)
  have be: "best_effort (lastErr, s) (lastErr1, s1)"
  proof (cases "Backend (TikvImporter cfg) = ''local''")
    case True
    with phase have "forTables (\<lambda>table. forEngineID (MaxEngineID table) (localEngine env cfg table) (MinEngineID table))
             targetTables (lastErr, s) = Some (lastErr1, s1)"
      by (simp add: local_phase_def)
    then show ?thesis
      by (rule forTables_best_effort) (erule forEngineID_best_effort, rule localEngine_best_effort)
  next
    case False
    with phase show ?thesis by (simp add: local_phase_def best_effort_refl)
  qed
  have "completes (lastErr1, s1) (r, s')"
  proof (cases lastErr1)
    case None
    with rest cleanupMetas_completes [of s1 env cfg tableName] show ?thesis by simp
  next
    case (Some err)
    with rest show ?thesis by (auto simp: completes_def)
  qed
  with be show ?thesis by (rule best_effort_completes)
qed

lemma checkpointErrorDestroy_completes:
  assumes run: "checkpointErrorDestroy env cfg tableName s = Some (r, s')"
  shows "completes (None, s) (r, s')"
proof -
  obtain r1 s1 where c1: "extcall OpenCheckpointsDB (checkpoints_OpenCheckpointsDB env) id s = (r1, s1)"
    by (cases "extcall OpenCheckpointsDB (checkpoints_OpenCheckpointsDB env) id s")
  then have tr1: "trace s1 = trace s @ [(OpenCheckpointsDB, r1)]"
    by (auto elim!: extcall_cases)
  show ?thesis
  proof (cases r1)
    case (Some err)
    with run c1 have "s' = s1" and "r = Some err"
      by (simp_all add: checkpointErrorDestroy_def Trace_def)
    with tr1 Some show ?thesis by (simp add: completes_failed)
  next
    case None
    have be1: "best_effort (None, s) (None, s1)"
      using c1 None by (intro best_effort_extcall [of OpenCheckpointsDB _ id _ r1]) auto
    from run c1 None obtain s1' where
      body1: "(case extcall NewTiDBManager (restore_NewTiDBManager env) id s1 of
        (Some err, s2) \<Rightarrow> Some (Trace (Some err), s2)
      | (None, s2) \<Rightarrow>
       deferredO (ignored TargetClose) (\<lambda>s2.
        (case extcall (CpdbDestroyErrorCheckpoint tableName) (cpdb_DestroyErrorCheckpoint env tableName) errOf s2 of
           (Inl err, s3) \<Rightarrow> Some (Trace (Some err), s3)
         | (Inr targetTables, s3) \<Rightarrow>
          (case dropTables env targetTables None s3 of
             (lastErr, s4) \<Rightarrow>
              (if Backend (TikvImporter cfg) = ''importer'' then
                (case extcall (NewImporter (Addr (TikvImporter cfg)) (PdAddr (TiDB cfg)))
                              (importer_NewImporter env (Addr (TikvImporter cfg)) (PdAddr (TiDB cfg))) id s4 of
                   (Some err, s5) \<Rightarrow> Some (Trace (Some err), s5)
                 | (None, s5) \<Rightarrow>
                  deferredO (ignored ImporterClose) (\<lambda>s5.
                   (case forTables (\<lambda>table. forEngineID (MaxEngineID table) (importerEngine env table) (MinEngineID table))
                           targetTables (lastErr, s5) of
                      None \<Rightarrow> None
                    | Some (lastErr, s6) \<Rightarrow> destroyLocalAndMetas env cfg tableName targetTables lastErr s6)) s5)
               else destroyLocalAndMetas env cfg tableName targetTables lastErr s4)))) s2) = Some (r, s1')"
      and close1: "s' = ignored CpdbClose s1'"
      by (auto simp: checkpointErrorDestroy_def elim!: deferredO_Some)
    have "completes (None, s1) (r, s1')"
    proof -
      obtain r2 s2 where c2: "extcall NewTiDBManager (restore_NewTiDBManager env) id s1 = (r2, s2)"
        by (cases "extcall NewTiDBManager (restore_NewTiDBManager env) id s1")
      then have tr2: "trace s2 = trace s1 @ [(NewTiDBManager, r2)]"
        by (auto elim!: extcall_cases)
      show ?thesis
      proof (cases r2)
        case (Some err)
        with body1 c2 have "s1' = s2" and "r = Some err" by (simp_all add: Trace_def)
        with tr2 Some show ?thesis by (simp add: completes_failed)
      next
        case None
        have be2: "best_effort (None, s1) (None, s2)"
          using c2 None by (intro best_effort_extcall [of NewTiDBManager _ id _ r2]) auto
        from body1 c2 None obtain s2' where
          body2: "(case extcall (CpdbDestroyErrorCheckpoint tableName) (cpdb_DestroyErrorCheckpoint env tableName) errOf s2 of
           (Inl err, s3) \<Rightarrow> Some (Trace (Some err), s3)
         | (Inr targetTables, s3) \<Rightarrow>
          (case dropTables env targetTables None s3 of
             (lastErr, s4) \<Rightarrow>
              (if Backend (TikvImporter cfg) = ''importer'' then
                (case extcall (NewImporter (Addr (TikvImporter cfg)) (PdAddr (TiDB cfg)))
                              (importer_NewImporter env (Addr (TikvImporter cfg)) (PdAddr (TiDB cfg))) id s4 of
                   (Some err, s5) \<Rightarrow> Some (Trace (Some err), s5)
                 | (None, s5) \<Rightarrow>
                  deferredO (ignored ImporterClose) (\<lambda>s5.
                   (case forTables (\<lambda>table. forEngineID (MaxEngineID table) (importerEngine env table) (MinEngineID table))
                           targetTables (lastErr, s5) of
                      None \<Rightarrow> None
                    | Some (lastErr, s6) \<Rightarrow> destroyLocalAndMetas env cfg tableName targetTables lastErr s6)) s5)
               else destroyLocalAndMetas env cfg tableName targetTables lastErr s4))) = Some (r, s2')"
          and close2: "s1' = ignored TargetClose s2'"
          by (auto elim!: deferredO_Some)
        have "completes (None, s2) (r, s2')"
        proof -
          obtain r3 s3 where c3: "extcall (CpdbDestroyErrorCheckpoint tableName) (cpdb_DestroyErrorCheckpoint env tableName) errOf s2 = (r3, s3)"
            by (cases "extcall (CpdbDestroyErrorCheckpoint tableName) (cpdb_DestroyErrorCheckpoint env tableName) errOf s2")
          then have tr3: "trace s3 = trace s2 @ [(CpdbDestroyErrorCheckpoint tableName, errOf r3)]"
            by (auto elim!: extcall_cases)
          show ?thesis
          proof (cases r3)
            case (Inl err)
            with body2 c3 have "s2' = s3" and "r = Some err" by (simp_all add: Trace_def)
            with tr3 Inl show ?thesis by (simp add: completes_failed errOf_def)
          next
            case (Inr targetTables)
            have be3: "best_effort (None, s2) (None, s3)"
              using c3 Inr
              by (intro best_effort_extcall [of "CpdbDestroyErrorCheckpoint tableName" _ errOf _ r3])
                 (auto simp: errOf_def)
            obtain lastErr s4 where drop: "dropTables env targetTables None s3 = (lastErr, s4)"
              by (cases "dropTables env targetTables None s3")
            have be4: "best_effort (None, s3) (lastErr, s4)"
              using dropTables_best_effort [of None s3 env targetTables] drop by simp
            from body2 c3 Inr drop have
              body4: "(if Backend (TikvImporter cfg) = ''importer'' then
                (case extcall (NewImporter (Addr (TikvImporter cfg)) (PdAddr (TiDB cfg)))
                              (importer_NewImporter env (Addr (TikvImporter cfg)) (PdAddr (TiDB cfg))) id s4 of
                   (Some err, s5) \<Rightarrow> Some (Trace (Some err), s5)
                 | (None, s5) \<Rightarrow>
                  deferredO (ignored ImporterClose) (\<lambda>s5.
                   (case forTables (\<lambda>table. forEngineID (MaxEngineID table) (importerEngine env table) (MinEngineID table))
                           targetTables (lastErr, s5) of
                      None \<Rightarrow> None
                    | Some (lastErr, s6) \<Rightarrow> destroyLocalAndMetas env cfg tableName targetTables lastErr s6)) s5)
               else destroyLocalAndMetas env cfg tableName targetTables lastErr s4) = Some (r, s2')"
              by simp
            have "completes (lastErr, s4) (r, s2')"
            proof (cases "Backend (TikvImporter cfg) = ''importer''")
              case False
              with body4 show ?thesis by (simp add: destroyLocalAndMetas_completes)
            next
              case True
              obtain r5 s5 where c5: "extcall (NewImporter (Addr (TikvImporter cfg)) (PdAddr (TiDB cfg)))
                              (importer_NewImporter env (Addr (TikvImporter cfg)) (PdAddr (TiDB cfg))) id s4 = (r5, s5)"
                by (cases "extcall (NewImporter (Addr (TikvImporter cfg)) (PdAddr (TiDB cfg)))
                              (importer_NewImporter env (Addr (TikvImporter cfg)) (PdAddr (TiDB cfg))) id s4")
              then have tr5: "trace s5 = trace s4 @ [(NewImporter (Addr (TikvImporter cfg)) (PdAddr (TiDB cfg)), r5)]"
                by (auto elim!: extcall_cases)
              show ?thesis
              proof (cases r5)
                case (Some err)
                with body4 True c5 have "s2' = s5" and "r = Some err" by (simp_all add: Trace_def)
                with tr5 Some show ?thesis by (simp add: completes_failed)
              next
                case None
                have be5: "best_effort (lastErr, s4) (lastErr, s5)"
                  using c5 None
                  by (intro best_effort_extcall [of "NewImporter (Addr (TikvImporter cfg)) (PdAddr (TiDB cfg))" _ id _ r5]) auto
                from body4 True c5 None obtain s5' where
                  body5: "(case forTables (\<lambda>table. forEngineID (MaxEngineID table) (importerEngine env table) (MinEngineID table))
                           targetTables (lastErr, s5) of
                      None \<Rightarrow> None
                    | Some (lastErr, s6) \<Rightarrow> destroyLocalAndMetas env cfg tableName targetTables lastErr s6) = Some (r, s5')"
                  and close5: "s2' = ignored ImporterClose s5'"
                  by (auto elim!: deferredO_Some)
                from body5 obtain lastErr6 s6 where
                  engines: "forTables (\<lambda>table. forEngineID (MaxEngineID table) (importerEngine env table) (MinEngineID table))
                           targetTables (lastErr, s5) = Some (lastErr6, s6)"
                  and tail: "destroyLocalAndMetas env cfg tableName targetTables lastErr6 s6 = Some (r, s5')"
                  by (auto split: option.splits)
                from engines have be6: "best_effort (lastErr, s5) (lastErr6, s6)"
                  by (rule forTables_best_effort)
                     (erule forEngineID_best_effort, rule importerEngine_best_effort)
                from tail have "completes (lastErr6, s6) (r, s5')"
                  by (rule destroyLocalAndMetas_completes)
                with be6 have "completes (lastErr, s5) (r, s5')" by (rule best_effort_completes)
                with be5 have "completes (lastErr, s4) (r, s5')" by (rule best_effort_completes)
                then show ?thesis unfolding close5 by (rule completes_ignored) simp
              qed
            qed
            with be4 have "completes (None, s3) (r, s2')" by (rule best_effort_completes)
            with be3 show ?thesis by (rule best_effort_completes)
          qed
        qed
        then have "completes (None, s2) (r, s1')" unfolding close2 by (rule completes_ignored) simp
        with be2 show ?thesis by (rule best_effort_completes)
      qed
    qed
    then have "completes (None, s1) (r, s')" unfolding close1 by (rule completes_ignored) simp
    with be1 show ?thesis by (rule best_effort_completes)
  qed
qed

text \<open>Whenever the function returns, it returns the last error of the calls it made.\<close>

lemma checkpointErrorDestroy_returns_last_error:
  assumes "checkpointErrorDestroy env cfg tableName s = Some (r, s')"
  shows "\<exists>new. trace s' = trace s @ new \<and> r = last_error new"
  using checkpointErrorDestroy_completes [OF assms]
  by (auto simp: completes_def last_error_def)


lemma destroyLocalAndMetas_returns:
  assumes "\<forall>table \<in> set targetTables. sint (MaxEngineID table) < 2147483647"
  shows "destroyLocalAndMetas env cfg tableName targetTables lastErr s \<noteq> None"
  using assms
  by (simp add: destroyLocalAndMetas_def forTables_bounded split: prod.split)

text \<open>
  The function returns in every environment whose checkpoint store never hands out an
  engine range that ends at the greatest \<open>int32\<close>.
\<close>

lemma checkpointErrorDestroy_returns:
  assumes bounded: "\<And>target w targetTables w'.
      cpdb_DestroyErrorCheckpoint env target w = (Inr targetTables, w') \<Longrightarrow>
      \<forall>table \<in> set targetTables. sint (MaxEngineID table) < 2147483647"
  shows "checkpointErrorDestroy env cfg tableName s \<noteq> None"
proof -
  obtain r1 s1 where c1: "extcall OpenCheckpointsDB (checkpoints_OpenCheckpointsDB env) id s = (r1, s1)"
    by (cases "extcall OpenCheckpointsDB (checkpoints_OpenCheckpointsDB env) id s")
  obtain r2 s2 where c2: "extcall NewTiDBManager (restore_NewTiDBManager env) id s1 = (r2, s2)"
    by (cases "extcall NewTiDBManager (restore_NewTiDBManager env) id s1")
  obtain r3 s3 where c3: "extcall (CpdbDestroyErrorCheckpoint tableName) (cpdb_DestroyErrorCheckpoint env tableName) errOf s2 = (r3, s3)"
    by (cases "extcall (CpdbDestroyErrorCheckpoint tableName) (cpdb_DestroyErrorCheckpoint env tableName) errOf s2")
  show ?thesis
  proof (cases r1)
    case (Some err)
    with c1 show ?thesis by (simp add: checkpointErrorDestroy_def)
  next
    case open_ok: None
    show ?thesis
    proof (cases r2)
      case (Some err)
      with c1 c2 open_ok show ?thesis by (simp add: checkpointErrorDestroy_def deferredO_def)
    next
      case manager_ok: None
      show ?thesis
      proof (cases r3)
        case (Inl err)
        with c1 c2 c3 open_ok manager_ok show ?thesis
          by (simp add: checkpointErrorDestroy_def deferredO_def)
      next
        case (Inr targetTables)
        from c3 Inr obtain w' where "cpdb_DestroyErrorCheckpoint env tableName (world s2) = (Inr targetTables, w')"
          by (auto elim!: extcall_cases)
        from bounded [OF this]
        have ranges: "\<forall>table \<in> set targetTables. sint (MaxEngineID table) < 2147483647" .
        obtain lastErr s4 where drop: "dropTables env targetTables None s3 = (lastErr, s4)"
          by (cases "dropTables env targetTables None s3")
        obtain r5 s5 where c5: "extcall (NewImporter (Addr (TikvImporter cfg)) (PdAddr (TiDB cfg)))
                              (importer_NewImporter env (Addr (TikvImporter cfg)) (PdAddr (TiDB cfg))) id s4 = (r5, s5)"
          by (cases "extcall (NewImporter (Addr (TikvImporter cfg)) (PdAddr (TiDB cfg)))
                              (importer_NewImporter env (Addr (TikvImporter cfg)) (PdAddr (TiDB cfg))) id s4")
        have tail: "destroyLocalAndMetas env cfg tableName targetTables le st \<noteq> None" for le st
          using ranges by (rule destroyLocalAndMetas_returns)
        from c1 c2 c3 open_ok manager_ok Inr drop c5 show ?thesis
          by (simp add: checkpointErrorDestroy_def deferredO_def forTables_bounded [OF ranges] tail
              split: option.split prod.split)
      qed
    qed
  qed
qed

subsection \<open>The calls of the three loops\<close>

lemma dropTables_calls:
  "map fst (trace (snd (dropTables env targetTables lastErr s))) =
     map fst (trace s) @ map (\<lambda>table. TargetDropTable (TableName table)) targetTables"
proof (induction targetTables arbitrary: lastErr s)
  case Nil
  show ?case by simp
next
  case (Cons table rest)
  define s1 where "s1 = Fprintln [''Dropping table:'', TableName table] s"
  obtain r s2 where call: "extcall (TargetDropTable (TableName table)) (target_DropTable env (TableName table)) id s1 = (r, s2)"
    by (cases "extcall (TargetDropTable (TableName table)) (target_DropTable env (TableName table)) id s1")
  then have tr: "trace s2 = trace s @ [(TargetDropTable (TableName table), r)]"
    by (auto simp: s1_def elim!: extcall_cases)
  show ?case
  proof (cases r)
    case None
    with call Cons.IH [of lastErr s2] tr show ?thesis by (simp add: s1_def)
  next
    case (Some err)
    with call Cons.IH [of "Some err" "Fprintln [''* Encountered error while dropping table:'', message err] s2"] tr
    show ?thesis by (simp add: s1_def)
  qed
qed

lemma fold_view:
  assumes "\<And>x st. view (trace (snd (body x st))) = view (trace (snd st)) @ calls x"
  shows "view (trace (snd (fold body xs st))) = view (trace (snd st)) @ concat (map calls xs)"
proof (induction xs arbitrary: st)
  case Nil
  show ?case by simp
next
  case (Cons x xs)
  from Cons.IH [of "body x st"] assms [of x st] show ?case by simp
qed

lemma localEngine_calls:
  "map fst (trace (snd (localEngine env cfg table engineID ls))) =
     map fst (trace (snd ls)) @
       [LocalFileCleanup (snd (backend_MakeUUID env (TableName table) engineID)) (SortedKVDir (TikvImporter cfg))]"
  by (cases ls) (simp add: localEngine_def extcall_def Let_def split: prod.split option.split)

lemma importerEngine_closes:
  "filter is_UnsafeCloseEngine (map fst (trace (snd (importerEngine env table engineID ls)))) =
     filter is_UnsafeCloseEngine (map fst (trace (snd ls))) @
       [ImporterUnsafeCloseEngine (TableName table) engineID]"
  by (cases ls) (simp add: importerEngine_def extcall_def Let_def split: prod.split option.split sum.split)


text \<open>
  With the local backend and ranges below the greatest \<open>int32\<close>, the loops come to an end
  and call the file cleanup once for every table and every engine identifier of its range,
  in order, on the UUID made from the table name and the identifier, and make no other call.
\<close>

lemma local_engines_calls:
  assumes "\<forall>table \<in> set targetTables. sint (MaxEngineID table) < 2147483647"
  shows "\<exists>ls'. forTables (\<lambda>table. forEngineID (MaxEngineID table) (localEngine env cfg table) (MinEngineID table))
             targetTables ls = Some ls'
     \<and> map fst (trace (snd ls')) = map fst (trace (snd ls)) @
           concat (map (\<lambda>table.
             map (\<lambda>engineID. LocalFileCleanup (snd (backend_MakeUUID env (TableName table) engineID))
                                (SortedKVDir (TikvImporter cfg)))
               (engineIDs (MinEngineID table) (MaxEngineID table))) targetTables)"
proof -
  have inner: "map fst (trace (snd (fold (localEngine env cfg table) ids st))) =
      map fst (trace (snd st)) @
        concat (map (\<lambda>engineID. [LocalFileCleanup (snd (backend_MakeUUID env (TableName table) engineID))
                                (SortedKVDir (TikvImporter cfg))]) ids)" for table ids st
    by (rule fold_view) (rule localEngine_calls)
  have "map fst (trace (snd (fold (\<lambda>table. fold (localEngine env cfg table)
            (engineIDs (MinEngineID table) (MaxEngineID table))) targetTables ls))) =
      map fst (trace (snd ls)) @
        concat (map (\<lambda>table. concat (map (\<lambda>engineID. [LocalFileCleanup (snd (backend_MakeUUID env (TableName table) engineID))
                                (SortedKVDir (TikvImporter cfg))]) (engineIDs (MinEngineID table) (MaxEngineID table)))) targetTables)"
    by (rule fold_view) (rule inner)
  then show ?thesis
    by (simp add: forTables_bounded [OF assms] concat_map_singleton)
qed

text \<open>
  With the importer backend and ranges below the greatest \<open>int32\<close>, the loops come to an
  end and \<open>UnsafeCloseEngine\<close> is called once for every table and every engine identifier
  of its range, in order, whatever the outcome for the engines before.
\<close>

lemma importer_engines_closes:
  assumes "\<forall>table \<in> set targetTables. sint (MaxEngineID table) < 2147483647"
  shows "\<exists>ls'. forTables (\<lambda>table. forEngineID (MaxEngineID table) (importerEngine env table) (MinEngineID table))
             targetTables ls = Some ls'
     \<and> filter is_UnsafeCloseEngine (map fst (trace (snd ls'))) =
         filter is_UnsafeCloseEngine (map fst (trace (snd ls))) @
           concat (map (\<lambda>table.
             map (\<lambda>engineID. ImporterUnsafeCloseEngine (TableName table) engineID)
               (engineIDs (MinEngineID table) (MaxEngineID table))) targetTables)"
proof -
  have inner: "filter is_UnsafeCloseEngine (map fst (trace (snd (fold (importerEngine env table) ids st)))) =
      filter is_UnsafeCloseEngine (map fst (trace (snd st))) @
        concat (map (\<lambda>engineID. [ImporterUnsafeCloseEngine (TableName table) engineID]) ids)" for table ids st
    by (rule fold_view [where view = "\<lambda>tr. filter is_UnsafeCloseEngine (map fst tr)"])
       (rule importerEngine_closes)
  have "filter is_UnsafeCloseEngine (map fst (trace (snd (fold (\<lambda>table. fold (importerEngine env table)
            (engineIDs (MinEngineID table) (MaxEngineID table))) targetTables ls)))) =
      filter is_UnsafeCloseEngine (map fst (trace (snd ls))) @
        concat (map (\<lambda>table. concat (map (\<lambda>engineID. [ImporterUnsafeCloseEngine (TableName table) engineID])
           (engineIDs (MinEngineID table) (MaxEngineID table)))) targetTables)"
    by (rule fold_view [where view = "\<lambda>tr. filter is_UnsafeCloseEngine (map fst tr)"])
       (rule inner)
  then show ?thesis
    by (simp add: forTables_bounded [OF assms] concat_map_singleton)
qed

text \<open>An engine that was closed is cleaned up next; one that was not is logged.\<close>

lemma importerEngine_close_then_cleanup:
  assumes "importer_UnsafeCloseEngine env (TableName table) engineID (world s) = (Inr closedEngine, w')"
  shows "\<exists>r. trace (snd (importerEngine env table engineID (lastErr, s))) =
           trace s @ [(ImporterUnsafeCloseEngine (TableName table) engineID, None),
                      (ClosedEngineCleanup closedEngine, r)]
       \<and> fst (importerEngine env table engineID (lastErr, s)) = (case r of None \<Rightarrow> lastErr | Some err \<Rightarrow> Some err)"
  using assms
  by (simp add: importerEngine_def extcall_def Let_def errOf_def split: prod.split option.split)

lemma importerEngine_close_failed:
  assumes "importer_UnsafeCloseEngine env (TableName table) engineID (world s) = (Inl err, w')"
  shows "importerEngine env table engineID (lastErr, s) =
     (Some err,
      s\<lparr>world := w',
        trace := trace s @ [(ImporterUnsafeCloseEngine (TableName table) engineID, Some err)],
        stderr := stderr s
          @ spaced [''Closing and cleaning up engine:'', TableName table, showInt (sint engineID)] @ [newline]
          @ spaced [''* Encountered error while closing engine:'', message err] @ [newline]\<rparr>)"
  using assms
  by (simp add: importerEngine_def extcall_def Let_def errOf_def Fprintln_def)

subsection \<open>checkpointErrorDestroy: the metadata cleanup\<close>

lemma showInt_0: "showInt 0 = ''0''"
  by code_simp

text \<open>
  C2, as stated, fails. The claim: the metadata cleanup is attempted whenever no earlier
  step produced a fatal error, so that a mere failure of one engine or of one table drop
  does not suppress it. In the run below every fatal step succeeds (the checkpoint store,
  the manager, \<open>DestroyErrorCheckpoint\<close> and the importer), the table is dropped, and only
  the \<open>Cleanup\<close> of engine 0 fails: the function returns that error and makes no call of
  \<open>cleanupMetas\<close> (no \<open>DBFromConfig\<close> in the trace), because of the test \<open>lastErr == nil\<close>.
\<close>

theorem checkpointErrorDestroy_engine_failure_skips_metas:
  "checkpointErrorDestroy env_cleanup_fails cfg_importer ''all'' start =
     Some (Some (Error ''cleanup failed''),
       \<lparr>world = (),
        trace =
          [(OpenCheckpointsDB, None), (NewTiDBManager, None),
           (CpdbDestroyErrorCheckpoint ''all'', None), (TargetDropTable ''db.t1'', None),
           (NewImporter ''importer:8287'' ''pd:2379'', None),
           (ImporterUnsafeCloseEngine ''db.t1'' 0, None),
           (ClosedEngineCleanup (ClosedEngine 0), Some (Error ''cleanup failed'')),
           (ImporterClose, None), (TargetClose, None), (CpdbClose, None)],
        stderr = ''Dropping table: db.t1'' @ [newline]
               @ ''Closing and cleaning up engine: db.t1 0'' @ [newline]\<rparr>)"
  by (simp add: checkpointErrorDestroy_def destroyLocalAndMetas_def env_cleanup_fails_def
      env_one_table_def env_ok_def cfg_importer_def cfg0_def start_def extcall_def errOf_def
      deferredO_def ignored_def Trace_def Let_def Fprintln_def forEngineID_eq engineIDs_def
      importerEngine_def showInt_0)

text \<open>
  C2, amended. In every run of \<open>checkpointErrorDestroy\<close> that returns, the metadata cleanup
  is attempted (its first call, \<open>DBFromConfig\<close>, is in the trace of the run) exactly when
  every other call of the run succeeded: the fatal steps, and also every table drop, every
  \<open>UnsafeCloseEngine\<close>, every engine \<open>Cleanup\<close> and every local file cleanup. One recorded
  failure of a table drop or of an engine is enough to suppress the metadata cleanup. And
  the function does return whenever the checkpoint store hands out no engine range that
  ends at the greatest \<open>int32\<close>.
\<close>

theorem checkpointErrorDestroy_metas_iff_all_succeeded:
  "(\<forall>r s'. checkpointErrorDestroy env cfg tableName s = Some (r, s') \<longrightarrow>
      (\<exists>new. trace s' = trace s @ new
         \<and> ((\<exists>e. (DBFromConfig, e) \<in> set new) \<longleftrightarrow>
              (\<forall>ev \<in> set new. \<not> is_meta_call (fst ev) \<longrightarrow> snd ev = None))))
   \<and> ((\<forall>target w targetTables w'.
          cpdb_DestroyErrorCheckpoint env target w = (Inr targetTables, w') \<longrightarrow>
          (\<forall>table \<in> set targetTables. sint (MaxEngineID table) < 2147483647)) \<longrightarrow>
        checkpointErrorDestroy env cfg tableName s \<noteq> None)"
proof (intro conjI allI impI)
  fix r s'
  assume "checkpointErrorDestroy env cfg tableName s = Some (r, s')"
  from checkpointErrorDestroy_completes [OF this]
  show "\<exists>new. trace s' = trace s @ new
         \<and> ((\<exists>e. (DBFromConfig, e) \<in> set new) \<longleftrightarrow>
              (\<forall>ev \<in> set new. \<not> is_meta_call (fst ev) \<longrightarrow> snd ev = None))"
    by (auto simp: completes_def)
next
  assume "\<forall>target w targetTables w'.
          cpdb_DestroyErrorCheckpoint env target w = (Inr targetTables, w') \<longrightarrow>
          (\<forall>table \<in> set targetTables. sint (MaxEngineID table) < 2147483647)"
  then show "checkpointErrorDestroy env cfg tableName s \<noteq> None"
    by (intro checkpointErrorDestroy_returns) blast
qed

theorem checkpointErrorDestroy_metas_iff_all_succeeded_witness:
  "cpdb_DestroyErrorCheckpoint env_one_table ''all'' () =
      (Inr [\<lparr>TableName = ''db.t1'', MinEngineID = 0, MaxEngineID = 0\<rparr>], ())
   \<and> checkpointErrorDestroy env_one_table cfg_importer ''all'' start \<noteq> None
   \<and> checkpointErrorDestroy env_one_table cfg_importer ''all'' start =
     Some (None,
       \<lparr>world = (),
        trace =
          [(OpenCheckpointsDB, None), (NewTiDBManager, None),
           (CpdbDestroyErrorCheckpoint ''all'', None), (TargetDropTable ''db.t1'', None),
           (NewImporter ''importer:8287'' ''pd:2379'', None),
           (ImporterUnsafeCloseEngine ''db.t1'' 0, None),
           (ClosedEngineCleanup (ClosedEngine 0), None),
           (DBFromConfig, None),
           (TableExists ''lightning_metadata'' ''table_meta'', None),
           (RemoveTableMetaByTableName ''lightning_metadata.table_meta'' [], None),
           (TableExists ''lightning_metadata'' ''task_meta'', None),
           (MaybeCleanupAllMetas ''lightning_metadata'' True, None),
           (ImporterClose, None), (TargetClose, None), (CpdbClose, None)],
        stderr = ''Dropping table: db.t1'' @ [newline]
               @ ''Closing and cleaning up engine: db.t1 0'' @ [newline]\<rparr>)
   \<and> (\<exists>new. [(OpenCheckpointsDB, None), (NewTiDBManager, None),
           (CpdbDestroyErrorCheckpoint ''all'', None), (TargetDropTable ''db.t1'', None),
           (NewImporter ''importer:8287'' ''pd:2379'', None),
           (ImporterUnsafeCloseEngine ''db.t1'' 0, None),
           (ClosedEngineCleanup (ClosedEngine 0), None),
           (DBFromConfig, None),
           (TableExists ''lightning_metadata'' ''table_meta'', None),
           (RemoveTableMetaByTableName ''lightning_metadata.table_meta'' [], None),
           (TableExists ''lightning_metadata'' ''task_meta'', None),
           (MaybeCleanupAllMetas ''lightning_metadata'' True, None),
           (ImporterClose, None), (TargetClose, None), (CpdbClose, None)] = trace start @ new
        \<and> (\<exists>e. (DBFromConfig, e) \<in> set new))"
proof -
  have tables: "\<forall>target w targetTables w'.
      cpdb_DestroyErrorCheckpoint env_one_table target w = (Inr targetTables, w') \<longrightarrow>
      targetTables = [\<lparr>TableName = ''db.t1'', MinEngineID = 0, MaxEngineID = 0\<rparr>]"
    by (auto simp: env_one_table_def)
  then have ranges: "\<forall>target w targetTables w'.
      cpdb_DestroyErrorCheckpoint env_one_table target w = (Inr targetTables, w') \<longrightarrow>
      (\<forall>table \<in> set targetTables. sint (MaxEngineID table) < 2147483647)"
    by fastforce
  have table: "cpdb_DestroyErrorCheckpoint env_one_table ''all'' () =
      (Inr [\<lparr>TableName = ''db.t1'', MinEngineID = 0, MaxEngineID = 0\<rparr>], ())"
    by (simp add: env_one_table_def)
  note main = checkpointErrorDestroy_metas_iff_all_succeeded [of env_one_table cfg_importer "''all''" start]
  from main [THEN conjunct2, THEN mp, OF ranges]
  have returns: "checkpointErrorDestroy env_one_table cfg_importer ''all'' start \<noteq> None" .
  have run: "checkpointErrorDestroy env_one_table cfg_importer ''all'' start =
     Some (None,
       \<lparr>world = (),
        trace =
          [(OpenCheckpointsDB, None), (NewTiDBManager, None),
           (CpdbDestroyErrorCheckpoint ''all'', None), (TargetDropTable ''db.t1'', None),
           (NewImporter ''importer:8287'' ''pd:2379'', None),
           (ImporterUnsafeCloseEngine ''db.t1'' 0, None),
           (ClosedEngineCleanup (ClosedEngine 0), None),
           (DBFromConfig, None),
           (TableExists ''lightning_metadata'' ''table_meta'', None),
           (RemoveTableMetaByTableName ''lightning_metadata.table_meta'' [], None),
           (TableExists ''lightning_metadata'' ''task_meta'', None),
           (MaybeCleanupAllMetas ''lightning_metadata'' True, None),
           (ImporterClose, None), (TargetClose, None), (CpdbClose, None)],
        stderr = ''Dropping table: db.t1'' @ [newline]
               @ ''Closing and cleaning up engine: db.t1 0'' @ [newline]\<rparr>)"
    by (simp add: checkpointErrorDestroy_def destroyLocalAndMetas_def cleanupMetas_def
        env_one_table_def env_ok_def cfg_importer_def cfg0_def start_def extcall_def errOf_def
        deferredO_def ignored_def Trace_def Let_def Fprintln_def forEngineID_eq engineIDs_def
        importerEngine_def showInt_0)
  from main [THEN conjunct1, rule_format, OF run]
  have attempted: "\<exists>new. [(OpenCheckpointsDB, None), (NewTiDBManager, None),
           (CpdbDestroyErrorCheckpoint ''all'', None), (TargetDropTable ''db.t1'', None),
           (NewImporter ''importer:8287'' ''pd:2379'', None),
           (ImporterUnsafeCloseEngine ''db.t1'' 0, None),
           (ClosedEngineCleanup (ClosedEngine 0), None),
           (DBFromConfig, None),
           (TableExists ''lightning_metadata'' ''table_meta'', None),
           (RemoveTableMetaByTableName ''lightning_metadata.table_meta'' [], None),
           (TableExists ''lightning_metadata'' ''task_meta'', None),
           (MaybeCleanupAllMetas ''lightning_metadata'' True, None),
           (ImporterClose, None), (TargetClose, None), (CpdbClose, None)] = trace start @ new
        \<and> (\<exists>e. (DBFromConfig, e) \<in> set new)"
    by (simp add: start_def)
  from table returns run attempted show ?thesis by blast
qed

subsection \<open>The loops of checkpointErrorDestroy as steps performed in a row\<close>

lemma follows_importerEngine:
  "follows ls (close_then_cleanup env (TableName table, engineID)) (importerEngine env table engineID ls)"
proof (cases ls)
  case (Pair lastErr s)
  obtain r w1 where close: "importer_UnsafeCloseEngine env (TableName table) engineID (world s) = (r, w1)"
    by (cases "importer_UnsafeCloseEngine env (TableName table) engineID (world s)")
  show ?thesis
  proof (cases r)
    case (Inl err)
    with close show ?thesis
      by (simp add: follows_def Pair importerEngine_def close_then_cleanup_def extcall_def errOf_def
          Let_def)
  next
    case (Inr closedEngine)
    obtain r2 w2 where cleanup: "ClosedEngine_Cleanup env closedEngine w1 = (r2, w2)"
      by (cases "ClosedEngine_Cleanup env closedEngine w1")
    with close Inr show ?thesis
      by (cases r2)
         (simp_all add: follows_def Pair importerEngine_def close_then_cleanup_def extcall_def
           errOf_def Let_def)
  qed
qed

lemma follows_localEngine:
  "follows ls (remove_local_files env cfg (TableName table, engineID)) (localEngine env cfg table engineID ls)"
proof (cases ls)
  case (Pair lastErr s)
  obtain r w1 where cleanup:
    "File_Cleanup env (snd (backend_MakeUUID env (TableName table) engineID))
       (SortedKVDir (TikvImporter cfg)) (world s) = (r, w1)"
    by (cases "File_Cleanup env (snd (backend_MakeUUID env (TableName table) engineID))
       (SortedKVDir (TikvImporter cfg)) (world s)")
  then show ?thesis
    by (cases r)
       (simp_all add: follows_def Pair localEngine_def remove_local_files_def extcall_def Let_def)
qed

lemma follows_fold:
  assumes "\<And>x st. follows st (step x) (body x st)"
  shows "follows st (performed (map step xs)) (fold body xs st)"
proof (induction xs arbitrary: st)
  case Nil
  show ?case by (simp add: follows_def)
next
  case (Cons x xs)
  from assms [of st x] Cons.IH [of "body x st"] show ?case
    by (auto simp: follows_def performed_Cons)
qed

lemma performed_engines_of:
  "performed (map step (engines_of targetTables)) w =
     performed (map (\<lambda>table. performed (map (\<lambda>engineID. step (TableName table, engineID))
                                (engineIDs (MinEngineID table) (MaxEngineID table)))) targetTables) w"
  by (simp add: engines_of_def map_concat comp_def performed_concat)

lemma follows_engines:
  assumes ranges: "\<forall>table \<in> set targetTables. sint (MaxEngineID table) < 2147483647"
    and body: "\<And>table engineID st. follows st (step (TableName table, engineID)) (body table engineID st)"
  shows "\<exists>st'. forTables (\<lambda>table. forEngineID (MaxEngineID table) (body table) (MinEngineID table))
             targetTables st = Some st'
     \<and> follows st (performed (map step (engines_of targetTables))) st'"
proof -
  have inner: "follows st
      (performed (map (\<lambda>engineID. step (TableName table, engineID)) ids))
      (fold (body table) ids st)" for table ids st
    by (rule follows_fold) (rule body)
  have "follows st
      (performed (map (\<lambda>table. performed (map (\<lambda>engineID. step (TableName table, engineID))
                                (engineIDs (MinEngineID table) (MaxEngineID table)))) targetTables))
      (fold (\<lambda>table. fold (body table) (engineIDs (MinEngineID table) (MaxEngineID table))) targetTables st)"
    by (rule follows_fold) (rule inner)
  then have "follows st (performed (map step (engines_of targetTables)))
      (fold (\<lambda>table. fold (body table) (engineIDs (MinEngineID table) (MaxEngineID table))) targetTables st)"
    by (simp add: follows_def performed_engines_of)
  then show ?thesis
    by (simp add: forTables_bounded [OF ranges])
qed

lemma follows_dropTables:
  "follows (lastErr, s) (performed (map (drop_table env) targetTables)) (dropTables env targetTables lastErr s)
   \<and> stderr (snd (dropTables env targetTables lastErr s)) =
       stderr s @ concat (map drop_lines
         (zip targetTables (fst (performed (map (drop_table env) targetTables) (world s)))))"
proof (induction targetTables arbitrary: lastErr s)
  case Nil
  show ?case by (simp add: follows_def)
next
  case (Cons table rest)
  obtain r w1 where call: "target_DropTable env (TableName table) (world s) = (r, w1)"
    by (cases "target_DropTable env (TableName table) (world s)")
  show ?case
  proof (cases r)
    case None
    define s2 where "s2 = s\<lparr>stderr := stderr s @ ''Dropping table: '' @ TableName table @ [newline],
      world := w1, trace := trace s @ [(TargetDropTable (TableName table), None)]\<rparr>"
    have step: "dropTables env (table # rest) lastErr s = dropTables env rest lastErr s2"
      using call None by (simp add: extcall_def Fprintln_def s2_def)
    from Cons.IH [of lastErr s2] show ?thesis
      unfolding step using call None
      by (auto simp: follows_def performed_Cons drop_table_def drop_lines_def s2_def)
  next
    case (Some err)
    define s2 where "s2 = s\<lparr>stderr := stderr s @ ''Dropping table: '' @ TableName table @ [newline],
      world := w1, trace := trace s @ [(TargetDropTable (TableName table), Some err)],
      stderr := stderr s @ ''Dropping table: '' @ TableName table @ [newline]
        @ ''* Encountered error while dropping table: '' @ message err @ [newline]\<rparr>"
    have step: "dropTables env (table # rest) lastErr s = dropTables env rest (Some err) s2"
      using call Some by (simp add: extcall_def Fprintln_def s2_def)
    from Cons.IH [of "Some err" s2] show ?thesis
      unfolding step using call Some
      by (auto simp: follows_def performed_Cons drop_table_def drop_lines_def s2_def)
  qed
qed


lemma state_eqI:
  fixes a b :: "'w state"
  assumes "world a = world b" and "trace a = trace b" and "stderr a = stderr b"
  shows "a = b"
  using assms by (cases a, cases b) simp

lemma last_error_append: "fold record_error ys (last_error xs) = last_error (xs @ ys)"
  by (simp add: last_error_def)

text \<open>The run up to the end of the drops, and what it leaves.\<close>

lemma checkpointErrorDestroy_drops:
  assumes opened: "checkpoints_OpenCheckpointsDB env (world s) = (None, w1)"
    and manager: "restore_NewTiDBManager env w1 = (None, w2)"
    and destroyed: "cpdb_DestroyErrorCheckpoint env tableName w2 = (Inr targetTables, w3)"
    and drops: "performed (map (drop_table env) targetTables) w3 = (dropped, w4)"
  shows "checkpointErrorDestroy env cfg tableName s =
    deferredO (ignored CpdbClose) (\<lambda>s1.
      deferredO (ignored TargetClose) (\<lambda>s2.
        (case (last_error dropped,
               s\<lparr>world := w4,
                  trace := trace s @ [(OpenCheckpointsDB, None), (NewTiDBManager, None),
                                      (CpdbDestroyErrorCheckpoint tableName, None)] @ dropped,
                  stderr := stderr s @ concat (map drop_lines (zip targetTables dropped))\<rparr>) of
           (lastErr, s4) \<Rightarrow>
             (if Backend (TikvImporter cfg) = ''importer'' then
                (case extcall (NewImporter (Addr (TikvImporter cfg)) (PdAddr (TiDB cfg)))
                              (importer_NewImporter env (Addr (TikvImporter cfg)) (PdAddr (TiDB cfg))) id s4 of
                   (Some err, s5) \<Rightarrow> Some (Trace (Some err), s5)
                 | (None, s5) \<Rightarrow>
                  deferredO (ignored ImporterClose) (\<lambda>s5.
                   (case forTables (\<lambda>table. forEngineID (MaxEngineID table) (importerEngine env table) (MinEngineID table))
                           targetTables (lastErr, s5) of
                      None \<Rightarrow> None
                    | Some (lastErr, s6) \<Rightarrow> destroyLocalAndMetas env cfg tableName targetTables lastErr s6)) s5)
              else destroyLocalAndMetas env cfg tableName targetTables lastErr s4))) s) s"
proof -
  define s3 where "s3 = s\<lparr>world := w3,
     trace := trace s @ [(OpenCheckpointsDB, None), (NewTiDBManager, None),
                         (CpdbDestroyErrorCheckpoint tableName, None)]\<rparr>"
  have s3: "world s3 = w3" "stderr s3 = stderr s"
    "trace s3 = trace s @ [(OpenCheckpointsDB, None), (NewTiDBManager, None),
                         (CpdbDestroyErrorCheckpoint tableName, None)]"
    by (simp_all add: s3_def)
  from follows_dropTables [of None s3 env targetTables]
  have "dropTables env targetTables None s3 =
     (last_error dropped,
      s\<lparr>world := w4,
        trace := trace s @ [(OpenCheckpointsDB, None), (NewTiDBManager, None),
                            (CpdbDestroyErrorCheckpoint tableName, None)] @ dropped,
        stderr := stderr s @ concat (map drop_lines (zip targetTables dropped))\<rparr>)"
    by (intro prod_eqI state_eqI) (simp_all add: follows_def s3 drops last_error_def)
  then show ?thesis
    using opened manager destroyed
    by (simp add: checkpointErrorDestroy_def extcall_def errOf_def deferredO_def s3_def)
qed


lemma destroyLocalAndMetas_other:
  assumes "Backend (TikvImporter cfg) \<noteq> ''local''"
  shows "destroyLocalAndMetas env cfg tableName targetTables lastErr s =
     Some (if lastErr = None then cleanupMetas env cfg tableName s else (lastErr, s))"
  using assms by (simp add: destroyLocalAndMetas_def Trace_def split: prod.split)

text \<open>The importer could not be created: a fatal error, after the drops.\<close>

lemma checkpointErrorDestroy_no_importer:
  assumes backend: "Backend (TikvImporter cfg) = ''importer''"
    and opened: "checkpoints_OpenCheckpointsDB env (world s) = (None, w1)"
    and manager: "restore_NewTiDBManager env w1 = (None, w2)"
    and destroyed: "cpdb_DestroyErrorCheckpoint env tableName w2 = (Inr targetTables, w3)"
    and drops: "performed (map (drop_table env) targetTables) w3 = (dropped, w4)"
    and importer: "importer_NewImporter env (Addr (TikvImporter cfg)) (PdAddr (TiDB cfg)) w4 = (Some err, w5)"
  shows "checkpointErrorDestroy env cfg tableName s =
      Some (Some err,
            s\<lparr>world := w5,
              trace := trace s @ [(OpenCheckpointsDB, None), (NewTiDBManager, None),
                                  (CpdbDestroyErrorCheckpoint tableName, None)] @ dropped @
                         [(NewImporter (Addr (TikvImporter cfg)) (PdAddr (TiDB cfg)), Some err),
                          (TargetClose, None), (CpdbClose, None)],
              stderr := stderr s @ concat (map drop_lines (zip targetTables dropped))\<rparr>)"
  unfolding checkpointErrorDestroy_drops [OF opened manager destroyed drops]
  using backend importer
  by (simp add: extcall_def deferredO_def ignored_def Trace_def)

text \<open>The whole run with the importer backend, when the fatal steps succeed.\<close>

lemma checkpointErrorDestroy_importer_run:
  assumes backend: "Backend (TikvImporter cfg) = ''importer''"
    and opened: "checkpoints_OpenCheckpointsDB env (world s) = (None, w1)"
    and manager: "restore_NewTiDBManager env w1 = (None, w2)"
    and destroyed: "cpdb_DestroyErrorCheckpoint env tableName w2 = (Inr targetTables, w3)"
    and ranges: "\<forall>table \<in> set targetTables. sint (MaxEngineID table) < 2147483647"
    and drops: "performed (map (drop_table env) targetTables) w3 = (dropped, w4)"
    and importer: "importer_NewImporter env (Addr (TikvImporter cfg)) (PdAddr (TiDB cfg)) w4 = (None, w5)"
    and engines: "performed (map (close_then_cleanup env) (engines_of targetTables)) w5 = (cleaned, w6)"
  shows "\<exists>out. checkpointErrorDestroy env cfg tableName s =
      Some (case (if last_error (dropped @ cleaned) = None
                  then cleanupMetas env cfg tableName
                         (s\<lparr>world := w6,
                            trace := trace s @ [(OpenCheckpointsDB, None), (NewTiDBManager, None),
                                                (CpdbDestroyErrorCheckpoint tableName, None)] @ dropped @
                                       (NewImporter (Addr (TikvImporter cfg)) (PdAddr (TiDB cfg)), None) # cleaned,
                            stderr := stderr s @ concat (map drop_lines (zip targetTables dropped)) @ out\<rparr>)
                  else (last_error (dropped @ cleaned),
                        s\<lparr>world := w6,
                          trace := trace s @ [(OpenCheckpointsDB, None), (NewTiDBManager, None),
                                              (CpdbDestroyErrorCheckpoint tableName, None)] @ dropped @
                                     (NewImporter (Addr (TikvImporter cfg)) (PdAddr (TiDB cfg)), None) # cleaned,
                          stderr := stderr s @ concat (map drop_lines (zip targetTables dropped)) @ out\<rparr>)) of
              (r, s') \<Rightarrow>
                (r, s'\<lparr>trace := trace s' @ [(ImporterClose, None), (TargetClose, None), (CpdbClose, None)]\<rparr>))"
proof -
  define s5 where "s5 = s\<lparr>world := w5,
      trace := trace s @ [(OpenCheckpointsDB, None), (NewTiDBManager, None),
                          (CpdbDestroyErrorCheckpoint tableName, None)] @ dropped @
                 [(NewImporter (Addr (TikvImporter cfg)) (PdAddr (TiDB cfg)), None)],
      stderr := stderr s @ concat (map drop_lines (zip targetTables dropped))\<rparr>"
  have s5: "world s5 = w5"
    "trace s5 = trace s @ [(OpenCheckpointsDB, None), (NewTiDBManager, None),
                          (CpdbDestroyErrorCheckpoint tableName, None)] @ dropped @
                 [(NewImporter (Addr (TikvImporter cfg)) (PdAddr (TiDB cfg)), None)]"
    "stderr s5 = stderr s @ concat (map drop_lines (zip targetTables dropped))"
    by (simp_all add: s5_def)
  from follows_engines [where step = "close_then_cleanup env" and body = "importerEngine env"
      and st = "(last_error dropped, s5)", OF ranges follows_importerEngine]
  obtain st6 where loop: "forTables (\<lambda>table. forEngineID (MaxEngineID table) (importerEngine env table) (MinEngineID table))
             targetTables (last_error dropped, s5) = Some st6"
    and f6: "follows (last_error dropped, s5) (performed (map (close_then_cleanup env) (engines_of targetTables))) st6"
    by blast
  from f6 obtain out where out: "stderr (snd st6) = stderr s5 @ out"
    and err6: "fst st6 = last_error (dropped @ cleaned)"
    and world6: "world (snd st6) = w6"
    and trace6: "trace (snd st6) = trace s5 @ cleaned"
    by (auto simp: follows_def s5 engines last_error_append)
  define s6 where "s6 = s\<lparr>world := w6,
                            trace := trace s @ [(OpenCheckpointsDB, None), (NewTiDBManager, None),
                                                (CpdbDestroyErrorCheckpoint tableName, None)] @ dropped @
                                       (NewImporter (Addr (TikvImporter cfg)) (PdAddr (TiDB cfg)), None) # cleaned,
                            stderr := stderr s @ concat (map drop_lines (zip targetTables dropped)) @ out\<rparr>"
  have "st6 = (last_error (dropped @ cleaned), s6)"
    by (intro prod_eqI state_eqI) (simp_all add: err6 world6 trace6 out s5 s6_def)
  with loop have loop': "forTables (\<lambda>table. forEngineID (MaxEngineID table) (importerEngine env table) (MinEngineID table))
             targetTables (last_error dropped, s5) = Some (last_error (dropped @ cleaned), s6)"
    by simp
  have not_local: "Backend (TikvImporter cfg) \<noteq> ''local''"
    using backend by simp
  have "snd (extcall (NewImporter (Addr (TikvImporter cfg)) (PdAddr (TiDB cfg)))
          (importer_NewImporter env (Addr (TikvImporter cfg)) (PdAddr (TiDB cfg))) id
          (s\<lparr>world := w4,
             trace := trace s @ [(OpenCheckpointsDB, None), (NewTiDBManager, None),
                                 (CpdbDestroyErrorCheckpoint tableName, None)] @ dropped,
             stderr := stderr s @ concat (map drop_lines (zip targetTables dropped))\<rparr>)) = s5"
    using importer by (intro state_eqI) (simp_all add: extcall_def s5)
  then have e5: "extcall (NewImporter (Addr (TikvImporter cfg)) (PdAddr (TiDB cfg)))
          (importer_NewImporter env (Addr (TikvImporter cfg)) (PdAddr (TiDB cfg))) id
          (s\<lparr>world := w4,
             trace := trace s @ [(OpenCheckpointsDB, None), (NewTiDBManager, None),
                                 (CpdbDestroyErrorCheckpoint tableName, None)] @ dropped,
             stderr := stderr s @ concat (map drop_lines (zip targetTables dropped))\<rparr>) = (None, s5)"
    using importer by (intro prod_eqI) simp_all
  have "checkpointErrorDestroy env cfg tableName s =
      Some (case (if last_error (dropped @ cleaned) = None
                  then cleanupMetas env cfg tableName s6
                  else (last_error (dropped @ cleaned), s6)) of
              (r, s') \<Rightarrow>
                (r, s'\<lparr>trace := trace s' @ [(ImporterClose, None), (TargetClose, None), (CpdbClose, None)]\<rparr>))"
    unfolding checkpointErrorDestroy_drops [OF opened manager destroyed drops]
    using backend e5 loop'
    by (simp add: deferredO_def ignored_def destroyLocalAndMetas_other [OF not_local]
        split: prod.split)
  then show ?thesis
    unfolding s6_def by (rule exI)
qed

text \<open>The whole run with another backend, when the fatal steps succeed.\<close>

lemma checkpointErrorDestroy_other_run:
  assumes backend: "Backend (TikvImporter cfg) \<noteq> ''importer''"
    and opened: "checkpoints_OpenCheckpointsDB env (world s) = (None, w1)"
    and manager: "restore_NewTiDBManager env w1 = (None, w2)"
    and destroyed: "cpdb_DestroyErrorCheckpoint env tableName w2 = (Inr targetTables, w3)"
    and ranges: "\<forall>table \<in> set targetTables. sint (MaxEngineID table) < 2147483647"
    and drops: "performed (map (drop_table env) targetTables) w3 = (dropped, w4)"
    and engines: "(if Backend (TikvImporter cfg) = ''local''
                   then performed (map (remove_local_files env cfg) (engines_of targetTables)) w4
                   else ([], w4)) = (cleaned, w5)"
  shows "\<exists>out. checkpointErrorDestroy env cfg tableName s =
      Some (case (if last_error (dropped @ cleaned) = None
                  then cleanupMetas env cfg tableName
                         (s\<lparr>world := w5,
                            trace := trace s @ [(OpenCheckpointsDB, None), (NewTiDBManager, None),
                                                (CpdbDestroyErrorCheckpoint tableName, None)] @ dropped @ cleaned,
                            stderr := stderr s @ concat (map drop_lines (zip targetTables dropped)) @ out\<rparr>)
                  else (last_error (dropped @ cleaned),
                        s\<lparr>world := w5,
                          trace := trace s @ [(OpenCheckpointsDB, None), (NewTiDBManager, None),
                                              (CpdbDestroyErrorCheckpoint tableName, None)] @ dropped @ cleaned,
                          stderr := stderr s @ concat (map drop_lines (zip targetTables dropped)) @ out\<rparr>)) of
              (r, s') \<Rightarrow> (r, s'\<lparr>trace := trace s' @ [(TargetClose, None), (CpdbClose, None)]\<rparr>))"
proof -
  define s4 where "s4 = s\<lparr>world := w4,
      trace := trace s @ [(OpenCheckpointsDB, None), (NewTiDBManager, None),
                          (CpdbDestroyErrorCheckpoint tableName, None)] @ dropped,
      stderr := stderr s @ concat (map drop_lines (zip targetTables dropped))\<rparr>"
  have s4: "world s4 = w4"
    "trace s4 = trace s @ [(OpenCheckpointsDB, None), (NewTiDBManager, None),
                          (CpdbDestroyErrorCheckpoint tableName, None)] @ dropped"
    "stderr s4 = stderr s @ concat (map drop_lines (zip targetTables dropped))"
    by (simp_all add: s4_def)
  define phase where "phase =
     (if Backend (TikvImporter cfg) = ''local''
      then forTables (\<lambda>table. forEngineID (MaxEngineID table) (localEngine env cfg table) (MinEngineID table))
             targetTables (last_error dropped, s4)
      else Some (last_error dropped, s4))"
  have "\<exists>st5. phase = Some st5 \<and> fst st5 = last_error (dropped @ cleaned) \<and> world (snd st5) = w5
      \<and> trace (snd st5) = trace s4 @ cleaned \<and> (\<exists>out. stderr (snd st5) = stderr s4 @ out)"
  proof (cases "Backend (TikvImporter cfg) = ''local''")
    case True
    from follows_engines [where step = "remove_local_files env cfg" and body = "localEngine env cfg"
        and st = "(last_error dropped, s4)", OF ranges follows_localEngine]
    obtain st5 where loop: "forTables (\<lambda>table. forEngineID (MaxEngineID table) (localEngine env cfg table) (MinEngineID table))
             targetTables (last_error dropped, s4) = Some st5"
      and f5: "follows (last_error dropped, s4) (performed (map (remove_local_files env cfg) (engines_of targetTables))) st5"
      by blast
    from engines True have "performed (map (remove_local_files env cfg) (engines_of targetTables)) w4 = (cleaned, w5)"
      by simp
    with f5 loop True show ?thesis
      by (auto simp: follows_def s4 phase_def last_error_append)
  next
    case False
    with engines show ?thesis
      by (auto simp: phase_def s4)
  qed
  then obtain st5 out where phase: "phase = Some st5"
    and err5: "fst st5 = last_error (dropped @ cleaned)"
    and world5: "world (snd st5) = w5"
    and trace5: "trace (snd st5) = trace s4 @ cleaned"
    and out: "stderr (snd st5) = stderr s4 @ out"
    by blast
  define s5 where "s5 = s\<lparr>world := w5,
                            trace := trace s @ [(OpenCheckpointsDB, None), (NewTiDBManager, None),
                                                (CpdbDestroyErrorCheckpoint tableName, None)] @ dropped @ cleaned,
                            stderr := stderr s @ concat (map drop_lines (zip targetTables dropped)) @ out\<rparr>"
  have "st5 = (last_error (dropped @ cleaned), s5)"
    by (intro prod_eqI state_eqI) (simp_all add: err5 world5 trace5 out s4 s5_def)
  with phase have phase': "phase = Some (last_error (dropped @ cleaned), s5)"
    by simp
  have tail: "destroyLocalAndMetas env cfg tableName targetTables (last_error dropped) s4 =
      Some (if last_error (dropped @ cleaned) = None then cleanupMetas env cfg tableName s5
            else (last_error (dropped @ cleaned), s5))"
    using phase' unfolding phase_def
    by (simp add: destroyLocalAndMetas_def Trace_def split: prod.split)
  have "checkpointErrorDestroy env cfg tableName s =
      Some (case (if last_error (dropped @ cleaned) = None
                  then cleanupMetas env cfg tableName s5
                  else (last_error (dropped @ cleaned), s5)) of
              (r, s') \<Rightarrow> (r, s'\<lparr>trace := trace s' @ [(TargetClose, None), (CpdbClose, None)]\<rparr>))"
    unfolding checkpointErrorDestroy_drops [OF opened manager destroyed drops]
    using backend tail [unfolded s4_def]
    by (simp add: deferredO_def ignored_def split: prod.split)
  then show ?thesis
    unfolding s5_def by (rule exI)
qed

subsection \<open>The calls of a whole run of checkpointErrorDestroy\<close>

lemma meta_call_kinds:
  "is_meta_call c \<Longrightarrow> \<not> is_importer_call c \<and> \<not> is_LocalFileCleanup c"
  by (cases c) simp_all

lemma dropped_calls:
  "map fst (fst (performed (map (drop_table env) targetTables) w)) =
     map (\<lambda>table. TargetDropTable (TableName table)) targetTables"
  by (induction targetTables arbitrary: w) (simp_all add: performed_Cons drop_table_def)

lemma dropped_kinds:
  "\<forall>ev \<in> set (fst (performed (map (drop_table env) targetTables) w)).
     \<not> is_importer_call (fst ev) \<and> \<not> is_LocalFileCleanup (fst ev)"
  by (rule performed_events) (simp add: drop_table_def)

lemma local_kinds:
  "\<forall>ev \<in> set (fst (performed (map (remove_local_files env cfg) engines) w)).
     \<not> is_importer_call (fst ev)"
  by (rule performed_events) (simp add: remove_local_files_def)

lemma importer_kinds:
  "\<forall>ev \<in> set (fst (performed (map (close_then_cleanup env) engines) w)).
     \<not> is_LocalFileCleanup (fst ev)"
  by (rule performed_events)
     (simp add: close_then_cleanup_def split: prod.split sum.split)

lemma closes_of_cleaned:
  "filter is_UnsafeCloseEngine (map fst (fst (performed (map (close_then_cleanup env) engines) w))) =
     map (\<lambda>engine. ImporterUnsafeCloseEngine (fst engine) (snd engine)) engines"
  by (induction engines arbitrary: w)
     (simp_all add: performed_Cons close_then_cleanup_def split: prod.split sum.split)

lemma metas_or_not:
  "\<exists>metas. trace (snd (if lastErr = None then cleanupMetas env cfg tableName s else (lastErr, s))) =
       trace s @ metas
     \<and> (\<forall>ev \<in> set metas. is_meta_call (fst ev))
     \<and> stderr (snd (if lastErr = None then cleanupMetas env cfg tableName s else (lastErr, s))) = stderr s"
  using cleanupMetas_trace [of env cfg tableName s] by (cases lastErr) auto

lemma checkpointErrorDestroy_importer_trace:
  assumes backend: "Backend (TikvImporter cfg) = ''importer''"
    and opened: "checkpoints_OpenCheckpointsDB env (world s) = (None, w1)"
    and manager: "restore_NewTiDBManager env w1 = (None, w2)"
    and destroyed: "cpdb_DestroyErrorCheckpoint env tableName w2 = (Inr targetTables, w3)"
    and ranges: "\<forall>table \<in> set targetTables. sint (MaxEngineID table) < 2147483647"
    and drops: "performed (map (drop_table env) targetTables) w3 = (dropped, w4)"
    and importer: "importer_NewImporter env (Addr (TikvImporter cfg)) (PdAddr (TiDB cfg)) w4 = (None, w5)"
    and engines: "performed (map (close_then_cleanup env) (engines_of targetTables)) w5 = (cleaned, w6)"
  shows "\<exists>r s' metas out.
      checkpointErrorDestroy env cfg tableName s = Some (r, s')
    \<and> trace s' = trace s @ [(OpenCheckpointsDB, None), (NewTiDBManager, None),
                             (CpdbDestroyErrorCheckpoint tableName, None)] @ dropped @
                    (NewImporter (Addr (TikvImporter cfg)) (PdAddr (TiDB cfg)), None) # cleaned @ metas @
                    [(ImporterClose, None), (TargetClose, None), (CpdbClose, None)]
    \<and> (\<forall>ev \<in> set metas. is_meta_call (fst ev))
    \<and> stderr s' = stderr s @ concat (map drop_lines (zip targetTables dropped)) @ out"
proof -
  from checkpointErrorDestroy_importer_run [OF assms]
  obtain out where run: "checkpointErrorDestroy env cfg tableName s =
      Some (case (if last_error (dropped @ cleaned) = None
                  then cleanupMetas env cfg tableName
                         (s\<lparr>world := w6,
                            trace := trace s @ [(OpenCheckpointsDB, None), (NewTiDBManager, None),
                                                (CpdbDestroyErrorCheckpoint tableName, None)] @ dropped @
                                       (NewImporter (Addr (TikvImporter cfg)) (PdAddr (TiDB cfg)), None) # cleaned,
                            stderr := stderr s @ concat (map drop_lines (zip targetTables dropped)) @ out\<rparr>)
                  else (last_error (dropped @ cleaned),
                        s\<lparr>world := w6,
                          trace := trace s @ [(OpenCheckpointsDB, None), (NewTiDBManager, None),
                                              (CpdbDestroyErrorCheckpoint tableName, None)] @ dropped @
                                     (NewImporter (Addr (TikvImporter cfg)) (PdAddr (TiDB cfg)), None) # cleaned,
                          stderr := stderr s @ concat (map drop_lines (zip targetTables dropped)) @ out\<rparr>)) of
              (r, s') \<Rightarrow>
                (r, s'\<lparr>trace := trace s' @ [(ImporterClose, None), (TargetClose, None), (CpdbClose, None)]\<rparr>))"
    by blast
  define s6 where "s6 = s\<lparr>world := w6,
                            trace := trace s @ [(OpenCheckpointsDB, None), (NewTiDBManager, None),
                                                (CpdbDestroyErrorCheckpoint tableName, None)] @ dropped @
                                       (NewImporter (Addr (TikvImporter cfg)) (PdAddr (TiDB cfg)), None) # cleaned,
                            stderr := stderr s @ concat (map drop_lines (zip targetTables dropped)) @ out\<rparr>"
  define X where "X = (if last_error (dropped @ cleaned) = None then cleanupMetas env cfg tableName s6
                       else (last_error (dropped @ cleaned), s6))"
  from metas_or_not [of "last_error (dropped @ cleaned)" env cfg tableName s6]
  obtain metas where tr: "trace (snd X) = trace s6 @ metas"
    and kinds: "\<forall>ev \<in> set metas. is_meta_call (fst ev)"
    and er: "stderr (snd X) = stderr s6"
    unfolding X_def by blast
  have run': "checkpointErrorDestroy env cfg tableName s =
      Some (fst X, (snd X)\<lparr>trace := trace (snd X) @ [(ImporterClose, None), (TargetClose, None), (CpdbClose, None)]\<rparr>)"
    unfolding run X_def s6_def by (simp split: prod.split)
  show ?thesis
    apply (rule exI [of _ "fst X"])
    apply (rule exI [of _ "(snd X)\<lparr>trace := trace (snd X) @ [(ImporterClose, None), (TargetClose, None), (CpdbClose, None)]\<rparr>"])
    apply (rule exI [of _ metas])
    apply (rule exI [of _ out])
    using kinds by (simp add: run' tr er s6_def)
qed

lemma checkpointErrorDestroy_other_trace:
  assumes backend: "Backend (TikvImporter cfg) \<noteq> ''importer''"
    and opened: "checkpoints_OpenCheckpointsDB env (world s) = (None, w1)"
    and manager: "restore_NewTiDBManager env w1 = (None, w2)"
    and destroyed: "cpdb_DestroyErrorCheckpoint env tableName w2 = (Inr targetTables, w3)"
    and ranges: "\<forall>table \<in> set targetTables. sint (MaxEngineID table) < 2147483647"
    and drops: "performed (map (drop_table env) targetTables) w3 = (dropped, w4)"
    and engines: "(if Backend (TikvImporter cfg) = ''local''
                   then performed (map (remove_local_files env cfg) (engines_of targetTables)) w4
                   else ([], w4)) = (cleaned, w5)"
  shows "\<exists>r s' metas out.
      checkpointErrorDestroy env cfg tableName s = Some (r, s')
    \<and> trace s' = trace s @ [(OpenCheckpointsDB, None), (NewTiDBManager, None),
                             (CpdbDestroyErrorCheckpoint tableName, None)] @ dropped @ cleaned @ metas @
                    [(TargetClose, None), (CpdbClose, None)]
    \<and> (\<forall>ev \<in> set metas. is_meta_call (fst ev))
    \<and> stderr s' = stderr s @ concat (map drop_lines (zip targetTables dropped)) @ out"
proof -
  from checkpointErrorDestroy_other_run [OF assms]
  obtain out where run: "checkpointErrorDestroy env cfg tableName s =
      Some (case (if last_error (dropped @ cleaned) = None
                  then cleanupMetas env cfg tableName
                         (s\<lparr>world := w5,
                            trace := trace s @ [(OpenCheckpointsDB, None), (NewTiDBManager, None),
                                                (CpdbDestroyErrorCheckpoint tableName, None)] @ dropped @ cleaned,
                            stderr := stderr s @ concat (map drop_lines (zip targetTables dropped)) @ out\<rparr>)
                  else (last_error (dropped @ cleaned),
                        s\<lparr>world := w5,
                          trace := trace s @ [(OpenCheckpointsDB, None), (NewTiDBManager, None),
                                              (CpdbDestroyErrorCheckpoint tableName, None)] @ dropped @ cleaned,
                          stderr := stderr s @ concat (map drop_lines (zip targetTables dropped)) @ out\<rparr>)) of
              (r, s') \<Rightarrow> (r, s'\<lparr>trace := trace s' @ [(TargetClose, None), (CpdbClose, None)]\<rparr>))"
    by blast
  define s5 where "s5 = s\<lparr>world := w5,
                            trace := trace s @ [(OpenCheckpointsDB, None), (NewTiDBManager, None),
                                                (CpdbDestroyErrorCheckpoint tableName, None)] @ dropped @ cleaned,
                            stderr := stderr s @ concat (map drop_lines (zip targetTables dropped)) @ out\<rparr>"
  define X where "X = (if last_error (dropped @ cleaned) = None then cleanupMetas env cfg tableName s5
                       else (last_error (dropped @ cleaned), s5))"
  from metas_or_not [of "last_error (dropped @ cleaned)" env cfg tableName s5]
  obtain metas where tr: "trace (snd X) = trace s5 @ metas"
    and kinds: "\<forall>ev \<in> set metas. is_meta_call (fst ev)"
    and er: "stderr (snd X) = stderr s5"
    unfolding X_def by blast
  have run': "checkpointErrorDestroy env cfg tableName s =
      Some (fst X, (snd X)\<lparr>trace := trace (snd X) @ [(TargetClose, None), (CpdbClose, None)]\<rparr>)"
    unfolding run X_def s5_def by (simp split: prod.split)
  show ?thesis
    apply (rule exI [of _ "fst X"])
    apply (rule exI [of _ "(snd X)\<lparr>trace := trace (snd X) @ [(TargetClose, None), (CpdbClose, None)]\<rparr>"])
    apply (rule exI [of _ metas])
    apply (rule exI [of _ out])
    using kinds by (simp add: run' tr er s5_def)
qed

lemma last_error_after_prelude:
  "last_error ([(c1, None), (c2, None), (c3, None)] @ evs) = last_error evs"
  by (simp add: last_error_def)

lemma engines_of_two_tables:
  "engines_of two_tables = [(''db.t1'', 0), (''db.t1'', 1), (''db.t2'', 5)]"
  by (simp add: engines_of_def two_tables_def engineIDs_def upto_rec1)

lemma ranges_two_tables: "\<forall>table \<in> set two_tables. sint (MaxEngineID table) < 2147483647"
  by (simp add: two_tables_def)

lemma showInt_1_5: "showInt 1 = ''1''" "showInt 5 = ''5''"
  by code_simp+

subsection \<open>checkpointErrorDestroy: the drops and the engines\<close>

text \<open>
  C3. When the fatal steps succeed and no engine range ends at the greatest \<open>int32\<close>:
  \<open>checkpointErrorDestroy\<close> calls \<open>DropTable\<close> for every table that \<open>DestroyErrorCheckpoint\<close>
  has returned, in order, each from the world that the drop before has left, whatever that
  drop answered; for every drop that fails, the line with the error is written to the error
  stream and the error becomes \<open>lastErr\<close>. The engine cleanup follows from the world that the
  drops have left: with the importer backend the importer is created and, when that succeeds,
  every engine is closed and cleaned up; with the local backend the local files of every
  engine are removed. The function returns, and what it returns is the last error among the
  calls from the drops on, \<open>nil\<close> when none of them failed.
\<close>

theorem checkpointErrorDestroy_drops_every_table:
  assumes opened: "checkpoints_OpenCheckpointsDB env (world s) = (None, w1)"
    and manager: "restore_NewTiDBManager env w1 = (None, w2)"
    and destroyed: "cpdb_DestroyErrorCheckpoint env tableName w2 = (Inr targetTables, w3)"
    and ranges: "\<forall>table \<in> set targetTables. sint (MaxEngineID table) < 2147483647"
    and drops: "performed (map (drop_table env) targetTables) w3 = (dropped, w4)"
  shows "map fst dropped = map (\<lambda>table. TargetDropTable (TableName table)) targetTables
       \<and> (\<forall>lastErr t. world t = w3 \<longrightarrow>
             dropTables env targetTables lastErr t =
               (fold record_error dropped lastErr,
                t\<lparr>world := w4, trace := trace t @ dropped,
                  stderr := stderr t @ concat (map drop_lines (zip targetTables dropped))\<rparr>))
       \<and> (\<exists>r s' after out.
             checkpointErrorDestroy env cfg tableName s = Some (r, s')
           \<and> trace s' = trace s @ [(OpenCheckpointsDB, None), (NewTiDBManager, None),
                                    (CpdbDestroyErrorCheckpoint tableName, None)] @ dropped @ after
           \<and> stderr s' = stderr s @ concat (map drop_lines (zip targetTables dropped)) @ out
           \<and> r = last_error (dropped @ after)
           \<and> (Backend (TikvImporter cfg) = ''importer'' \<longrightarrow>
                (\<exists>rest. after =
                   (NewImporter (Addr (TikvImporter cfg)) (PdAddr (TiDB cfg)),
                    fst (importer_NewImporter env (Addr (TikvImporter cfg)) (PdAddr (TiDB cfg)) w4)) # rest)
              \<and> (\<forall>w5. importer_NewImporter env (Addr (TikvImporter cfg)) (PdAddr (TiDB cfg)) w4 = (None, w5) \<longrightarrow>
                   (\<exists>rest. after =
                      (NewImporter (Addr (TikvImporter cfg)) (PdAddr (TiDB cfg)), None) #
                        fst (performed (map (close_then_cleanup env) (engines_of targetTables)) w5) @ rest)))
           \<and> (Backend (TikvImporter cfg) = ''local'' \<longrightarrow>
                (\<exists>rest. after =
                   fst (performed (map (remove_local_files env cfg) (engines_of targetTables)) w4) @ rest)))"
proof (intro conjI allI impI)
  from dropped_calls [of env targetTables w3] drops
  show "map fst dropped = map (\<lambda>table. TargetDropTable (TableName table)) targetTables"
    by simp
next
  fix lastErr and t :: "'a state"
  assume "world t = w3"
  with follows_dropTables [of lastErr t env targetTables] drops
  show "dropTables env targetTables lastErr t =
               (fold record_error dropped lastErr,
                t\<lparr>world := w4, trace := trace t @ dropped,
                  stderr := stderr t @ concat (map drop_lines (zip targetTables dropped))\<rparr>)"
    by (intro prod_eqI state_eqI) (simp_all add: follows_def)
next
  let ?run = "checkpointErrorDestroy env cfg tableName s"
  let ?prelude = "[(OpenCheckpointsDB, None), (NewTiDBManager, None),
                   (CpdbDestroyErrorCheckpoint tableName, None)]"
  let ?new = "NewImporter (Addr (TikvImporter cfg)) (PdAddr (TiDB cfg))"
  have returned: "r = last_error (dropped @ after)"
    if "?run = Some (r, s')" and "trace s' = trace s @ ?prelude @ dropped @ after" for r s' after
  proof -
    from checkpointErrorDestroy_returns_last_error [OF that(1)]
    obtain new where "trace s' = trace s @ new" and "r = last_error new"
      by blast
    with that(2) have "r = last_error (?prelude @ dropped @ after)"
      by simp
    then show ?thesis
      by (simp only: last_error_after_prelude)
  qed
  show "\<exists>r s' after out.
             ?run = Some (r, s')
           \<and> trace s' = trace s @ [(OpenCheckpointsDB, None), (NewTiDBManager, None),
                                    (CpdbDestroyErrorCheckpoint tableName, None)] @ dropped @ after
           \<and> stderr s' = stderr s @ concat (map drop_lines (zip targetTables dropped)) @ out
           \<and> r = last_error (dropped @ after)
           \<and> (Backend (TikvImporter cfg) = ''importer'' \<longrightarrow>
                (\<exists>rest. after =
                   (?new, fst (importer_NewImporter env (Addr (TikvImporter cfg)) (PdAddr (TiDB cfg)) w4)) # rest)
              \<and> (\<forall>w5. importer_NewImporter env (Addr (TikvImporter cfg)) (PdAddr (TiDB cfg)) w4 = (None, w5) \<longrightarrow>
                   (\<exists>rest. after =
                      (?new, None) #
                        fst (performed (map (close_then_cleanup env) (engines_of targetTables)) w5) @ rest)))
           \<and> (Backend (TikvImporter cfg) = ''local'' \<longrightarrow>
                (\<exists>rest. after =
                   fst (performed (map (remove_local_files env cfg) (engines_of targetTables)) w4) @ rest))"
  proof (cases "Backend (TikvImporter cfg) = ''importer''")
    case backend: True
    obtain r5 w5 where importer:
      "importer_NewImporter env (Addr (TikvImporter cfg)) (PdAddr (TiDB cfg)) w4 = (r5, w5)"
      by (cases "importer_NewImporter env (Addr (TikvImporter cfg)) (PdAddr (TiDB cfg)) w4")
    show ?thesis
    proof (cases r5)
      case (Some err)
      define s' where "s' = s\<lparr>world := w5,
              trace := trace s @ ?prelude @ dropped @
                         [(?new, Some err), (TargetClose, None), (CpdbClose, None)],
              stderr := stderr s @ concat (map drop_lines (zip targetTables dropped))\<rparr>"
      have run: "?run = Some (Some err, s')"
        unfolding s'_def
        by (rule checkpointErrorDestroy_no_importer [OF backend opened manager destroyed drops
              importer [unfolded Some]])
      have tr: "trace s' = trace s @ ?prelude @ dropped @
                         [(?new, Some err), (TargetClose, None), (CpdbClose, None)]"
        by (simp add: s'_def)
      show ?thesis
        apply (rule exI [of _ "Some err"])
        apply (rule exI [of _ s'])
        apply (rule exI [of _ "[(?new, Some err), (TargetClose, None), (CpdbClose, None)]"])
        apply (rule exI [of _ "[]"])
        using returned [OF run tr] backend
        by (simp add: run tr importer Some) (simp add: s'_def)
    next
      case None
      obtain cleaned w6 where engines:
        "performed (map (close_then_cleanup env) (engines_of targetTables)) w5 = (cleaned, w6)"
        by (cases "performed (map (close_then_cleanup env) (engines_of targetTables)) w5")
      from checkpointErrorDestroy_importer_trace [OF backend opened manager destroyed ranges drops
          importer [unfolded None] engines]
      obtain r s' metas out where run: "?run = Some (r, s')"
        and tr: "trace s' = trace s @ ?prelude @ dropped @
                    (?new, None) # cleaned @ metas @
                    [(ImporterClose, None), (TargetClose, None), (CpdbClose, None)]"
        and er: "stderr s' = stderr s @ concat (map drop_lines (zip targetTables dropped)) @ out"
        by blast
      have tr': "trace s' = trace s @ ?prelude @ dropped @
          ((?new, None) # cleaned @ metas @ [(ImporterClose, None), (TargetClose, None), (CpdbClose, None)])"
        using tr by simp
      show ?thesis
        apply (rule exI [of _ r])
        apply (rule exI [of _ s'])
        apply (rule exI [of _ "(?new, None) # cleaned @ metas @
                    [(ImporterClose, None), (TargetClose, None), (CpdbClose, None)]"])
        apply (rule exI [of _ out])
        using returned [OF run tr'] backend
        by (simp add: run tr er importer None engines)
    qed
  next
    case other: False
    obtain cleaned w5 where phase: "(if Backend (TikvImporter cfg) = ''local''
                   then performed (map (remove_local_files env cfg) (engines_of targetTables)) w4
                   else ([], w4)) = (cleaned, w5)"
      by (cases "(if Backend (TikvImporter cfg) = ''local''
                   then performed (map (remove_local_files env cfg) (engines_of targetTables)) w4
                   else ([], w4))")
    from checkpointErrorDestroy_other_trace [OF other opened manager destroyed ranges drops phase]
    obtain r s' metas out where run: "?run = Some (r, s')"
      and tr: "trace s' = trace s @ ?prelude @ dropped @ cleaned @ metas @
                    [(TargetClose, None), (CpdbClose, None)]"
      and er: "stderr s' = stderr s @ concat (map drop_lines (zip targetTables dropped)) @ out"
      by blast
    have tr': "trace s' = trace s @ ?prelude @ dropped @
        (cleaned @ metas @ [(TargetClose, None), (CpdbClose, None)])"
      using tr by simp
    show ?thesis
      apply (rule exI [of _ r])
      apply (rule exI [of _ s'])
      apply (rule exI [of _ "cleaned @ metas @ [(TargetClose, None), (CpdbClose, None)]"])
      apply (rule exI [of _ out])
      using returned [OF run tr'] other phase
      by (auto simp add: run tr er)
  qed
qed

theorem checkpointErrorDestroy_drops_every_table_witness:
  "checkpoints_OpenCheckpointsDB env_drop_fails (world start) = (None, ())
   \<and> restore_NewTiDBManager env_drop_fails () = (None, ())
   \<and> cpdb_DestroyErrorCheckpoint env_drop_fails ''all'' () = (Inr two_tables, ())
   \<and> performed (map (drop_table env_drop_fails) two_tables) () =
        ([(TargetDropTable ''db.t1'', Some (Error ''table is locked'')),
          (TargetDropTable ''db.t2'', None)], ())
   \<and> dropTables env_drop_fails two_tables None start =
        (Some (Error ''table is locked''),
         \<lparr>world = (),
          trace = [(TargetDropTable ''db.t1'', Some (Error ''table is locked'')),
                   (TargetDropTable ''db.t2'', None)],
          stderr = ''Dropping table: db.t1'' @ [newline]
                 @ ''* Encountered error while dropping table: table is locked'' @ [newline]
                 @ ''Dropping table: db.t2'' @ [newline]\<rparr>)
   \<and> (\<exists>r s' after out.
         checkpointErrorDestroy env_drop_fails cfg_local ''all'' start = Some (r, s')
       \<and> trace s' =
           [(OpenCheckpointsDB, None), (NewTiDBManager, None), (CpdbDestroyErrorCheckpoint ''all'', None),
            (TargetDropTable ''db.t1'', Some (Error ''table is locked'')),
            (TargetDropTable ''db.t2'', None)] @ after
       \<and> stderr s' = ''Dropping table: db.t1'' @ [newline]
                 @ ''* Encountered error while dropping table: table is locked'' @ [newline]
                 @ ''Dropping table: db.t2'' @ [newline] @ out
       \<and> r = last_error ([(TargetDropTable ''db.t1'', Some (Error ''table is locked'')),
                           (TargetDropTable ''db.t2'', None)] @ after)
       \<and> (\<exists>rest. after =
             [(LocalFileCleanup 0 ''/tmp/sorted-kv'', None), (LocalFileCleanup 1 ''/tmp/sorted-kv'', None),
              (LocalFileCleanup 5 ''/tmp/sorted-kv'', None)] @ rest))
   \<and> checkpointErrorDestroy env_drop_fails cfg_local ''all'' start =
        Some (Some (Error ''table is locked''),
          \<lparr>world = (),
           trace =
             [(OpenCheckpointsDB, None), (NewTiDBManager, None),
              (CpdbDestroyErrorCheckpoint ''all'', None),
              (TargetDropTable ''db.t1'', Some (Error ''table is locked'')),
              (TargetDropTable ''db.t2'', None),
              (LocalFileCleanup 0 ''/tmp/sorted-kv'', None), (LocalFileCleanup 1 ''/tmp/sorted-kv'', None),
              (LocalFileCleanup 5 ''/tmp/sorted-kv'', None),
              (TargetClose, None), (CpdbClose, None)],
           stderr = ''Dropping table: db.t1'' @ [newline]
                 @ ''* Encountered error while dropping table: table is locked'' @ [newline]
                 @ ''Dropping table: db.t2'' @ [newline]
                 @ ''Closing and cleaning up engine: db.t1 0'' @ [newline]
                 @ ''Closing and cleaning up engine: db.t1 1'' @ [newline]
                 @ ''Closing and cleaning up engine: db.t2 5'' @ [newline]\<rparr>)"
proof -
  have opened: "checkpoints_OpenCheckpointsDB env_drop_fails (world start) = (None, ())"
    by (simp add: env_drop_fails_def env_two_tables_def env_ok_def)
  have manager: "restore_NewTiDBManager env_drop_fails () = (None, ())"
    by (simp add: env_drop_fails_def env_two_tables_def env_ok_def)
  have destroyed: "cpdb_DestroyErrorCheckpoint env_drop_fails ''all'' () = (Inr two_tables, ())"
    by (simp add: env_drop_fails_def env_two_tables_def)
  have drops: "performed (map (drop_table env_drop_fails) two_tables) () =
        ([(TargetDropTable ''db.t1'', Some (Error ''table is locked'')),
          (TargetDropTable ''db.t2'', None)], ())"
    by (simp add: two_tables_def performed_Cons drop_table_def env_drop_fails_def)
  have engines: "performed (map (remove_local_files env_drop_fails cfg_local) (engines_of two_tables)) () =
        ([(LocalFileCleanup 0 ''/tmp/sorted-kv'', None), (LocalFileCleanup 1 ''/tmp/sorted-kv'', None),
          (LocalFileCleanup 5 ''/tmp/sorted-kv'', None)], ())"
    by (simp add: engines_of_two_tables performed_Cons remove_local_files_def env_drop_fails_def
        env_two_tables_def env_ok_def cfg_local_def cfg0_def)
  have local: "Backend (TikvImporter cfg_local) = ''local''"
    by (simp add: cfg_local_def)
  have drop_log: "concat (map drop_lines (zip two_tables
        [(TargetDropTable ''db.t1'', Some (Error ''table is locked'')), (TargetDropTable ''db.t2'', None)])) =
      ''Dropping table: db.t1'' @ [newline]
        @ ''* Encountered error while dropping table: table is locked'' @ [newline]
        @ ''Dropping table: db.t2'' @ [newline]"
    by (simp add: two_tables_def drop_lines_def)
  note main = checkpointErrorDestroy_drops_every_table [OF opened manager destroyed ranges_two_tables
      drops, where cfg = cfg_local]
  have at_start: "world start = ()"
    by simp
  from main [THEN conjunct2, THEN conjunct1, rule_format, OF at_start, of None]
  have dropped: "dropTables env_drop_fails two_tables None start =
        (Some (Error ''table is locked''),
         \<lparr>world = (),
          trace = [(TargetDropTable ''db.t1'', Some (Error ''table is locked'')),
                   (TargetDropTable ''db.t2'', None)],
          stderr = ''Dropping table: db.t1'' @ [newline]
                 @ ''* Encountered error while dropping table: table is locked'' @ [newline]
                 @ ''Dropping table: db.t2'' @ [newline]\<rparr>)"
    by (simp add: start_def drop_log)
  from main [THEN conjunct2, THEN conjunct2]
  have run: "\<exists>r s' after out.
         checkpointErrorDestroy env_drop_fails cfg_local ''all'' start = Some (r, s')
       \<and> trace s' =
           [(OpenCheckpointsDB, None), (NewTiDBManager, None), (CpdbDestroyErrorCheckpoint ''all'', None),
            (TargetDropTable ''db.t1'', Some (Error ''table is locked'')),
            (TargetDropTable ''db.t2'', None)] @ after
       \<and> stderr s' = ''Dropping table: db.t1'' @ [newline]
                 @ ''* Encountered error while dropping table: table is locked'' @ [newline]
                 @ ''Dropping table: db.t2'' @ [newline] @ out
       \<and> r = last_error ([(TargetDropTable ''db.t1'', Some (Error ''table is locked'')),
                           (TargetDropTable ''db.t2'', None)] @ after)
       \<and> (\<exists>rest. after =
             [(LocalFileCleanup 0 ''/tmp/sorted-kv'', None), (LocalFileCleanup 1 ''/tmp/sorted-kv'', None),
              (LocalFileCleanup 5 ''/tmp/sorted-kv'', None)] @ rest)"
    by (simp add: engines local drop_log start_def)
  have whole: "checkpointErrorDestroy env_drop_fails cfg_local ''all'' start =
        Some (Some (Error ''table is locked''),
          \<lparr>world = (),
           trace =
             [(OpenCheckpointsDB, None), (NewTiDBManager, None),
              (CpdbDestroyErrorCheckpoint ''all'', None),
              (TargetDropTable ''db.t1'', Some (Error ''table is locked'')),
              (TargetDropTable ''db.t2'', None),
              (LocalFileCleanup 0 ''/tmp/sorted-kv'', None), (LocalFileCleanup 1 ''/tmp/sorted-kv'', None),
              (LocalFileCleanup 5 ''/tmp/sorted-kv'', None),
              (TargetClose, None), (CpdbClose, None)],
           stderr = ''Dropping table: db.t1'' @ [newline]
                 @ ''* Encountered error while dropping table: table is locked'' @ [newline]
                 @ ''Dropping table: db.t2'' @ [newline]
                 @ ''Closing and cleaning up engine: db.t1 0'' @ [newline]
                 @ ''Closing and cleaning up engine: db.t1 1'' @ [newline]
                 @ ''Closing and cleaning up engine: db.t2 5'' @ [newline]\<rparr>)"
    by (simp add: checkpointErrorDestroy_def destroyLocalAndMetas_def env_drop_fails_def
        env_two_tables_def env_ok_def two_tables_def cfg_local_def cfg0_def start_def extcall_def
        errOf_def deferredO_def ignored_def Trace_def Let_def Fprintln_def forEngineID_eq
        engineIDs_def upto_rec1 localEngine_def showInt_0 showInt_1_5)
  from opened manager destroyed drops dropped run whole show ?thesis
    by blast
qed

text \<open>
  C6. With the importer backend, when the fatal steps succeed and no engine range ends at
  the greatest \<open>int32\<close>: after the drops and the creation of the importer, the function
  force-closes every engine of every returned table, for every identifier from
  \<open>MinEngineID\<close> to \<open>MaxEngineID\<close> in order, and calls \<open>Cleanup\<close> on the closed engine that
  the importer hands back; every engine is processed from the world that the engine before
  has left, whatever the outcome for that engine. The last error among the drops and the
  engines is \<open>lastErr\<close>: when there is none the metadata cleanup runs, otherwise that error
  is returned; then the importer, the manager and the checkpoint store are closed.
\<close>

theorem checkpointErrorDestroy_importer_engines:
  assumes backend: "Backend (TikvImporter cfg) = ''importer''"
    and opened: "checkpoints_OpenCheckpointsDB env (world s) = (None, w1)"
    and manager: "restore_NewTiDBManager env w1 = (None, w2)"
    and destroyed: "cpdb_DestroyErrorCheckpoint env tableName w2 = (Inr targetTables, w3)"
    and ranges: "\<forall>table \<in> set targetTables. sint (MaxEngineID table) < 2147483647"
    and drops: "performed (map (drop_table env) targetTables) w3 = (dropped, w4)"
    and importer: "importer_NewImporter env (Addr (TikvImporter cfg)) (PdAddr (TiDB cfg)) w4 = (None, w5)"
    and engines: "performed (map (close_then_cleanup env) (engines_of targetTables)) w5 = (cleaned, w6)"
  shows "filter is_UnsafeCloseEngine (map fst cleaned) =
           map (\<lambda>engine. ImporterUnsafeCloseEngine (fst engine) (snd engine)) (engines_of targetTables)
       \<and> (\<exists>out. checkpointErrorDestroy env cfg tableName s =
            Some (case (if last_error (dropped @ cleaned) = None
                        then cleanupMetas env cfg tableName
                               (s\<lparr>world := w6,
                                  trace := trace s @ [(OpenCheckpointsDB, None), (NewTiDBManager, None),
                                                      (CpdbDestroyErrorCheckpoint tableName, None)] @ dropped @
                                             (NewImporter (Addr (TikvImporter cfg)) (PdAddr (TiDB cfg)), None) # cleaned,
                                  stderr := stderr s @ concat (map drop_lines (zip targetTables dropped)) @ out\<rparr>)
                        else (last_error (dropped @ cleaned),
                              s\<lparr>world := w6,
                                trace := trace s @ [(OpenCheckpointsDB, None), (NewTiDBManager, None),
                                                    (CpdbDestroyErrorCheckpoint tableName, None)] @ dropped @
                                           (NewImporter (Addr (TikvImporter cfg)) (PdAddr (TiDB cfg)), None) # cleaned,
                                stderr := stderr s @ concat (map drop_lines (zip targetTables dropped)) @ out\<rparr>)) of
                    (r, s') \<Rightarrow>
                      (r, s'\<lparr>trace := trace s' @ [(ImporterClose, None), (TargetClose, None), (CpdbClose, None)]\<rparr>)))"
proof
  from closes_of_cleaned [of env "engines_of targetTables" w5] engines
  show "filter is_UnsafeCloseEngine (map fst cleaned) =
           map (\<lambda>engine. ImporterUnsafeCloseEngine (fst engine) (snd engine)) (engines_of targetTables)"
    by simp
  from assms show "\<exists>out. checkpointErrorDestroy env cfg tableName s =
            Some (case (if last_error (dropped @ cleaned) = None
                        then cleanupMetas env cfg tableName
                               (s\<lparr>world := w6,
                                  trace := trace s @ [(OpenCheckpointsDB, None), (NewTiDBManager, None),
                                                      (CpdbDestroyErrorCheckpoint tableName, None)] @ dropped @
                                             (NewImporter (Addr (TikvImporter cfg)) (PdAddr (TiDB cfg)), None) # cleaned,
                                  stderr := stderr s @ concat (map drop_lines (zip targetTables dropped)) @ out\<rparr>)
                        else (last_error (dropped @ cleaned),
                              s\<lparr>world := w6,
                                trace := trace s @ [(OpenCheckpointsDB, None), (NewTiDBManager, None),
                                                    (CpdbDestroyErrorCheckpoint tableName, None)] @ dropped @
                                           (NewImporter (Addr (TikvImporter cfg)) (PdAddr (TiDB cfg)), None) # cleaned,
                                stderr := stderr s @ concat (map drop_lines (zip targetTables dropped)) @ out\<rparr>)) of
                    (r, s') \<Rightarrow>
                      (r, s'\<lparr>trace := trace s' @ [(ImporterClose, None), (TargetClose, None), (CpdbClose, None)]\<rparr>))"
    by (rule checkpointErrorDestroy_importer_run)
qed

theorem checkpointErrorDestroy_importer_engines_witness:
  "Backend (TikvImporter cfg_importer) = ''importer''
   \<and> checkpoints_OpenCheckpointsDB env_close_fails (world start) = (None, ())
   \<and> restore_NewTiDBManager env_close_fails () = (None, ())
   \<and> cpdb_DestroyErrorCheckpoint env_close_fails ''all'' () = (Inr two_tables, ())
   \<and> performed (map (drop_table env_close_fails) two_tables) () =
        ([(TargetDropTable ''db.t1'', None), (TargetDropTable ''db.t2'', None)], ())
   \<and> importer_NewImporter env_close_fails (Addr (TikvImporter cfg_importer)) (PdAddr (TiDB cfg_importer)) () =
        (None, ())
   \<and> performed (map (close_then_cleanup env_close_fails) (engines_of two_tables)) () =
        ([(ImporterUnsafeCloseEngine ''db.t1'' 0, Some (Error ''engine not found'')),
          (ImporterUnsafeCloseEngine ''db.t1'' 1, None), (ClosedEngineCleanup (ClosedEngine 1), None),
          (ImporterUnsafeCloseEngine ''db.t2'' 5, None), (ClosedEngineCleanup (ClosedEngine 5), None)], ())
   \<and> (\<exists>out. checkpointErrorDestroy env_close_fails cfg_importer ''all'' start =
        Some (Some (Error ''engine not found''),
          \<lparr>world = (),
           trace =
             [(OpenCheckpointsDB, None), (NewTiDBManager, None),
              (CpdbDestroyErrorCheckpoint ''all'', None),
              (TargetDropTable ''db.t1'', None), (TargetDropTable ''db.t2'', None),
              (NewImporter ''importer:8287'' ''pd:2379'', None),
              (ImporterUnsafeCloseEngine ''db.t1'' 0, Some (Error ''engine not found'')),
              (ImporterUnsafeCloseEngine ''db.t1'' 1, None), (ClosedEngineCleanup (ClosedEngine 1), None),
              (ImporterUnsafeCloseEngine ''db.t2'' 5, None), (ClosedEngineCleanup (ClosedEngine 5), None),
              (ImporterClose, None), (TargetClose, None), (CpdbClose, None)],
           stderr = ''Dropping table: db.t1'' @ [newline] @ ''Dropping table: db.t2'' @ [newline] @ out\<rparr>))"
proof -
  have backend: "Backend (TikvImporter cfg_importer) = ''importer''"
    by (simp add: cfg_importer_def)
  have opened: "checkpoints_OpenCheckpointsDB env_close_fails (world start) = (None, ())"
    by (simp add: env_close_fails_def env_two_tables_def env_ok_def)
  have manager: "restore_NewTiDBManager env_close_fails () = (None, ())"
    by (simp add: env_close_fails_def env_two_tables_def env_ok_def)
  have destroyed: "cpdb_DestroyErrorCheckpoint env_close_fails ''all'' () = (Inr two_tables, ())"
    by (simp add: env_close_fails_def env_two_tables_def)
  have drops: "performed (map (drop_table env_close_fails) two_tables) () =
        ([(TargetDropTable ''db.t1'', None), (TargetDropTable ''db.t2'', None)], ())"
    by (simp add: two_tables_def performed_Cons drop_table_def env_close_fails_def
        env_two_tables_def env_ok_def)
  have importer: "importer_NewImporter env_close_fails (Addr (TikvImporter cfg_importer)) (PdAddr (TiDB cfg_importer)) () =
        (None, ())"
    by (simp add: env_close_fails_def env_two_tables_def env_ok_def)
  have engines: "performed (map (close_then_cleanup env_close_fails) (engines_of two_tables)) () =
        ([(ImporterUnsafeCloseEngine ''db.t1'' 0, Some (Error ''engine not found'')),
          (ImporterUnsafeCloseEngine ''db.t1'' 1, None), (ClosedEngineCleanup (ClosedEngine 1), None),
          (ImporterUnsafeCloseEngine ''db.t2'' 5, None), (ClosedEngineCleanup (ClosedEngine 5), None)], ())"
    by (simp add: engines_of_two_tables performed_Cons close_then_cleanup_def env_close_fails_def
        env_two_tables_def env_ok_def)
  from checkpointErrorDestroy_importer_engines [OF backend opened manager destroyed ranges_two_tables
      drops importer engines, THEN conjunct2]
  have run: "\<exists>out. checkpointErrorDestroy env_close_fails cfg_importer ''all'' start =
        Some (Some (Error ''engine not found''),
          \<lparr>world = (),
           trace =
             [(OpenCheckpointsDB, None), (NewTiDBManager, None),
              (CpdbDestroyErrorCheckpoint ''all'', None),
              (TargetDropTable ''db.t1'', None), (TargetDropTable ''db.t2'', None),
              (NewImporter ''importer:8287'' ''pd:2379'', None),
              (ImporterUnsafeCloseEngine ''db.t1'' 0, Some (Error ''engine not found'')),
              (ImporterUnsafeCloseEngine ''db.t1'' 1, None), (ClosedEngineCleanup (ClosedEngine 1), None),
              (ImporterUnsafeCloseEngine ''db.t2'' 5, None), (ClosedEngineCleanup (ClosedEngine 5), None),
              (ImporterClose, None), (TargetClose, None), (CpdbClose, None)],
           stderr = ''Dropping table: db.t1'' @ [newline] @ ''Dropping table: db.t2'' @ [newline] @ out\<rparr>)"
    by (simp add: last_error_def start_def two_tables_def drop_lines_def cfg_importer_def cfg0_def)
  from backend opened manager destroyed drops importer engines run show ?thesis
    by blast
qed

text \<open>
  C7. When the fatal steps succeed and no engine range ends at the greatest \<open>int32\<close>: with
  the local backend, after the drops the function removes the local files of every engine
  of every returned table, for every identifier from \<open>MinEngineID\<close> to \<open>MaxEngineID\<close> in
  order, under the UUID that \<open>MakeUUID\<close> makes from the name of the table and the
  identifier and in the directory \<open>SortedKVDir\<close>; the last error among the drops and the
  removals is \<open>lastErr\<close>, as for the importer. No importer is created and no call is made on
  an importer or on a closed engine in such a run; and with the importer backend no local
  file is removed: the two branches exclude each other.
\<close>

theorem checkpointErrorDestroy_local_engines:
  assumes opened: "checkpoints_OpenCheckpointsDB env (world s) = (None, w1)"
    and manager: "restore_NewTiDBManager env w1 = (None, w2)"
    and destroyed: "cpdb_DestroyErrorCheckpoint env tableName w2 = (Inr targetTables, w3)"
    and ranges: "\<forall>table \<in> set targetTables. sint (MaxEngineID table) < 2147483647"
    and drops: "performed (map (drop_table env) targetTables) w3 = (dropped, w4)"
  shows "(Backend (TikvImporter cfg) = ''local'' \<longrightarrow>
           (\<forall>cleaned w5.
              performed (map (remove_local_files env cfg) (engines_of targetTables)) w4 = (cleaned, w5) \<longrightarrow>
                map fst cleaned =
                  map (\<lambda>engine. LocalFileCleanup (snd (backend_MakeUUID env (fst engine) (snd engine)))
                                   (SortedKVDir (TikvImporter cfg))) (engines_of targetTables)
              \<and> (\<exists>out. checkpointErrorDestroy env cfg tableName s =
                   Some (case (if last_error (dropped @ cleaned) = None
                               then cleanupMetas env cfg tableName
                                      (s\<lparr>world := w5,
                                         trace := trace s @ [(OpenCheckpointsDB, None), (NewTiDBManager, None),
                                                             (CpdbDestroyErrorCheckpoint tableName, None)] @
                                                    dropped @ cleaned,
                                         stderr := stderr s @ concat (map drop_lines (zip targetTables dropped)) @ out\<rparr>)
                               else (last_error (dropped @ cleaned),
                                     s\<lparr>world := w5,
                                       trace := trace s @ [(OpenCheckpointsDB, None), (NewTiDBManager, None),
                                                           (CpdbDestroyErrorCheckpoint tableName, None)] @
                                                  dropped @ cleaned,
                                       stderr := stderr s @ concat (map drop_lines (zip targetTables dropped)) @ out\<rparr>)) of
                           (r, s') \<Rightarrow> (r, s'\<lparr>trace := trace s' @ [(TargetClose, None), (CpdbClose, None)]\<rparr>))))
         \<and> (\<forall>r s'. checkpointErrorDestroy env cfg tableName s = Some (r, s') \<longrightarrow>
               (\<forall>ev \<in> set (drop (length (trace s)) (trace s')). \<not> is_importer_call (fst ev))))
       \<and> (Backend (TikvImporter cfg) = ''importer'' \<longrightarrow>
           (\<forall>r s'. checkpointErrorDestroy env cfg tableName s = Some (r, s') \<longrightarrow>
               (\<forall>ev \<in> set (drop (length (trace s)) (trace s')). \<not> is_LocalFileCleanup (fst ev))))"
proof (intro conjI impI allI)
  fix cleaned w5
  assume local: "Backend (TikvImporter cfg) = ''local''"
    and engines: "performed (map (remove_local_files env cfg) (engines_of targetTables)) w4 = (cleaned, w5)"
  have "map fst (fst (performed (map (remove_local_files env cfg) engines) w)) =
      map (\<lambda>engine. LocalFileCleanup (snd (backend_MakeUUID env (fst engine) (snd engine)))
                       (SortedKVDir (TikvImporter cfg))) engines" for engines w
    by (induction engines arbitrary: w) (simp_all add: performed_Cons remove_local_files_def)
  from this [of "engines_of targetTables" w4] engines
  show "map fst cleaned =
      map (\<lambda>engine. LocalFileCleanup (snd (backend_MakeUUID env (fst engine) (snd engine)))
                       (SortedKVDir (TikvImporter cfg))) (engines_of targetTables)"
    by simp
  have other: "Backend (TikvImporter cfg) \<noteq> ''importer''"
    using local by simp
  have phase: "(if Backend (TikvImporter cfg) = ''local''
                   then performed (map (remove_local_files env cfg) (engines_of targetTables)) w4
                   else ([], w4)) = (cleaned, w5)"
    using local engines by simp
  from checkpointErrorDestroy_other_run [OF other opened manager destroyed ranges drops phase]
  show "\<exists>out. checkpointErrorDestroy env cfg tableName s =
                   Some (case (if last_error (dropped @ cleaned) = None
                               then cleanupMetas env cfg tableName
                                      (s\<lparr>world := w5,
                                         trace := trace s @ [(OpenCheckpointsDB, None), (NewTiDBManager, None),
                                                             (CpdbDestroyErrorCheckpoint tableName, None)] @
                                                    dropped @ cleaned,
                                         stderr := stderr s @ concat (map drop_lines (zip targetTables dropped)) @ out\<rparr>)
                               else (last_error (dropped @ cleaned),
                                     s\<lparr>world := w5,
                                       trace := trace s @ [(OpenCheckpointsDB, None), (NewTiDBManager, None),
                                                           (CpdbDestroyErrorCheckpoint tableName, None)] @
                                                  dropped @ cleaned,
                                       stderr := stderr s @ concat (map drop_lines (zip targetTables dropped)) @ out\<rparr>)) of
                           (r, s') \<Rightarrow> (r, s'\<lparr>trace := trace s' @ [(TargetClose, None), (CpdbClose, None)]\<rparr>))" .
next
  fix r s'
  assume local: "Backend (TikvImporter cfg) = ''local''"
    and run: "checkpointErrorDestroy env cfg tableName s = Some (r, s')"
  obtain cleaned w5 where engines:
    "performed (map (remove_local_files env cfg) (engines_of targetTables)) w4 = (cleaned, w5)"
    by (cases "performed (map (remove_local_files env cfg) (engines_of targetTables)) w4")
  have other: "Backend (TikvImporter cfg) \<noteq> ''importer''"
    using local by simp
  have phase: "(if Backend (TikvImporter cfg) = ''local''
                   then performed (map (remove_local_files env cfg) (engines_of targetTables)) w4
                   else ([], w4)) = (cleaned, w5)"
    using local engines by simp
  from checkpointErrorDestroy_other_trace [OF other opened manager destroyed ranges drops phase] run
  obtain metas where tr: "trace s' = trace s @ [(OpenCheckpointsDB, None), (NewTiDBManager, None),
                             (CpdbDestroyErrorCheckpoint tableName, None)] @ dropped @ cleaned @ metas @
                    [(TargetClose, None), (CpdbClose, None)]"
    and kinds: "\<forall>ev \<in> set metas. is_meta_call (fst ev)"
    by auto
  from dropped_kinds [of env targetTables w3] drops
  have d: "\<forall>ev \<in> set dropped. \<not> is_importer_call (fst ev)" by simp
  from local_kinds [of env cfg "engines_of targetTables" w4] engines
  have c: "\<forall>ev \<in> set cleaned. \<not> is_importer_call (fst ev)" by simp
  from kinds have m: "\<forall>ev \<in> set metas. \<not> is_importer_call (fst ev)"
    by (auto dest: meta_call_kinds)
  from d c m show "\<forall>ev \<in> set (drop (length (trace s)) (trace s')). \<not> is_importer_call (fst ev)"
    by (auto simp: tr)
next
  fix r s'
  assume backend: "Backend (TikvImporter cfg) = ''importer''"
    and run: "checkpointErrorDestroy env cfg tableName s = Some (r, s')"
  obtain r5 w5 where importer:
    "importer_NewImporter env (Addr (TikvImporter cfg)) (PdAddr (TiDB cfg)) w4 = (r5, w5)"
    by (cases "importer_NewImporter env (Addr (TikvImporter cfg)) (PdAddr (TiDB cfg)) w4")
  from dropped_kinds [of env targetTables w3] drops
  have d: "\<forall>ev \<in> set dropped. \<not> is_LocalFileCleanup (fst ev)" by simp
  show "\<forall>ev \<in> set (drop (length (trace s)) (trace s')). \<not> is_LocalFileCleanup (fst ev)"
  proof (cases r5)
    case (Some err)
    from checkpointErrorDestroy_no_importer [OF backend opened manager destroyed drops importer [unfolded Some]] run
    have "trace s' = trace s @ [(OpenCheckpointsDB, None), (NewTiDBManager, None),
                                  (CpdbDestroyErrorCheckpoint tableName, None)] @ dropped @
                         [(NewImporter (Addr (TikvImporter cfg)) (PdAddr (TiDB cfg)), Some err),
                          (TargetClose, None), (CpdbClose, None)]"
      by auto
    with d show ?thesis by auto
  next
    case None
    obtain cleaned w6 where engines:
      "performed (map (close_then_cleanup env) (engines_of targetTables)) w5 = (cleaned, w6)"
      by (cases "performed (map (close_then_cleanup env) (engines_of targetTables)) w5")
    from checkpointErrorDestroy_importer_trace [OF backend opened manager destroyed ranges drops
        importer [unfolded None] engines] run
    obtain metas where tr: "trace s' = trace s @ [(OpenCheckpointsDB, None), (NewTiDBManager, None),
                             (CpdbDestroyErrorCheckpoint tableName, None)] @ dropped @
                    (NewImporter (Addr (TikvImporter cfg)) (PdAddr (TiDB cfg)), None) # cleaned @ metas @
                    [(ImporterClose, None), (TargetClose, None), (CpdbClose, None)]"
      and kinds: "\<forall>ev \<in> set metas. is_meta_call (fst ev)"
      by auto
    from importer_kinds [of env "engines_of targetTables" w5] engines
    have c: "\<forall>ev \<in> set cleaned. \<not> is_LocalFileCleanup (fst ev)" by simp
    from kinds have m: "\<forall>ev \<in> set metas. \<not> is_LocalFileCleanup (fst ev)"
      by (auto dest: meta_call_kinds)
    from d c m show ?thesis
      by (auto simp: tr)
  qed
qed

theorem checkpointErrorDestroy_local_engines_witness:
  "checkpoints_OpenCheckpointsDB env_two_tables (world start) = (None, ())
   \<and> restore_NewTiDBManager env_two_tables () = (None, ())
   \<and> cpdb_DestroyErrorCheckpoint env_two_tables ''all'' () = (Inr two_tables, ())
   \<and> performed (map (drop_table env_two_tables) two_tables) () =
        ([(TargetDropTable ''db.t1'', None), (TargetDropTable ''db.t2'', None)], ())
   \<and> Backend (TikvImporter cfg_local) = ''local''
   \<and> performed (map (remove_local_files env_two_tables cfg_local) (engines_of two_tables)) () =
        ([(LocalFileCleanup 0 ''/tmp/sorted-kv'', None), (LocalFileCleanup 1 ''/tmp/sorted-kv'', None),
          (LocalFileCleanup 5 ''/tmp/sorted-kv'', None)], ())
   \<and> (\<exists>out. checkpointErrorDestroy env_two_tables cfg_local ''all'' start =
        Some (None,
          \<lparr>world = (),
           trace =
             [(OpenCheckpointsDB, None), (NewTiDBManager, None),
              (CpdbDestroyErrorCheckpoint ''all'', None),
              (TargetDropTable ''db.t1'', None), (TargetDropTable ''db.t2'', None),
              (LocalFileCleanup 0 ''/tmp/sorted-kv'', None), (LocalFileCleanup 1 ''/tmp/sorted-kv'', None),
              (LocalFileCleanup 5 ''/tmp/sorted-kv'', None),
              (DBFromConfig, None),
              (TableExists ''lightning_metadata'' ''table_meta'', None),
              (RemoveTableMetaByTableName ''lightning_metadata.table_meta'' [], None),
              (TableExists ''lightning_metadata'' ''task_meta'', None),
              (MaybeCleanupAllMetas ''lightning_metadata'' True, None),
              (TargetClose, None), (CpdbClose, None)],
           stderr = ''Dropping table: db.t1'' @ [newline] @ ''Dropping table: db.t2'' @ [newline] @ out\<rparr>))
   \<and> (\<exists>r s'. checkpointErrorDestroy env_two_tables cfg_local ''all'' start = Some (r, s')
          \<and> filter (\<lambda>ev. is_importer_call (fst ev)) (trace s') = [])
   \<and> Backend (TikvImporter cfg_importer) = ''importer''
   \<and> (\<exists>r s'. checkpointErrorDestroy env_two_tables cfg_importer ''all'' start = Some (r, s')
          \<and> filter (\<lambda>ev. is_LocalFileCleanup (fst ev)) (trace s') = [])"
proof -
  have opened: "checkpoints_OpenCheckpointsDB env_two_tables (world start) = (None, ())"
    by (simp add: env_two_tables_def env_ok_def)
  have manager: "restore_NewTiDBManager env_two_tables () = (None, ())"
    by (simp add: env_two_tables_def env_ok_def)
  have destroyed: "cpdb_DestroyErrorCheckpoint env_two_tables ''all'' () = (Inr two_tables, ())"
    by (simp add: env_two_tables_def)
  have drops: "performed (map (drop_table env_two_tables) two_tables) () =
        ([(TargetDropTable ''db.t1'', None), (TargetDropTable ''db.t2'', None)], ())"
    by (simp add: two_tables_def performed_Cons drop_table_def env_two_tables_def env_ok_def)
  have local: "Backend (TikvImporter cfg_local) = ''local''"
    by (simp add: cfg_local_def)
  have engines: "performed (map (remove_local_files env_two_tables cfg_local) (engines_of two_tables)) () =
        ([(LocalFileCleanup 0 ''/tmp/sorted-kv'', None), (LocalFileCleanup 1 ''/tmp/sorted-kv'', None),
          (LocalFileCleanup 5 ''/tmp/sorted-kv'', None)], ())"
    by (simp add: engines_of_two_tables performed_Cons remove_local_files_def env_two_tables_def
        env_ok_def cfg_local_def cfg0_def)
  note with_local = checkpointErrorDestroy_local_engines [OF opened manager destroyed ranges_two_tables
      drops, where cfg = cfg_local, THEN conjunct1, THEN mp, OF local]
  from with_local [THEN conjunct1, rule_format, OF engines, THEN conjunct2]
  have run: "\<exists>out. checkpointErrorDestroy env_two_tables cfg_local ''all'' start =
        Some (None,
          \<lparr>world = (),
           trace =
             [(OpenCheckpointsDB, None), (NewTiDBManager, None),
              (CpdbDestroyErrorCheckpoint ''all'', None),
              (TargetDropTable ''db.t1'', None), (TargetDropTable ''db.t2'', None),
              (LocalFileCleanup 0 ''/tmp/sorted-kv'', None), (LocalFileCleanup 1 ''/tmp/sorted-kv'', None),
              (LocalFileCleanup 5 ''/tmp/sorted-kv'', None),
              (DBFromConfig, None),
              (TableExists ''lightning_metadata'' ''table_meta'', None),
              (RemoveTableMetaByTableName ''lightning_metadata.table_meta'' [], None),
              (TableExists ''lightning_metadata'' ''task_meta'', None),
              (MaybeCleanupAllMetas ''lightning_metadata'' True, None),
              (TargetClose, None), (CpdbClose, None)],
           stderr = ''Dropping table: db.t1'' @ [newline] @ ''Dropping table: db.t2'' @ [newline] @ out\<rparr>)"
    by (simp add: last_error_def start_def two_tables_def drop_lines_def cfg_local_def cfg0_def
        cleanupMetas_def extcall_def errOf_def Trace_def Let_def env_two_tables_def env_ok_def)
  then obtain r s' where returned: "checkpointErrorDestroy env_two_tables cfg_local ''all'' start = Some (r, s')"
    by blast
  from with_local [THEN conjunct2, rule_format, OF returned]
  have "filter (\<lambda>ev. is_importer_call (fst ev)) (trace s') = []"
    by (simp add: start_def filter_empty_conv)
  with returned have no_importer:
    "\<exists>r s'. checkpointErrorDestroy env_two_tables cfg_local ''all'' start = Some (r, s')
          \<and> filter (\<lambda>ev. is_importer_call (fst ev)) (trace s') = []"
    by blast
  have backend: "Backend (TikvImporter cfg_importer) = ''importer''"
    by (simp add: cfg_importer_def)
  have "checkpointErrorDestroy env_two_tables cfg_importer ''all'' start \<noteq> None"
    by (rule checkpointErrorDestroy_returns) (auto simp: env_two_tables_def two_tables_def)
  then obtain r2 s2 where returned2:
    "checkpointErrorDestroy env_two_tables cfg_importer ''all'' start = Some (r2, s2)"
    by auto
  from checkpointErrorDestroy_local_engines [OF opened manager destroyed ranges_two_tables
      drops, where cfg = cfg_importer, THEN conjunct2, THEN mp, OF backend, rule_format, OF returned2]
  have "filter (\<lambda>ev. is_LocalFileCleanup (fst ev)) (trace s2) = []"
    by (simp add: start_def filter_empty_conv)
  with returned2 have no_local:
    "\<exists>r s'. checkpointErrorDestroy env_two_tables cfg_importer ''all'' start = Some (r, s')
          \<and> filter (\<lambda>ev. is_LocalFileCleanup (fst ev)) (trace s') = []"
    by blast
  from opened manager destroyed drops local engines run no_importer backend no_local show ?thesis
    by blast
qed

end
